theory Spec2Isabelle
  imports Main
begin

section \<open>JavaScript values and strings\<close>

text \<open>
  The text fields of a slide descriptor are arbitrary JavaScript values supplied by the
  caller. The model keeps the primitive values: \<open>undefined\<close> (also the value of an absent
  field), \<open>null\<close>, booleans, integral numbers and strings. \<open>truthy\<close> is JavaScript's
  \<open>ToBoolean\<close> on them and \<open>js_String\<close> is \<open>String(v)\<close>, for the numbers that
  JavaScript prints without an exponent (of magnitude below \<open>10^21\<close>).
\<close>

datatype jsval = JUndefined | JNull | JBool bool | JNum int | JStr string

fun truthy :: "jsval \<Rightarrow> bool" where
  "truthy JUndefined = False"
| "truthy JNull = False"
| "truthy (JBool b) = b"
| "truthy (JNum n) = (n \<noteq> 0)"
| "truthy (JStr s) = (s \<noteq> [])"

definition digit_char :: "nat \<Rightarrow> char" where
  "digit_char d = ''0123456789'' ! d"

function show_nat :: "nat \<Rightarrow> string" where
  "show_nat n = (if n < 10 then [digit_char n] else show_nat (n div 10) @ [digit_char (n mod 10)])"
  by pat_completeness auto
termination
  by (relation "measure id") auto

declare show_nat.simps [simp del]

definition show_int :: "int \<Rightarrow> string" where
  "show_int i = (if i < 0 then ''-'' @ show_nat (nat (- i)) else show_nat (nat i))"

fun js_String :: "jsval \<Rightarrow> string" where
  "js_String JUndefined = ''undefined''"
| "js_String JNull = ''null''"
| "js_String (JBool b) = (if b then ''true'' else ''false'')"
| "js_String (JNum n) = show_int n"
| "js_String (JStr s) = s"

text \<open>
  Reading a property of an object written as a literal: the value written for the key,
  or, for a key that the literal does not have, the member that every object inherits
  under that name, if there is one. Every inherited member is truthy: a function, and
  for \<open>__proto__\<close> the prototype object.
\<close>

datatype 'a property = Own 'a | Inherited | Missing

definition Object_prototype :: "string list" where
  "Object_prototype =
     [''constructor'', ''__defineGetter__'', ''__defineSetter__'', ''hasOwnProperty'',
      ''__lookupGetter__'', ''__lookupSetter__'', ''isPrototypeOf'', ''propertyIsEnumerable'',
      ''toString'', ''valueOf'', ''__proto__'', ''toLocaleString'']"

definition get_property :: "(string \<times> 'a) list \<Rightarrow> string \<Rightarrow> 'a property" where
  "get_property obj key =
     (case map_of obj key of
        Some v \<Rightarrow> Own v
      | None \<Rightarrow> if key \<in> set Object_prototype then Inherited else Missing)"

text \<open>
  \<open>String\<close> of an inherited member, as Node prints it: the source text of a native
  function, whose name is the key (\<open>Object\<close> for the constructor), and \<open>[object Object]\<close>
  for the prototype object.
\<close>

definition inherited_text :: "string \<Rightarrow> string" where
  "inherited_text key =
     (if key = ''__proto__'' then ''[object Object]''
      else ''function '' @ (if key = ''constructor'' then ''Object'' else key) @
           ''() { [native code] }'')"

text \<open>\<open>xs.join(sep)\<close> on an array of strings.\<close>

fun join :: "string \<Rightarrow> string list \<Rightarrow> string" where
  "join sep [] = []"
| "join sep [x] = x"
| "join sep (x # y # ys) = x @ sep @ join sep (y # ys)"

text \<open>\<open>s.replace(/c/g, r)\<close> for a single character \<open>c\<close>: every occurrence is replaced.\<close>

definition replace_all :: "char \<Rightarrow> string \<Rightarrow> string \<Rightarrow> string" where
  "replace_all c r s = concat (map (\<lambda>x. if x = c then r else [x]) s)"

section \<open>Slide templates (lib/slide-templates.cjs)\<close>

definition esc :: "jsval \<Rightarrow> string" where
  \<open>esc str =
     (if \<not> truthy str then []
      else replace_all (CHR ''"'') ''&quot;''
            (replace_all (CHR ''>'') ''&gt;''
              (replace_all (CHR ''<'') ''&lt;''
                (replace_all (CHR ''&'') ''&amp;'' (js_String str)))))\<close>

datatype metric = Metric (mvalue: jsval) (mlabel: jsval)

datatype feature = Feature (ftitle: jsval) (fdescription: jsval)

text \<open>
  A slide descriptor: its \<open>type\<close> and the type-specific fields the templates read. A list
  field is \<open>None\<close> when the descriptor has no such field.
\<close>

record slide =
  type :: string
  title :: jsval
  subtitle :: jsval
  date :: jsval
  bullets :: "jsval list option"
  metrics :: "metric list option"
  chartLabel :: jsval
  features :: "feature list option"
  heading :: jsval
  contactLines :: "jsval list option"

text \<open>The object handed to a template: the descriptor's fields and \<open>bgImage\<close>.\<close>

record slideData = slide +
  bgImage :: string

definition SLIDE_W :: nat where "SLIDE_W = 720"

definition SLIDE_H :: nat where "SLIDE_H = 405"

definition baseStyles :: string where
  \<open>baseStyles =
     ''\<newline>'' @
     ''    * { margin: 0; padding: 0; box-sizing: border-box; }\<newline>'' @
     ''    body {\<newline>'' @
     ''      width: '' @ show_nat SLIDE_W @ ''pt;\<newline>'' @
     ''      height: '' @ show_nat SLIDE_H @ ''pt;\<newline>'' @
     ''      font-family: Arial, Helvetica, sans-serif;\<newline>'' @
     ''      color: #ffffff;\<newline>'' @
     ''      overflow: hidden;\<newline>'' @
     ''      position: relative;\<newline>'' @
     ''      background-size: cover;\<newline>'' @
     ''      background-position: center;\<newline>'' @
     ''    }\<newline>'' @
     ''  ''\<close>

definition wrapSlide :: "string \<Rightarrow> string \<Rightarrow> string \<Rightarrow> string \<Rightarrow> string" where
  \<open>wrapSlide bgImagePath overlayDivs innerHtml extraStyles =
     ''<!DOCTYPE html>\<newline>'' @
     ''<html lang="ru">\<newline>'' @
     ''<head><meta charset="UTF-8"><style>\<newline>'' @
     baseStyles @ ''\<newline>'' @
     (if extraStyles \<noteq> [] then extraStyles else []) @ ''\<newline>'' @
     ''</style></head>\<newline>'' @
     ''<body style="background-image: url('' @ [CHR 0x27] @ bgImagePath @ [CHR 0x27] @ '');">\<newline>'' @
     overlayDivs @ ''\<newline>'' @
     innerHtml @ ''\<newline>'' @
     ''</body></html>''\<close>

definition overlay :: string where
  \<open>overlay = ''<div class="overlay"></div>''\<close>

definition or_empty :: "'a list option \<Rightarrow> 'a list" where
  "or_empty xs = (case xs of None \<Rightarrow> [] | Some ys \<Rightarrow> ys)"

definition titleSlide_extra :: string where
  \<open>titleSlide_extra =
     ''\<newline>'' @
     ''    .overlay { position: absolute; top: 0; left: 0; width: 100%; '' @
     ''height: 100%; background: rgba(0,0,0,0.45); }\<newline>'' @
     ''    h1 { position: absolute; top: 140pt; left: 60pt; width: 600pt; '' @
     ''text-align: center; font-size: 38pt; font-weight: 700; '' @
     ''line-height: 1.2; }\<newline>'' @
     ''    .subtitle { position: absolute; top: 200pt; left: 80pt; '' @
     ''width: 560pt; text-align: center; font-size: 19pt; font-weight: 400; '' @
     ''line-height: 1.4; color: rgba(255,255,255,0.9); }\<newline>'' @
     ''    .date { position: absolute; top: 260pt; left: 80pt; width: 560pt; '' @
     ''text-align: center; font-size: 13pt; color: rgba(255,255,255,0.7); }\<newline>'' @
     ''  ''\<close>

definition titleSlide :: "slideData \<Rightarrow> string" where
  \<open>titleSlide d =
     (let inner =
        ''\<newline>'' @
        ''<h1>'' @ esc (title d) @ ''</h1>\<newline>'' @
        (if truthy (subtitle d) then ''<p class="subtitle">'' @ esc (subtitle d) @ ''</p>'' else []) @
        ''\<newline>'' @
        (if truthy (date d) then ''<p class="date">'' @ esc (date d) @ ''</p>'' else []) @
        ''\<newline>'' @
        ''  ''
      in wrapSlide (bgImage d) overlay inner titleSlide_extra)\<close>

definition contentSlide_extra :: string where
  \<open>contentSlide_extra =
     ''\<newline>'' @
     ''    .overlay { position: absolute; top: 0; left: 0; width: 65%; '' @
     ''height: 100%; background: rgba(0,0,0,0.45); }\<newline>'' @
     ''    h2 { position: absolute; top: 36pt; left: 32pt; width: 410pt; '' @
     ''font-size: 26pt; font-weight: 700; line-height: 1.2; }\<newline>'' @
     ''    ul { position: absolute; top: 85pt; left: 32pt; width: 410pt; '' @
     ''list-style: none; padding: 0; }\<newline>'' @
     ''    li { font-size: 15pt; line-height: 1.5; margin-bottom: 10pt; '' @
     ''padding-left: 20pt; position: relative; }\<newline>'' @
     ''    li::before { content: "'' @
     [CHR 0x5C] @
     ''2022"; position: absolute; left: 0; '' @
     ''color: rgba(255,255,255,0.7); }\<newline>'' @
     ''  ''\<close>

definition contentSlide :: "slideData \<Rightarrow> string" where
  \<open>contentSlide d =
     (let bulletHtml = join ''\<newline>'' (map (\<lambda>b. ''  <li>'' @ esc b @ ''</li>'') (or_empty (bullets d)));
          inner =
            ''\<newline>'' @
            ''<h2>'' @ esc (title d) @ ''</h2>\<newline>'' @
            ''<ul>\<newline>'' @
            bulletHtml @ ''\<newline>'' @
            ''</ul>\<newline>'' @
            ''  ''
      in wrapSlide (bgImage d) overlay inner contentSlide_extra)\<close>

definition dataSlide_extra :: string where
  \<open>dataSlide_extra =
     ''\<newline>'' @
     ''    .overlay { position: absolute; top: 0; left: 0; width: 42%; '' @
     ''height: 100%; background: rgba(0,0,0,0.50); }\<newline>'' @
     ''    h2 { position: absolute; top: 32pt; left: 28pt; width: 270pt; '' @
     ''font-size: 24pt; font-weight: 700; line-height: 1.2; }\<newline>'' @
     ''    .m0-val { position: absolute; top: 85pt; left: 28pt; width: 270pt; '' @
     ''font-size: 28pt; font-weight: 700; }\<newline>'' @
     ''    .m0-lbl { position: absolute; top: 115pt; left: 28pt; width: 270pt; '' @
     ''font-size: 12pt; color: rgba(255,255,255,0.75); }\<newline>'' @
     ''    .m1-val { position: absolute; top: 150pt; left: 28pt; width: 270pt; '' @
     ''font-size: 28pt; font-weight: 700; }\<newline>'' @
     ''    .m1-lbl { position: absolute; top: 180pt; left: 28pt; width: 270pt; '' @
     ''font-size: 12pt; color: rgba(255,255,255,0.75); }\<newline>'' @
     ''    .m2-val { position: absolute; top: 215pt; left: 28pt; width: 270pt; '' @
     ''font-size: 28pt; font-weight: 700; }\<newline>'' @
     ''    .m2-lbl { position: absolute; top: 245pt; left: 28pt; width: 270pt; '' @
     ''font-size: 12pt; color: rgba(255,255,255,0.75); }\<newline>'' @
     ''    .placeholder {\<newline>'' @
     ''      position: absolute; top: 60pt; left: 320pt; width: 370pt; '' @
     ''height: 285pt;\<newline>'' @
     ''      background: rgba(128,128,128,0.3); border-radius: 8pt;\<newline>'' @
     ''    }\<newline>'' @
     ''  ''\<close>

definition dataSlide :: "slideData \<Rightarrow> string" where
  \<open>dataSlide d =
     (let m = or_empty (metrics d);
          metricsHtml = concat (map (\<lambda>i.
            ''<p class="m'' @ show_nat i @ ''-val">'' @ esc (mvalue (m ! i)) @ ''</p>\<newline>'' @
            ''<p class="m'' @ show_nat i @ ''-lbl">'' @ esc (mlabel (m ! i)) @ ''</p>\<newline>'')
            [0 ..< min (length m) 3]);
          inner =
            ''\<newline>'' @
            ''<h2>'' @ esc (title d) @ ''</h2>\<newline>'' @
            metricsHtml @ ''\<newline>'' @
            ''<div class="placeholder" id="chart-area"></div>\<newline>'' @
            ''  ''
      in wrapSlide (bgImage d) overlay inner dataSlide_extra)\<close>

definition featuresSlide_extra :: string where
  \<open>featuresSlide_extra =
     ''\<newline>'' @
     ''    .overlay { position: absolute; top: 0; left: 0; width: 100%; '' @
     ''height: 80pt; background: rgba(0,0,0,0.50); }\<newline>'' @
     ''    h2 { position: absolute; top: 24pt; left: 32pt; width: 656pt; '' @
     ''font-size: 24pt; font-weight: 700; text-align: center; '' @
     ''line-height: 1.2; }\<newline>'' @
     ''    .card0 { position: absolute; top: 110pt; left: 32pt; width: 200pt; '' @
     ''height: 250pt; background: rgba(255,255,255,0.92); border-radius: 8pt; }\<newline>'' @
     ''    .card1 { position: absolute; top: 110pt; left: 260pt; width: 200pt; '' @
     ''height: 250pt; background: rgba(255,255,255,0.92); border-radius: 8pt; }\<newline>'' @
     ''    .card2 { position: absolute; top: 110pt; left: 488pt; width: 200pt; '' @
     ''height: 250pt; background: rgba(255,255,255,0.92); border-radius: 8pt; }\<newline>'' @
     ''    .ct0 { position: absolute; top: 140pt; left: 48pt; width: 168pt; '' @
     ''font-size: 14pt; font-weight: 700; color: #1a1a2e; text-align: center; }\<newline>'' @
     ''    .cd0 { position: absolute; top: 170pt; left: 48pt; width: 168pt; '' @
     ''font-size: 11pt; line-height: 1.4; color: rgba(26,26,46,0.8); '' @
     ''text-align: center; }\<newline>'' @
     ''    .ct1 { position: absolute; top: 140pt; left: 276pt; width: 168pt; '' @
     ''font-size: 14pt; font-weight: 700; color: #1a1a2e; text-align: center; }\<newline>'' @
     ''    .cd1 { position: absolute; top: 170pt; left: 276pt; width: 168pt; '' @
     ''font-size: 11pt; line-height: 1.4; color: rgba(26,26,46,0.8); '' @
     ''text-align: center; }\<newline>'' @
     ''    .ct2 { position: absolute; top: 140pt; left: 504pt; width: 168pt; '' @
     ''font-size: 14pt; font-weight: 700; color: #1a1a2e; text-align: center; }\<newline>'' @
     ''    .cd2 { position: absolute; top: 170pt; left: 504pt; width: 168pt; '' @
     ''font-size: 11pt; line-height: 1.4; color: rgba(26,26,46,0.8); '' @
     ''text-align: center; }\<newline>'' @
     ''  ''\<close>

definition featuresSlide :: "slideData \<Rightarrow> string" where
  \<open>featuresSlide d =
     (let f = take 3 (or_empty (features d));
          cardsHtml = concat (map (\<lambda>i. ''<div class="card'' @ show_nat i @ ''"></div>\<newline>'')
            [0 ..< length f]);
          textsHtml = concat (map (\<lambda>i.
            ''<p class="ct'' @ show_nat i @ ''">'' @ esc (ftitle (f ! i)) @ ''</p>\<newline>'' @
            ''<p class="cd'' @ show_nat i @ ''">'' @ esc (fdescription (f ! i)) @ ''</p>\<newline>'')
            [0 ..< length f]);
          inner =
            ''\<newline>'' @
            ''<h2>'' @ esc (title d) @ ''</h2>\<newline>'' @
            cardsHtml @ ''\<newline>'' @
            textsHtml @ ''\<newline>'' @
            ''  ''
      in wrapSlide (bgImage d) overlay inner featuresSlide_extra)\<close>

definition closingSlide :: "slideData \<Rightarrow> string" where
  \<open>closingSlide d =
     (let lines = or_empty (contactLines d);
          startTop = 220;
          extra =
            ''\<newline>'' @
            ''    .overlay { position: absolute; top: 0; left: 0; width: 100%; '' @
            ''height: 100%; background: rgba(0,0,0,0.45); }\<newline>'' @
            ''    h1 { position: absolute; top: 150pt; left: 60pt; width: 600pt; '' @
            ''text-align: center; font-size: 36pt; font-weight: 700; '' @
            ''line-height: 1.2; }\<newline>'' @
            ''    '' @
            join ''\<newline>    '' (map (\<lambda>i.
              ''.cl'' @ show_nat i @ '' { position: absolute; top: '' @
              show_nat (startTop + i * 28) @ ''pt; left: 80pt; width: 560pt; '' @
              ''text-align: center; font-size: 15pt; color: rgba(255,255,255,0.85); '' @
              ''line-height: 1.5; }'') [0 ..< length lines]) @
            ''\<newline>'' @
            ''  '';
          linesHtml = join ''\<newline>'' (map (\<lambda>i.
            ''<p class="cl'' @ show_nat i @ ''">'' @ esc (lines ! i) @ ''</p>'') [0 ..< length lines]);
          inner =
            ''\<newline>'' @
            ''<h1>'' @ esc (if truthy (heading d) then heading d else JStr ''Thank you'') @ ''</h1>\<newline>'' @
            linesHtml @ ''\<newline>'' @
            ''  ''
      in wrapSlide (bgImage d) overlay inner extra)\<close>

section \<open>Whisk client (lib/whisk-client.cjs)\<close>

subsection \<open>The credential file\<close>

text \<open>
  The credential file holds a JSON object with \<open>accessToken\<close> (a string) and
  \<open>expiresAt\<close> (epoch milliseconds). \<open>token_json\<close> is the parsed object, a field being
  \<open>None\<close> when the object lacks it. \<open>token_file\<close> is what \<open>loadToken\<close> can find on disk:
  no file, a file whose reading throws, a file \<open>JSON.parse\<close> throws on, the JSON value
  \<open>null\<close> (reading a property of it throws), or an object.
\<close>

datatype token_json = TokenJson (json_accessToken: "string option") (json_expiresAt: "int option")

datatype token_file = NoFile | Unreadable | Unparseable | JsonNull | JsonObject token_json

record credential =
  accessToken :: string
  expiresAt :: int

datatype js_error = TypeError | SyntaxError | IOError

text \<open>The body of the \<open>try\<close> block; \<open>now\<close> is \<open>Date.now()\<close>.\<close>

definition loadToken_try :: "token_file \<Rightarrow> int \<Rightarrow> js_error + credential option" where
  "loadToken_try tf now =
     (case tf of
        NoFile \<Rightarrow> Inr None
      | Unreadable \<Rightarrow> Inl IOError
      | Unparseable \<Rightarrow> Inl SyntaxError
      | JsonNull \<Rightarrow> Inl TypeError
      | JsonObject data \<Rightarrow>
          (case (json_accessToken data, json_expiresAt data) of
             (Some a, Some e) \<Rightarrow>
               if a = [] \<or> e = 0 then Inr None
               else if e < now + 300000 then Inr None
               else Inr (Some \<lparr>accessToken = a, expiresAt = e\<rparr>)
           | _ \<Rightarrow> Inr None))"

text \<open>\<open>catch { return null; }\<close>\<close>

definition loadToken :: "token_file \<Rightarrow> int \<Rightarrow> credential option" where
  "loadToken tf now = (case loadToken_try tf now of Inl _ \<Rightarrow> None | Inr r \<Rightarrow> r)"

subsection \<open>Requests, responses and the world\<close>

text \<open>
  Image bytes, as they sit in a file or travel base64-encoded in a payload: \<open>Encoded s\<close>
  are the bytes that the base64 text \<open>s\<close> decodes to; \<open>Rendered svg\<close> is the PNG that sharp
  renders from the SVG source \<open>svg\<close>.
\<close>

datatype image = Encoded string | Rendered string

record reference =
  category :: string
  mediaId :: string
  caption :: string

text \<open>
  One request per endpoint, with the payload fields the client sets. The session id and
  the seed of a payload come from the clock and the random generator, serve the remote
  side only, and are left out.
\<close>

datatype request =
    Generate (req_token: string) (req_model: string) (req_aspect: string) (req_prompt: string)
  | Recipe (req_token: string) (req_model: string) (req_aspect: string) (req_prompt: string)
      (req_inputs: "reference list")
  | Upload (req_token: string) (req_category: string) (req_bytes: image)
  | Caption (req_token: string) (req_category: string) (req_bytes: image)

text \<open>
  A panel of a generation response with its generated images, each given by its
  \<open>encodedImage\<close> field, \<open>None\<close> for an image without it; a panel without the
  \<open>generatedImages\<close> field has \<open>None\<close> for the list.
\<close>

datatype panel = Panel (generatedImages: "string option list option")

datatype candidate = Candidate (cand_output: "string option")

text \<open>The fields of a JSON response body that the client reads; \<open>None\<close> is an absent field.\<close>

record body =
  imagePanels :: "panel list option"
  uploadMediaGenerationId :: "string option"
  candidates :: "candidate list option"

text \<open>
  The outcome of one \<open>fetch\<close>: an error thrown inside the \<open>try\<close> block (by \<open>fetch\<close> or while
  the body is read) with its message, a status that is not ok with the response text, or
  an ok response with its JSON body.
\<close>

datatype response = Thrown string | HttpStatus nat string | HttpOk body

text \<open>
  The remote service answers the \<open>k\<close>-th request of a run, which may depend on \<open>k\<close> and on
  the request. The world holds the files on disk, the log of the requests sent so far
  (oldest first), the credential file, the clock and the working directory. \<open>files\<close>
  gives the content of the regular files; \<open>unreadable\<close> holds the paths that exist but
  that \<open>readFileSync\<close> throws on (a directory, a file that the process may not read).
  Writing a background file is taken to succeed. Messages printed on the console are
  left out.
\<close>

type_synonym remote = "nat \<Rightarrow> request \<Rightarrow> response"

record world =
  files :: "string \<Rightarrow> image option"
  unreadable :: "string set"
  calls :: "request list"
  tokenFile :: token_file
  clock :: int
  cwd :: string

definition existsSync :: "world \<Rightarrow> string \<Rightarrow> bool" where
  "existsSync w p \<longleftrightarrow> p \<in> dom (files w) \<or> p \<in> unreadable w"

definition readFileSync :: "world \<Rightarrow> string \<Rightarrow> js_error + image" where
  "readFileSync w p =
     (if p \<in> unreadable w then Inl IOError
      else case files w p of None \<Rightarrow> Inl IOError | Some b \<Rightarrow> Inr b)"

definition fetch :: "remote \<Rightarrow> request \<Rightarrow> world \<Rightarrow> response \<times> world" where
  "fetch R req w = (R (length (calls w)) req, w\<lparr>calls := calls w @ [req]\<rparr>)"

datatype 'a result = Failure string | Success 'a

subsection \<open>The client functions\<close>

definition MODELS_default :: string where "MODELS_default = ''IMAGEN_3_5''"

definition MODELS_refSingle :: string where "MODELS_refSingle = ''GEM_PIX''"

definition MODELS_refMultiple :: string where "MODELS_refMultiple = ''R2I''"

definition ASPECT_RATIO_MAP :: "(string \<times> string) list" where
  "ASPECT_RATIO_MAP =
     [(''1:1'', ''IMAGE_ASPECT_RATIO_SQUARE''),
      (''16:9'', ''IMAGE_ASPECT_RATIO_LANDSCAPE''),
      (''9:16'', ''IMAGE_ASPECT_RATIO_PORTRAIT''),
      (''4:3'', ''IMAGE_ASPECT_RATIO_LANDSCAPE''),
      (''3:4'', ''IMAGE_ASPECT_RATIO_PORTRAIT''),
      (''IMAGE_ASPECT_RATIO_SQUARE'', ''IMAGE_ASPECT_RATIO_SQUARE''),
      (''IMAGE_ASPECT_RATIO_LANDSCAPE'', ''IMAGE_ASPECT_RATIO_LANDSCAPE''),
      (''IMAGE_ASPECT_RATIO_PORTRAIT'', ''IMAGE_ASPECT_RATIO_PORTRAIT'')]"

text \<open>
  \<open>ASPECT_RATIO_MAP[ratio] || 'IMAGE_ASPECT_RATIO_SQUARE'\<close>, for a ratio that is no name of
  an inherited member (the orchestrator passes \<open>16:9\<close> only).
\<close>

definition normalizeAspectRatio :: "string \<Rightarrow> string" where
  "normalizeAspectRatio ratio =
     (case map_of ASPECT_RATIO_MAP ratio of
        Some r \<Rightarrow> r
      | None \<Rightarrow> ''IMAGE_ASPECT_RATIO_SQUARE'')"

text \<open>
  What both generation functions do with the response: the images of the first panel, if
  there are any, each mapped to its \<open>encodedImage\<close> (\<open>undefined\<close>, here \<open>None\<close>, for an
  image without the field).
\<close>

definition images_of_response :: "response \<Rightarrow> string option list result" where
  "images_of_response resp =
     (case resp of
        Thrown msg \<Rightarrow> Failure msg
      | HttpStatus status errorText \<Rightarrow> Failure (''HTTP '' @ show_nat status @ '': '' @ errorText)
      | HttpOk data \<Rightarrow>
          (case or_empty (imagePanels data) of
             [] \<Rightarrow> Failure ''No image data in response''
           | p # _ \<Rightarrow>
               (case generatedImages p of
                  None \<Rightarrow> Failure ''No image data in response''
                | Some [] \<Rightarrow> Failure ''No image data in response''
                | Some (img # imgs) \<Rightarrow> Success (img # imgs))))"

definition generateImage ::
  "remote \<Rightarrow> string \<Rightarrow> string \<Rightarrow> string \<Rightarrow> world \<Rightarrow> string option list result \<times> world" where
  "generateImage R prompt aspectRatio accessToken' w =
     (let payload = Generate accessToken' MODELS_default (normalizeAspectRatio aspectRatio) prompt;
          (resp, w') = fetch R payload w
      in (images_of_response resp, w'))"

definition uploadReference ::
  "remote \<Rightarrow> image \<Rightarrow> string \<Rightarrow> string \<Rightarrow> world \<Rightarrow> string result \<times> world" where
  "uploadReference R base64Data category' accessToken' w =
     (let payload = Upload accessToken' category' base64Data;
          (resp, w') = fetch R payload w
      in (case resp of
            Thrown msg \<Rightarrow> Failure msg
          | HttpStatus status _ \<Rightarrow> Failure (''Upload HTTP '' @ show_nat status)
          | HttpOk data \<Rightarrow>
              (case uploadMediaGenerationId data of
                 None \<Rightarrow> Failure ''No Media ID returned''
               | Some mediaId' \<Rightarrow>
                   if mediaId' \<noteq> [] then Success mediaId' else Failure ''No Media ID returned''),
          w'))"

definition getCaptionForImage ::
  "remote \<Rightarrow> image \<Rightarrow> string \<Rightarrow> string \<Rightarrow> world \<Rightarrow> string result \<times> world" where
  "getCaptionForImage R base64Data category' accessToken' w =
     (let payload = Caption accessToken' category' base64Data;
          (resp, w') = fetch R payload w
      in (case resp of
            Thrown msg \<Rightarrow> Failure msg
          | HttpStatus status _ \<Rightarrow> Failure (''Caption HTTP '' @ show_nat status)
          | HttpOk data \<Rightarrow>
              (case or_empty (candidates data) of
                 [] \<Rightarrow> Success []
               | c # _ \<Rightarrow> Success (or_empty (cand_output c))),
          w'))"

definition generateWithReference ::
  "remote \<Rightarrow> string \<Rightarrow> string \<Rightarrow> string \<Rightarrow> reference list \<Rightarrow> world
     \<Rightarrow> string option list result \<times> world" where
  "generateWithReference R prompt aspectRatio accessToken' references w =
     (let recipeMediaInputs = map (\<lambda>ref.
            \<lparr>category = category ref, mediaId = mediaId ref, caption = caption ref\<rparr>) references;
          payload = Recipe accessToken'
            (if length references = 1 then MODELS_refSingle else MODELS_refMultiple)
            (normalizeAspectRatio aspectRatio) prompt recipeMediaInputs;
          (resp, w') = fetch R payload w
      in (images_of_response resp, w'))"

text \<open>
  \<open>Promise.all\<close> over the caption and the upload: both requests are sent, the caption one
  first, and both results are awaited.
\<close>

definition uploadAndAnalyze ::
  "remote \<Rightarrow> image \<Rightarrow> string \<Rightarrow> string \<Rightarrow> world \<Rightarrow> (string \<times> string) result \<times> world" where
  "uploadAndAnalyze R base64Data category' accessToken' w =
     (let (captionResult, w1) = getCaptionForImage R base64Data category' accessToken' w;
          (uploadResult, w2) = uploadReference R base64Data category' accessToken' w1;
          caption' = (case captionResult of Success c \<Rightarrow> c | Failure _ \<Rightarrow> [])
      in (case uploadResult of
            Success mediaId' \<Rightarrow> Success (mediaId', caption')
          | Failure error \<Rightarrow> Failure error,
          w2))"

text \<open>
  \<open>saveBase64Image\<close> on base64 text. Called with \<open>undefined\<close> for the text, its
  \<open>Buffer.from\<close> throws a \<open>TypeError\<close> before anything is written: that case is a branch
  at the two places where the orchestrator calls it.
\<close>

definition saveBase64Image :: "string \<Rightarrow> string \<Rightarrow> world \<Rightarrow> world" where
  "saveBase64Image base64Data filePath w = w\<lparr>files := (files w)(filePath \<mapsto> Encoded base64Data)\<rparr>"

section \<open>Build orchestrator (lib/build-presentation.cjs)\<close>

text \<open>
  \<open>path.join\<close> on a directory and a file name. Slide types and presentation names are
  taken to hold no path separator, so that joining is concatenation.
\<close>

definition path_join :: "string \<Rightarrow> string \<Rightarrow> string" where
  "path_join dir name = dir @ ''/'' @ name"

definition TYPE_INSTRUCTIONS :: "(string \<times> string) list" where
  "TYPE_INSTRUCTIONS =
     [(''title'', ''Central focal point, slightly darker edges, space for centered text''),
      (''content'', ''Subtle, not distracting, darker left area for text overlay''),
      (''data'', ''Clean, professional, muted tones, will not compete with charts''),
      (''features'', ''Subtle pattern, even lighting for placing white cards on top''),
      (''closing'', ''Warm, inviting, central focal point, space for centered text'')]"

text \<open>\<open>TYPE_INSTRUCTIONS[slideType] || ''\<close>, printed into the prompt.\<close>

definition buildBgPrompt :: "string \<Rightarrow> string \<Rightarrow> string" where
  "buildBgPrompt styleDescription slideType =
     (let instruction =
        (case get_property TYPE_INSTRUCTIONS slideType of
           Own i \<Rightarrow> i
         | Inherited \<Rightarrow> inherited_text slideType
         | Missing \<Rightarrow> [])
      in styleDescription @ ''. '' @ instruction @
         ''. No text, no logos, no people. Abstract background only. 16:9.'')"

datatype gradient = Gradient (from_stop: string) (via_stop: string) (to_stop: string)

definition gradients :: "(string \<times> gradient) list" where
  "gradients =
     [(''title'', Gradient ''#0f0c29'' ''#302b63'' ''#24243e''),
      (''content'', Gradient ''#1a1a2e'' ''#16213e'' ''#0f3460''),
      (''data'', Gradient ''#0d1117'' ''#161b22'' ''#21262d''),
      (''features'', Gradient ''#1a1a2e'' ''#1f2937'' ''#111827''),
      (''closing'', Gradient ''#2d1b69'' ''#1e1145'' ''#0f0c29'')]"

text \<open>
  The SVG source of a fallback background. The circle coordinates are the products
  \<open>width * 0.7\<close>, \<open>height * 0.3\<close>, \<open>height * 0.4\<close>, \<open>width * 0.3\<close>, \<open>height * 0.7\<close> and
  \<open>height * 0.25\<close> of the source, which are whole numbers for 1920 by 1080.
\<close>

definition fallback_svg :: "gradient \<Rightarrow> string" where
  \<open>fallback_svg g =
     (let width = 1920; height = 1080 in
      ''<svg width="'' @ show_nat width @ ''" height="'' @ show_nat height @
        ''" xmlns="http://www.w3.org/2000/svg">\<newline>'' @
      ''    <defs>\<newline>'' @
      ''      <linearGradient id="g" x1="0%" y1="0%" x2="100%" y2="100%">\<newline>'' @
      ''        <stop offset="0%" stop-color="'' @ from_stop g @ ''"/>\<newline>'' @
      ''        <stop offset="50%" stop-color="'' @ via_stop g @ ''"/>\<newline>'' @
      ''        <stop offset="100%" stop-color="'' @ to_stop g @ ''"/>\<newline>'' @
      ''      </linearGradient>\<newline>'' @
      ''    </defs>\<newline>'' @
      ''    <rect width="100%" height="100%" fill="url(#g)"/>\<newline>'' @
      ''    <circle cx="'' @ show_nat (width * 7 div 10) @ ''" cy="'' @ show_nat (height * 3 div 10) @
        ''" r="'' @ show_nat (height * 4 div 10) @ ''" fill="'' @ via_stop g @
        ''" opacity="0.3"/>\<newline>'' @
      ''    <circle cx="'' @ show_nat (width * 3 div 10) @ ''" cy="'' @ show_nat (height * 7 div 10) @
        ''" r="'' @ show_nat (height div 4) @ ''" fill="'' @ to_stop g @
        ''" opacity="0.2"/>\<newline>'' @
      ''  </svg>'')\<close>

text \<open>
  \<open>gradients[slideType] || gradients.content\<close>, given by the three texts that the
  template prints for \<open>g.from\<close>, \<open>g.via\<close> and \<open>g.to\<close>. An inherited member is truthy, so
  that it is taken for \<open>g\<close>, and it has none of the three properties: the template
  prints \<open>undefined\<close> for each.
\<close>

definition gradient_of :: "string \<Rightarrow> gradient" where
  "gradient_of slideType =
     (case get_property gradients slideType of
        Own g \<Rightarrow> g
      | Inherited \<Rightarrow>
          Gradient (js_String JUndefined) (js_String JUndefined) (js_String JUndefined)
      | Missing \<Rightarrow> Gradient ''#1a1a2e'' ''#16213e'' ''#0f3460'')"

definition bg_name :: "nat \<Rightarrow> string \<Rightarrow> string" where
  "bg_name index slideType = ''bg-'' @ show_nat index @ ''-'' @ slideType @ ''.png''"

definition generateFallbackBackground ::
  "string \<Rightarrow> string \<Rightarrow> nat \<Rightarrow> world \<Rightarrow> string \<times> world" where
  "generateFallbackBackground outputDir slideType index w =
     (let g = gradient_of slideType;
          svg = fallback_svg g;
          outPath = path_join outputDir (bg_name index slideType)
      in (outPath, w\<lparr>files := (files w)(outPath \<mapsto> Rendered svg)\<rparr>))"

definition MEDIA_CATEGORY_STYLE :: string where
  "MEDIA_CATEGORY_STYLE = ''MEDIA_CATEGORY_STYLE''"

text \<open>
  Phase 1a: the loop over the caller's reference paths. A path that does not exist is
  skipped; \<open>readFileSync\<close> is not guarded, so that an error it throws leaves
  \<open>generateWhiskBackgrounds\<close>.
\<close>

fun uploadUserRefs ::
  "remote \<Rightarrow> string \<Rightarrow> string list \<Rightarrow> reference list \<Rightarrow> world
     \<Rightarrow> (js_error + reference list) \<times> world" where
  "uploadUserRefs R token [] userRefs w = (Inr userRefs, w)"
| "uploadUserRefs R token (refPath # rest) userRefs w =
     (if \<not> existsSync w refPath then uploadUserRefs R token rest userRefs w
      else
        (case readFileSync w refPath of
           Inl e \<Rightarrow> (Inl e, w)
         | Inr base64 \<Rightarrow>
             (let (analysis, w') = uploadAndAnalyze R base64 MEDIA_CATEGORY_STYLE token w
              in (case analysis of
                    Success (mediaId', caption') \<Rightarrow>
                      uploadUserRefs R token rest
                        (userRefs @ [\<lparr>category = MEDIA_CATEGORY_STYLE, mediaId = mediaId',
                                      caption = caption'\<rparr>]) w'
                  | Failure _ \<Rightarrow> uploadUserRefs R token rest userRefs w'))))"

text \<open>
  The choice both generation sites of \<open>generateWhiskBackgrounds\<close> make: with references
  when there are any, from the text alone otherwise.
\<close>

definition generateBackground ::
  "remote \<Rightarrow> string \<Rightarrow> string \<Rightarrow> reference list \<Rightarrow> world
     \<Rightarrow> string option list result \<times> world" where
  "generateBackground R prompt token refs w =
     (if length refs > 0 then generateWithReference R prompt ''16:9'' token refs w
      else generateImage R prompt ''16:9'' token w)"

text \<open>
  Phase 1d: the loop over the slides after the first. \<open>images[0]\<close> is \<open>undefined\<close> for an
  empty array and for a first image without \<open>encodedImage\<close>; \<open>saveBase64Image\<close> then
  throws a \<open>TypeError\<close>, which nothing catches.
\<close>

function remainingBackgrounds ::
  "remote \<Rightarrow> string \<Rightarrow> string \<Rightarrow> string \<Rightarrow> reference list \<Rightarrow> slide list \<Rightarrow> nat
     \<Rightarrow> string list \<Rightarrow> world \<Rightarrow> (js_error + string list) \<times> world" where
  "remainingBackgrounds R outputDir styleDescription token consistencyRefs slides i results w =
     (if i < length slides then
        (let slideType = type (slides ! i);
             prompt = buildBgPrompt styleDescription slideType;
             (result, w1) = generateBackground R prompt token consistencyRefs w
         in (case result of
               Failure _ \<Rightarrow>
                 (let (fallbackPath, w2) = generateFallbackBackground outputDir slideType i w1
                  in remainingBackgrounds R outputDir styleDescription token consistencyRefs slides
                       (i + 1) (results @ [fallbackPath]) w2)
             | Success images \<Rightarrow>
                 (case images of
                    [] \<Rightarrow> (Inl TypeError, w1)
                  | None # _ \<Rightarrow> (Inl TypeError, w1)
                  | Some image0 # _ \<Rightarrow>
                      (let outPath = path_join outputDir (bg_name i slideType);
                           w2 = saveBase64Image image0 outPath w1
                       in remainingBackgrounds R outputDir styleDescription token consistencyRefs
                            slides (i + 1) (results @ [outPath]) w2))))
      else (Inr results, w))"
  by pat_completeness auto
termination
  by (relation "measure (\<lambda>(R, outputDir, styleDescription, token, consistencyRefs, slides, i, results, w).
        length slides - i)") auto

declare remainingBackgrounds.simps [simp del]

text \<open>
  The result is \<open>Inr None\<close> for \<open>null\<close>, \<open>Inr (Some paths)\<close> for the array of paths and
  \<open>Inl e\<close> for an error thrown and not caught: by the reading of a reference file, by
  \<open>slides[0].type\<close> of an empty slide list, or by \<open>saveBase64Image\<close> on \<open>undefined\<close>.
\<close>

definition generateWhiskBackgrounds ::
  "remote \<Rightarrow> string \<Rightarrow> string \<Rightarrow> string list option \<Rightarrow> slide list \<Rightarrow> world
     \<Rightarrow> (js_error + string list option) \<times> world" where
  "generateWhiskBackgrounds R outputDir styleDescription refPaths slides w =
     (case loadToken (tokenFile w) (clock w) of
        None \<Rightarrow> (Inr None, w)
      | Some tokenData \<Rightarrow>
          (let token = accessToken tokenData;
               (u, w1) = uploadUserRefs R token (or_empty refPaths) [] w
           in (case u of
                 Inl e \<Rightarrow> (Inl e, w1)
               | Inr userRefs \<Rightarrow>
              (case slides of
                 [] \<Rightarrow> (Inl TypeError, w1)
               | slide0 # _ \<Rightarrow>
                   (let firstType = type slide0;
                        anchorPrompt = buildBgPrompt styleDescription firstType;
                        (anchorResult, w2) = generateBackground R anchorPrompt token userRefs w1
                    in (case anchorResult of
                          Failure _ \<Rightarrow> (Inr None, w2)
                        | Success images \<Rightarrow>
                            (case images of
                               [] \<Rightarrow> (Inl TypeError, w2)
                             | None # _ \<Rightarrow> (Inl TypeError, w2)
                             | Some anchorBase64 # _ \<Rightarrow>
                                 (let anchorPath = path_join outputDir (bg_name 0 firstType);
                                      w3 = saveBase64Image anchorBase64 anchorPath w2;
                                      (anchorRef, w4) = uploadAndAnalyze R (Encoded anchorBase64)
                                         MEDIA_CATEGORY_STYLE token w3;
                                      consistencyRefs = userRefs @
                                        (case anchorRef of
                                           Success (mediaId', caption') \<Rightarrow>
                                             [\<lparr>category = MEDIA_CATEGORY_STYLE, mediaId = mediaId',
                                               caption = caption'\<rparr>]
                                         | Failure _ \<Rightarrow> []);
                                      (r, w5) = remainingBackgrounds R outputDir styleDescription token
                                         consistencyRefs slides 1 [anchorPath] w4
                                  in (case r of
                                        Inl e \<Rightarrow> (Inl e, w5)
                                      | Inr results \<Rightarrow> (Inr (Some results), w5))))))))))"

text \<open>The fallback pass of \<open>buildPresentation\<close> over all slides.\<close>

function fallbackBackgrounds ::
  "string \<Rightarrow> slide list \<Rightarrow> nat \<Rightarrow> string list \<Rightarrow> world \<Rightarrow> string list \<times> world" where
  "fallbackBackgrounds imagesDir slides i backgrounds w =
     (if i < length slides then
        (let (bgPath, w') = generateFallbackBackground imagesDir (type (slides ! i)) i w
         in fallbackBackgrounds imagesDir slides (i + 1) (backgrounds @ [bgPath]) w')
      else (backgrounds, w))"
  by pat_completeness auto
termination
  by (relation "measure (\<lambda>(imagesDir, slides, i, backgrounds, w). length slides - i)") auto

declare fallbackBackgrounds.simps [simp del]

record config =
  cfg_name :: string
  cfg_style :: string
  cfg_refs :: "string list option"
  cfg_slides :: "slide list"
  cfg_outputBase :: "string option"

text \<open>
  Phase 1 of \<open>buildPresentation\<close>: the backgrounds. An error thrown by
  \<open>generateWhiskBackgrounds\<close> is not caught: the build ends with it, without a list of
  backgrounds. The later phases (markup files, assembly by html2pptx and PptxGenJS,
  thumbnails) leave the list of backgrounds as it is.
\<close>

definition buildPresentation_backgrounds ::
  "remote \<Rightarrow> config \<Rightarrow> world \<Rightarrow> (js_error + string list) \<times> world" where
  "buildPresentation_backgrounds R cfg w =
     (let outputBase' = (case cfg_outputBase cfg of Some b \<Rightarrow> if b \<noteq> [] then b else cwd w | None \<Rightarrow> cwd w);
          outputDir = path_join (path_join outputBase' ''outputs'') (cfg_name cfg);
          imagesDir = path_join outputDir ''images'';
          (r, w1) = generateWhiskBackgrounds R imagesDir (cfg_style cfg) (cfg_refs cfg) (cfg_slides cfg) w
      in (case r of
            Inl e \<Rightarrow> (Inl e, w1)
          | Inr (Some backgrounds) \<Rightarrow> (Inr backgrounds, w1)
          | Inr None \<Rightarrow>
              (let (backgrounds, w2) = fallbackBackgrounds imagesDir (cfg_slides cfg) 0 [] w1
               in (Inr backgrounds, w2))))"

section \<open>Notions used in the theorems\<close>

text \<open>
  The cases in which the specification says that \<open>loadToken\<close> returns \<open>null\<close>: the file is
  missing or cannot be read or parsed, the \<open>accessToken\<close> or the \<open>expiresAt\<close> field is
  missing, or \<open>expiresAt\<close> is less than 300000 ms after the current time.
\<close>

definition rejects_as_stated :: "token_file \<Rightarrow> int \<Rightarrow> bool" where
  "rejects_as_stated tf now =
     (case tf of
        JsonObject data \<Rightarrow>
          json_accessToken data = None \<or>
          (case json_expiresAt data of None \<Rightarrow> True | Some e \<Rightarrow> e < now + 300000)
      | _ \<Rightarrow> True)"

text \<open>A field that is there and falsy: an empty \<open>accessToken\<close> or a zero \<open>expiresAt\<close>.\<close>

definition empty_field :: "token_file \<Rightarrow> bool" where
  "empty_field tf =
     (case tf of
        JsonObject data \<Rightarrow> json_accessToken data = Some [] \<or> json_expiresAt data = Some 0
      | _ \<Rightarrow> False)"

text \<open>
  What escaping does to one character, and the characters of a string that delimit
  markup: \<open><\<close>, \<open>>\<close> and the double quote.
\<close>

definition esc_char :: "char \<Rightarrow> string" where
  \<open>esc_char c =
     (if c = CHR ''&'' then ''&amp;''
      else if c = CHR ''<'' then ''&lt;''
      else if c = CHR ''>'' then ''&gt;''
      else if c = CHR ''"'' then ''&quot;''
      else [c])\<close>

definition markup :: "string \<Rightarrow> string" where
  \<open>markup s = filter (\<lambda>c. c = CHR ''<'' \<or> c = CHR ''>'' \<or> c = CHR ''"'') s\<close>

text \<open>
  A template inserts a text through \<open>esc\<close> only when its output, as a function \<open>f\<close> of
  the text with everything else fixed, is a fixed text, then the escaped text, then a
  fixed text: the text occurs once, escaped, and nowhere else. An element that a template
  emits for a truthy text only inserts it so when it is truthy, and the output is one
  fixed text for every falsy text.
\<close>

definition inserted_escaped :: "(jsval \<Rightarrow> string) \<Rightarrow> bool" where
  "inserted_escaped f \<longleftrightarrow> (\<exists>pre post. \<forall>x. f x = pre @ esc x @ post)"

definition inserted_escaped_if_truthy :: "(jsval \<Rightarrow> string) \<Rightarrow> bool" where
  "inserted_escaped_if_truthy f \<longleftrightarrow>
     (\<exists>pre post other. \<forall>x. f x = (if truthy x then pre @ esc x @ post else other))"

text \<open>
  The path of the background of slide \<open>j\<close> in directory \<open>dir\<close>, and the image that
  \<open>generateFallbackBackground\<close> writes for a slide.
\<close>

definition bg_path :: "string \<Rightarrow> slide list \<Rightarrow> nat \<Rightarrow> string" where
  "bg_path dir ss j = path_join dir (bg_name j (type (ss ! j)))"

definition fallback_image :: "slide \<Rightarrow> image" where
  "fallback_image s = Rendered (fallback_svg (gradient_of (type s)))"

text \<open>
  The request \<open>generateBackground\<close> sends for a prompt, and the outcome of the generation
  call for a slide when it is the \<open>k\<close>-th request of the run.
\<close>

definition bg_request :: "string \<Rightarrow> reference list \<Rightarrow> string \<Rightarrow> request" where
  "bg_request token rs p =
     (if rs = [] then Generate token MODELS_default ''IMAGE_ASPECT_RATIO_LANDSCAPE'' p
      else Recipe token (if length rs = 1 then MODELS_refSingle else MODELS_refMultiple)
             ''IMAGE_ASPECT_RATIO_LANDSCAPE'' p rs)"

definition slide_result ::
  "remote \<Rightarrow> nat \<Rightarrow> string \<Rightarrow> reference list \<Rightarrow> string \<Rightarrow> slide
     \<Rightarrow> string option list result" where
  "slide_result R k token rs styleDescription s =
     images_of_response (R k (bg_request token rs (buildBgPrompt styleDescription (type s))))"

text \<open>
  A successful result whose first image has no \<open>encodedImage\<close>: \<open>images[0]\<close> is
  \<open>undefined\<close>.
\<close>

definition lacks_encodedImage :: "string option list result \<Rightarrow> bool" where
  "lacks_encodedImage r = (case r of Success (None # _) \<Rightarrow> True | _ \<Rightarrow> False)"

text \<open>
  The style references that the upload of the anchor adds to the consistency references,
  and the images directory of a build.
\<close>

definition promoted :: "(string \<times> string) result \<Rightarrow> reference list" where
  "promoted a =
     (case a of
        Success (m, c) \<Rightarrow> [\<lparr>category = MEDIA_CATEGORY_STYLE, mediaId = m, caption = c\<rparr>]
      | Failure _ \<Rightarrow> [])"

definition images_dir :: "config \<Rightarrow> world \<Rightarrow> string" where
  "images_dir cfg w =
     path_join
       (path_join
         (path_join (case cfg_outputBase cfg of Some b \<Rightarrow> if b \<noteq> [] then b else cwd w | None \<Rightarrow> cwd w)
           ''outputs'')
         (cfg_name cfg))
       ''images''"

section \<open>Example values\<close>

text \<open>
  A world with a credential valid well beyond five minutes and no file yet, and the same
  world without a credential file.
\<close>

definition example_world :: world where
  "example_world =
     \<lparr>files = Map.empty, unreadable = {}, calls = [],
      tokenFile = JsonObject (TokenJson (Some ''token'') (Some 2000000)),
      clock = 1000000, cwd = ''/work''\<rparr>"

definition no_token_world :: world where
  "no_token_world = example_world\<lparr>tokenFile := NoFile\<rparr>"

text \<open>
  Remote services: one that is unreachable, one that answers every request with an image,
  a media id and a caption, one whose caption endpoint is down, and one that fails the
  fifth request of a run only (the request for the third slide of a deck built without
  references).
\<close>

definition remote_down :: remote where
  "remote_down k req = Thrown ''fetch failed''"

definition ok_body :: body where
  "ok_body =
     \<lparr>imagePanels = Some [Panel (Some [Some ''aW1hZ2U=''])],
      uploadMediaGenerationId = Some ''media-1'',
      candidates = Some [Candidate (Some ''a caption'')]\<rparr>"

definition remote_up :: remote where
  "remote_up k req = HttpOk ok_body"

definition remote_caption_down :: remote where
  "remote_caption_down k req =
     (case req of Caption _ _ _ \<Rightarrow> HttpStatus 500 ''no caption'' | _ \<Rightarrow> HttpOk ok_body)"

definition remote_no_data :: remote where
  "remote_no_data k req = (if k = 4 then HttpStatus 503 ''busy'' else HttpOk ok_body)"

text \<open>
  A remote service whose generation responses carry one image object without the
  \<open>encodedImage\<close> field.
\<close>

definition remote_no_encodedImage :: remote where
  "remote_no_encodedImage k req = HttpOk (ok_body\<lparr>imagePanels := Some [Panel (Some [None])]\<rparr>)"

text \<open>Slides, slide data, a style reference and a build configuration.\<close>

definition style_ref :: "string \<Rightarrow> reference" where
  "style_ref m = \<lparr>category = MEDIA_CATEGORY_STYLE, mediaId = m, caption = ''a caption''\<rparr>"

definition example_slide :: "string \<Rightarrow> slide" where
  "example_slide t =
     \<lparr>type = t, title = JStr ''Q4 <Report> & more'', subtitle = JStr ''Annual Review'',
      date = JUndefined, bullets = Some [JStr ''Revenue up 23%'', JStr ''a < b''],
      metrics = Some [Metric (JStr ''$4.2M'') (JStr ''Revenue'')], chartLabel = JUndefined,
      features = Some [Feature (JStr ''Expand'') (JStr ''Enter 3 new markets'')],
      heading = JUndefined, contactLines = Some [JStr ''ceo@company.com'']\<rparr>"

definition example_data :: "jsval \<Rightarrow> jsval \<Rightarrow> slideData" where
  "example_data t b =
     \<lparr>type = ''content'', title = t, subtitle = JStr ''Annual Review'', date = JUndefined,
      bullets = Some [b, JStr ''Revenue up 23%''],
      metrics = Some [Metric b (JStr ''Revenue'')], chartLabel = JUndefined,
      features = Some [Feature t b], heading = JUndefined, contactLines = Some [b],
      bgImage = ''/out/images/bg-0-content.png''\<rparr>"

definition example_slides :: "slide list" where
  "example_slides = [example_slide ''title'', example_slide ''content'', example_slide ''data'']"

definition example_config :: config where
  "example_config =
     \<lparr>cfg_name = ''deck'', cfg_style = ''dark minimalist'', cfg_refs = None,
      cfg_slides = example_slides, cfg_outputBase = Some ''/out''\<rparr>"

text \<open>
  A build that names the directory \<open>/tmp\<close> as its one reference image, in a world where
  this path exists and cannot be read as a file.
\<close>

definition config_with_directory :: config where
  "config_with_directory = example_config\<lparr>cfg_refs := Some [''/tmp'']\<rparr>"

definition world_with_directory :: world where
  "world_with_directory = example_world\<lparr>unreadable := {''/tmp''}\<rparr>"

section \<open>Decimal numerals and background paths\<close>

lemma digit_char_inj: "a < 10 \<Longrightarrow> b < 10 \<Longrightarrow> digit_char a = digit_char b \<Longrightarrow> a = b"
proof -
  assume a: "a < 10" and b: "b < 10" and e: "digit_char a = digit_char b"
  have A: "a \<in> {0,1,2,3,4,5,6,7,8,9}" using a by auto
  have B: "b \<in> {0,1,2,3,4,5,6,7,8,9}" using b by auto
  from A B e show ?thesis unfolding digit_char_def by auto
qed

lemma digit_char_not_dash: "d < 10 \<Longrightarrow> digit_char d \<noteq> CHR ''-''"
proof -
  assume a: "d < 10"
  have A: "d \<in> {0,1,2,3,4,5,6,7,8,9}" using a by auto
  then show ?thesis unfolding digit_char_def by auto
qed

lemma show_nat_nonempty: "show_nat n \<noteq> []"
  by (subst show_nat.simps) simp

lemma show_nat_no_dash: "CHR ''-'' \<notin> set (show_nat n)"
proof (induction n rule: show_nat.induct)
  case (1 n)
  show ?case
  proof (cases "n < 10")
    case True
    then show ?thesis using digit_char_not_dash[of n] by (subst show_nat.simps) auto
  next
    case False
    then have "CHR ''-'' \<notin> set (show_nat (n div 10))" using 1 by simp
    moreover have "digit_char (n mod 10) \<noteq> CHR ''-''" by (rule digit_char_not_dash) simp
    ultimately show ?thesis using False by (subst show_nat.simps) auto
  qed
qed

lemma show_nat_inj: "show_nat m = show_nat n \<Longrightarrow> m = n"
proof (induction m arbitrary: n rule: show_nat.induct)
  case (1 m)
  show ?case
  proof (cases "m < 10")
    case mT: True
    show ?thesis
    proof (cases "n < 10")
      case True
      with mT 1(2) show ?thesis
        by (simp add: show_nat.simps[of m] show_nat.simps[of n] digit_char_inj)
    next
      case False
      with mT 1(2) show ?thesis
        using show_nat_nonempty[of "n div 10"]
        by (simp add: show_nat.simps[of m] show_nat.simps[of n])
    qed
  next
    case mF: False
    show ?thesis
    proof (cases "n < 10")
      case True
      with mF 1(2) show ?thesis
        using show_nat_nonempty[of "m div 10"]
        by (simp add: show_nat.simps[of m] show_nat.simps[of n])
    next
      case False
      with mF 1(2) have e: "show_nat (m div 10) = show_nat (n div 10)"
        and d: "digit_char (m mod 10) = digit_char (n mod 10)"
        by (simp_all add: show_nat.simps[of m] show_nat.simps[of n])
      from 1(1)[OF mF e] have "m div 10 = n div 10" .
      moreover from d have "m mod 10 = n mod 10" by (intro digit_char_inj) simp_all
      ultimately show ?thesis by (metis div_mult_mod_eq)
    qed
  qed
qed

lemma split_at_first:
  assumes "xs @ c # ys = xs' @ c # ys'" "c \<notin> set xs" "c \<notin> set xs'"
  shows "xs = xs'"
proof -
  have "takeWhile (\<lambda>x. x \<noteq> c) (xs @ c # ys) = xs" using assms(2) by (subst takeWhile_append2) auto
  moreover have "takeWhile (\<lambda>x. x \<noteq> c) (xs' @ c # ys') = xs'" using assms(3) by (subst takeWhile_append2) auto
  ultimately show ?thesis using assms(1) by simp
qed

lemma bg_name_inj: "bg_name i s = bg_name j t \<Longrightarrow> i = j"
proof -
  assume "bg_name i s = bg_name j t"
  then have "show_nat i @ CHR ''-'' # (s @ ''.png'') = show_nat j @ CHR ''-'' # (t @ ''.png'')"
    by (simp add: bg_name_def)
  then have "show_nat i = show_nat j"
    by (rule split_at_first) (rule show_nat_no_dash)+
  then show ?thesis by (rule show_nat_inj)
qed

lemma bg_path_inj: "path_join d (bg_name i s) = path_join d (bg_name j t) \<Longrightarrow> i = j"
  by (simp add: path_join_def bg_name_inj)

section \<open>The client\<close>

lemma fetch_calls [simp]: "calls (snd (fetch R req w)) = calls w @ [req]"
  by (simp add: fetch_def)

lemma reference_rebuild [simp]:
  "\<lparr>category = category r, mediaId = mediaId r, caption = caption r\<rparr> = (r :: reference)"
  by (cases r) simp

lemma generateWithReference_calls:
  "calls (snd (generateWithReference R p a t refs w)) =
     calls w @ [Recipe t (if length refs = 1 then MODELS_refSingle else MODELS_refMultiple)
       (normalizeAspectRatio a) p refs]"
  by (simp add: generateWithReference_def fetch_def Let_def)

text \<open>
  C5: every call of \<open>generateWithReference\<close> sends exactly one request, to the recipe
  endpoint, and the model named in it is decided by the number of references alone:
  \<open>GEM_PIX\<close> for exactly one reference, \<open>R2I\<close> for two or more.
\<close>

theorem generateWithReference_model:
  "\<exists>m. calls (snd (generateWithReference R p a t refs w)) =
         calls w @ [Recipe t m (normalizeAspectRatio a) p refs] \<and>
       (length refs = 1 \<longrightarrow> m = ''GEM_PIX'') \<and>
       (2 \<le> length refs \<longrightarrow> m = ''R2I'')"
  by (simp add: generateWithReference_calls MODELS_refSingle_def MODELS_refMultiple_def)

theorem generateWithReference_model_witness:
  "(\<exists>m. calls (snd (generateWithReference remote_up ''p'' ''16:9'' ''token'' [style_ref ''m1''] example_world)) =
         calls example_world @ [Recipe ''token'' m (normalizeAspectRatio ''16:9'') ''p'' [style_ref ''m1'']] \<and>
        m = ''GEM_PIX'') \<and>
   (\<exists>m. calls (snd (generateWithReference remote_up ''p'' ''16:9'' ''token''
           [style_ref ''m1'', style_ref ''m2''] example_world)) =
         calls example_world @ [Recipe ''token'' m (normalizeAspectRatio ''16:9'') ''p''
           [style_ref ''m1'', style_ref ''m2'']] \<and>
        m = ''R2I'')"
  using generateWithReference_model [of remote_up "''p''" "''16:9''" "''token''" "[style_ref ''m1'']" example_world]
    generateWithReference_model [of remote_up "''p''" "''16:9''" "''token''"
      "[style_ref ''m1'', style_ref ''m2'']" example_world]
  by simp

lemma getCaptionForImage_calls:
  "calls (snd (getCaptionForImage R b c t w)) = calls w @ [Caption t c b]"
  by (simp add: getCaptionForImage_def fetch_def Let_def)

lemma uploadReference_calls:
  "calls (snd (uploadReference R b c t w)) = calls w @ [Upload t c b]"
  by (simp add: uploadReference_def fetch_def Let_def)

text \<open>
  C6: \<open>uploadAndAnalyze\<close> sends the caption request and the upload request, whatever the
  outcome of either, and its result follows the upload half. When the upload succeeds
  with media id \<open>m\<close> the result is the success \<open>(m, caption)\<close>, the caption being the one
  the caption half returned, or the empty string when the caption half failed. When the
  upload fails with error \<open>e\<close> the result is the failure \<open>e\<close>, whatever the caption half
  returned.
\<close>

theorem uploadAndAnalyze_follows_upload:
  assumes "getCaptionForImage R b c t w = (captionResult, w1)"
    and "uploadReference R b c t w1 = (uploadResult, w2)"
    and "uploadAndAnalyze R b c t w = (r, w')"
  shows "w' = w2 \<and> calls w' = calls w @ [Caption t c b, Upload t c b] \<and>
    (\<forall>m. uploadResult = Success m \<longrightarrow>
       (\<forall>cap. captionResult = Success cap \<longrightarrow> r = Success (m, cap)) \<and>
       (\<forall>e. captionResult = Failure e \<longrightarrow> r = Success (m, []))) \<and>
    (\<forall>e. uploadResult = Failure e \<longrightarrow> r = Failure e) \<and>
    ((\<exists>m cap. r = Success (m, cap)) \<longleftrightarrow> (\<exists>m. uploadResult = Success m))"
proof -
  have c1: "calls w1 = calls w @ [Caption t c b]"
    using getCaptionForImage_calls [of R b c t w] assms(1) by simp
  have c2: "calls w2 = calls w1 @ [Upload t c b]"
    using uploadReference_calls [of R b c t w1] assms(2) by simp
  have r: "r = (case uploadResult of
        Success m \<Rightarrow> Success (m, case captionResult of Success cap \<Rightarrow> cap | Failure _ \<Rightarrow> [])
      | Failure e \<Rightarrow> Failure e)" and w: "w' = w2"
    using assms by (simp_all add: uploadAndAnalyze_def)
  show ?thesis
    using c1 c2 w by (cases uploadResult; cases captionResult) (simp_all add: r)
qed

theorem uploadAndAnalyze_follows_upload_witness:
  "getCaptionForImage remote_caption_down (Encoded ''aW1hZ2U='') MEDIA_CATEGORY_STYLE ''token'' example_world =
     (Failure ''Caption HTTP 500'',
      example_world\<lparr>calls := [Caption ''token'' MEDIA_CATEGORY_STYLE (Encoded ''aW1hZ2U='')]\<rparr>) \<and>
   uploadReference remote_caption_down (Encoded ''aW1hZ2U='') MEDIA_CATEGORY_STYLE ''token''
     (example_world\<lparr>calls := [Caption ''token'' MEDIA_CATEGORY_STYLE (Encoded ''aW1hZ2U='')]\<rparr>) =
     (Success ''media-1'',
      example_world\<lparr>calls := [Caption ''token'' MEDIA_CATEGORY_STYLE (Encoded ''aW1hZ2U=''),
        Upload ''token'' MEDIA_CATEGORY_STYLE (Encoded ''aW1hZ2U='')]\<rparr>) \<and>
   fst (uploadAndAnalyze remote_caption_down (Encoded ''aW1hZ2U='') MEDIA_CATEGORY_STYLE ''token'' example_world) =
     Success (''media-1'', [])"
proof -
  let ?b = "Encoded ''aW1hZ2U=''"
  let ?w1 = "example_world\<lparr>calls := [Caption ''token'' MEDIA_CATEGORY_STYLE ?b]\<rparr>"
  let ?w2 = "example_world\<lparr>calls := [Caption ''token'' MEDIA_CATEGORY_STYLE ?b,
        Upload ''token'' MEDIA_CATEGORY_STYLE ?b]\<rparr>"
  have s500: "show_nat 500 = ''500''" by code_simp
  have h1: "getCaptionForImage remote_caption_down ?b MEDIA_CATEGORY_STYLE ''token'' example_world =
      (Failure ''Caption HTTP 500'', ?w1)"
    by (simp add: getCaptionForImage_def fetch_def remote_caption_down_def example_world_def s500)
  have h2: "uploadReference remote_caption_down ?b MEDIA_CATEGORY_STYLE ''token'' ?w1 =
      (Success ''media-1'', ?w2)"
    by (simp add: uploadReference_def fetch_def remote_caption_down_def example_world_def ok_body_def)
  have h3: "uploadAndAnalyze remote_caption_down ?b MEDIA_CATEGORY_STYLE ''token'' example_world =
      (fst (uploadAndAnalyze remote_caption_down ?b MEDIA_CATEGORY_STYLE ''token'' example_world),
       snd (uploadAndAnalyze remote_caption_down ?b MEDIA_CATEGORY_STYLE ''token'' example_world))"
    by simp
  from uploadAndAnalyze_follows_upload [OF h1 h2 h3] h1 h2 show ?thesis by simp
qed

subsection \<open>The credential\<close>

text \<open>
  C7, as stated, fails: a credential file whose \<open>accessToken\<close> field is present but is the
  empty string is none of the listed cases, and \<open>loadToken\<close> returns \<open>null\<close> for it.
\<close>

theorem loadToken_empty_accessToken:
  "loadToken (JsonObject (TokenJson (Some []) (Some 2000000))) 1000000 = None \<and>
   \<not> rejects_as_stated (JsonObject (TokenJson (Some []) (Some 2000000))) 1000000"
  by (simp add: loadToken_def loadToken_try_def rejects_as_stated_def)

text \<open>
  C7, amended: \<open>loadToken\<close> never throws, and it returns \<open>null\<close> exactly when the credential
  file is missing, cannot be read or parsed, lacks the \<open>accessToken\<close> or the \<open>expiresAt\<close>
  field, holds an empty \<open>accessToken\<close> or a zero \<open>expiresAt\<close>, or has \<open>expiresAt\<close> earlier
  than 300000 ms after the current time. Otherwise it returns the \<open>accessToken\<close> and
  \<open>expiresAt\<close> read from the file.
\<close>

theorem loadToken_null_iff:
  "(loadToken tf now = None \<longleftrightarrow> rejects_as_stated tf now \<or> empty_field tf) \<and>
   (loadToken tf now \<noteq> None \<longrightarrow>
      (\<exists>a e. tf = JsonObject (TokenJson (Some a) (Some e)) \<and> now + 300000 \<le> e \<and>
         loadToken tf now = Some \<lparr>accessToken = a, expiresAt = e\<rparr>))"
proof (cases tf)
  case (JsonObject data)
  then show ?thesis
    by (cases data)
      (auto simp add: loadToken_def loadToken_try_def rejects_as_stated_def empty_field_def
        split: option.splits)
qed (simp_all add: loadToken_def loadToken_try_def rejects_as_stated_def empty_field_def)

theorem loadToken_null_iff_witness:
  "loadToken (JsonObject (TokenJson (Some ''token'') (Some 2000000))) 1700000 \<noteq> None \<and>
   loadToken (JsonObject (TokenJson (Some ''token'') (Some 2000000))) 1700000 =
     Some \<lparr>accessToken = ''token'', expiresAt = 2000000\<rparr> \<and>
   loadToken (JsonObject (TokenJson (Some ''token'') (Some 2000000))) 1700001 = None"
  using loadToken_null_iff [of "JsonObject (TokenJson (Some ''token'') (Some 2000000))" 1700000]
    loadToken_null_iff [of "JsonObject (TokenJson (Some ''token'') (Some 2000000))" 1700001]
  by (simp add: rejects_as_stated_def empty_field_def)

section \<open>The fallback background\<close>

lemma show_nat_sizes:
  "show_nat 1920 = ''1920''" "show_nat 1080 = ''1080''" "show_nat 1344 = ''1344''"
  "show_nat 324 = ''324''" "show_nat 432 = ''432''" "show_nat 576 = ''576''"
  "show_nat 756 = ''756''" "show_nat 270 = ''270''"
  by code_simp+

lemma show_nat_digits:
  "show_nat 0 = ''0''" "show_nat 1 = ''1''" "show_nat 2 = ''2''"
  "show_nat (Suc 0) = ''1''" "show_nat (Suc (Suc 0)) = ''2''"
  by (simp_all add: show_nat.simps digit_char_def)

text \<open>
  The text of the SVG for a gradient with the stops \<open>a\<close>, \<open>b\<close> and \<open>c\<close>: the three stops of
  the linear gradient in this order, the rectangle filled with it, and two circles, the
  first filled with \<open>b\<close> and the second with \<open>c\<close>.
\<close>

lemma fallback_svg_text:
  \<open>fallback_svg (Gradient a b c) =
     ''<svg width="1920" height="1080" xmlns="http://www.w3.org/2000/svg">\<newline>'' @
     ''    <defs>\<newline>'' @
     ''      <linearGradient id="g" x1="0%" y1="0%" x2="100%" y2="100%">\<newline>'' @
     ''        <stop offset="0%" stop-color="'' @ a @ ''"/>\<newline>'' @
     ''        <stop offset="50%" stop-color="'' @ b @ ''"/>\<newline>'' @
     ''        <stop offset="100%" stop-color="'' @ c @ ''"/>\<newline>'' @
     ''      </linearGradient>\<newline>'' @
     ''    </defs>\<newline>'' @
     ''    <rect width="100%" height="100%" fill="url(#g)"/>\<newline>'' @
     ''    <circle cx="1344" cy="324" r="432" fill="'' @ b @ ''" opacity="0.3"/>\<newline>'' @
     ''    <circle cx="576" cy="756" r="270" fill="'' @ c @ ''" opacity="0.2"/>\<newline>'' @
     ''  </svg>''\<close>
  by (simp add: fallback_svg_def show_nat_sizes)

text \<open>
  The palette has the five entries \<open>title\<close>, \<open>content\<close>, \<open>data\<close>, \<open>features\<close> and \<open>closing\<close>,
  each with its three stops.
\<close>

lemma gradient_of_palette:
  "map fst gradients = [''title'', ''content'', ''data'', ''features'', ''closing'']"
  "map gradient_of [''title'', ''content'', ''data'', ''features'', ''closing''] =
     [Gradient ''#0f0c29'' ''#302b63'' ''#24243e'', Gradient ''#1a1a2e'' ''#16213e'' ''#0f3460'',
      Gradient ''#0d1117'' ''#161b22'' ''#21262d'', Gradient ''#1a1a2e'' ''#1f2937'' ''#111827'',
      Gradient ''#2d1b69'' ''#1e1145'' ''#0f0c29'']"
  by (simp_all add: gradient_of_def gradients_def get_property_def)

text \<open>
  A type that is neither an entry of the palette nor a member that every object inherits
  gets the gradient of \<open>content\<close>; a type that names an inherited member gets a gradient
  whose three stops all read \<open>undefined\<close>.
\<close>

lemma gradient_of_other:
  assumes "t \<notin> set (map fst gradients)"
  shows "gradient_of t =
    (if t \<in> set Object_prototype then Gradient ''undefined'' ''undefined'' ''undefined''
     else gradient_of ''content'')"
proof -
  from assms have "map_of gradients t = None"
    by (simp add: map_of_eq_None_iff)
  moreover have "gradient_of ''content'' = Gradient ''#1a1a2e'' ''#16213e'' ''#0f3460''"
    by (simp add: gradient_of_def gradients_def get_property_def)
  ultimately show ?thesis
    by (simp add: gradient_of_def get_property_def)
qed

text \<open>
  What a call of \<open>generateFallbackBackground\<close> does: it writes the rendering of the SVG of
  the type's gradient to the file named by the index and the type, changes no other file
  and sends no request.
\<close>

lemma generateFallbackBackground_effect:
  "fst (generateFallbackBackground dir t i w) = path_join dir (bg_name i t)"
  "files (snd (generateFallbackBackground dir t i w)) (path_join dir (bg_name i t)) =
     Some (Rendered (fallback_svg (gradient_of t)))"
  "p \<noteq> path_join dir (bg_name i t) \<Longrightarrow>
     files (snd (generateFallbackBackground dir t i w)) p = files w p"
  "calls (snd (generateFallbackBackground dir t i w)) = calls w"
  by (simp_all add: generateFallbackBackground_def Let_def)

text \<open>
  C8: the image that \<open>generateFallbackBackground\<close> writes is the SVG with the three stops
  and the two circles of the gradient found for the slide type, and a type outside the
  palette is to get the gradient of \<open>content\<close>. The type \<open>agenda\<close> does: its image is the SVG
  whose stops are \<open>#1a1a2e\<close>, \<open>#16213e\<close> and \<open>#0f3460\<close>. The type \<open>constructor\<close> does not. It is
  no entry of the palette, but \<open>gradients[slideType]\<close> finds the member of this name that
  every object inherits, which is truthy, so that \<open>|| gradients.content\<close> is not taken; the
  image written is the SVG in which every colour reads \<open>undefined\<close>, and it differs from
  the image of \<open>content\<close>.
\<close>

theorem fallback_for_inherited_name:
  \<open>''constructor'' \<notin> set (map fst gradients) \<and>
   fst (generateFallbackBackground ''/out'' ''constructor'' 1 example_world) =
     ''/out/bg-1-constructor.png'' \<and>
   files (snd (generateFallbackBackground ''/out'' ''constructor'' 1 example_world))
       ''/out/bg-1-constructor.png'' =
     Some (Rendered
        (''<svg width="1920" height="1080" xmlns="http://www.w3.org/2000/svg">\<newline>'' @
         ''    <defs>\<newline>'' @
         ''      <linearGradient id="g" x1="0%" y1="0%" x2="100%" y2="100%">\<newline>'' @
         ''        <stop offset="0%" stop-color="undefined"/>\<newline>'' @
         ''        <stop offset="50%" stop-color="undefined"/>\<newline>'' @
         ''        <stop offset="100%" stop-color="undefined"/>\<newline>'' @
         ''      </linearGradient>\<newline>'' @
         ''    </defs>\<newline>'' @
         ''    <rect width="100%" height="100%" fill="url(#g)"/>\<newline>'' @
         ''    <circle cx="1344" cy="324" r="432" fill="undefined" opacity="0.3"/'' @
         ''>\<newline>'' @
         ''    <circle cx="576" cy="756" r="270" fill="undefined" opacity="0.2"/>\<newline>'' @
         ''  </svg>'')) \<and>
   files (snd (generateFallbackBackground ''/out'' ''agenda'' 1 example_world))
       ''/out/bg-1-agenda.png'' =
     Some (Rendered
        (''<svg width="1920" height="1080" xmlns="http://www.w3.org/2000/svg">\<newline>'' @
         ''    <defs>\<newline>'' @
         ''      <linearGradient id="g" x1="0%" y1="0%" x2="100%" y2="100%">\<newline>'' @
         ''        <stop offset="0%" stop-color="#1a1a2e"/>\<newline>'' @
         ''        <stop offset="50%" stop-color="#16213e"/>\<newline>'' @
         ''        <stop offset="100%" stop-color="#0f3460"/>\<newline>'' @
         ''      </linearGradient>\<newline>'' @
         ''    </defs>\<newline>'' @
         ''    <rect width="100%" height="100%" fill="url(#g)"/>\<newline>'' @
         ''    <circle cx="1344" cy="324" r="432" fill="#16213e" opacity="0.3"/>\<newline>'' @
         ''    <circle cx="576" cy="756" r="270" fill="#0f3460" opacity="0.2"/>\<newline>'' @
         ''  </svg>'')) \<and>
   files (snd (generateFallbackBackground ''/out'' ''content'' 1 example_world))
       ''/out/bg-1-content.png'' =
     Some (Rendered
        (''<svg width="1920" height="1080" xmlns="http://www.w3.org/2000/svg">\<newline>'' @
         ''    <defs>\<newline>'' @
         ''      <linearGradient id="g" x1="0%" y1="0%" x2="100%" y2="100%">\<newline>'' @
         ''        <stop offset="0%" stop-color="#1a1a2e"/>\<newline>'' @
         ''        <stop offset="50%" stop-color="#16213e"/>\<newline>'' @
         ''        <stop offset="100%" stop-color="#0f3460"/>\<newline>'' @
         ''      </linearGradient>\<newline>'' @
         ''    </defs>\<newline>'' @
         ''    <rect width="100%" height="100%" fill="url(#g)"/>\<newline>'' @
         ''    <circle cx="1344" cy="324" r="432" fill="#16213e" opacity="0.3"/>\<newline>'' @
         ''    <circle cx="576" cy="756" r="270" fill="#0f3460" opacity="0.2"/>\<newline>'' @
         ''  </svg>'')) \<and>
   gradient_of ''constructor'' \<noteq> gradient_of ''content''\<close>
  by (simp add: generateFallbackBackground_def gradient_of_def get_property_def gradients_def
      Object_prototype_def fallback_svg_def show_nat_sizes path_join_def bg_name_def
      show_nat_digits Let_def)

section \<open>Escaping in the slide templates\<close>

lemma replace_all_append: "replace_all c r (xs @ ys) = replace_all c r xs @ replace_all c r ys"
  by (simp add: replace_all_def)

lemma replace_all_concat_map:
  "replace_all c r (concat (map f xs)) = concat (map (\<lambda>x. replace_all c r (f x)) xs)"
  by (induction xs) (simp_all add: replace_all_append, simp add: replace_all_def)

lemma replace_all_as_map: "replace_all c r s = concat (map (\<lambda>x. if x = c then r else [x]) s)"
  by (simp add: replace_all_def)

lemma esc_char_chain:
  \<open>replace_all (CHR ''"'') ''&quot;''
     (replace_all (CHR ''>'') ''&gt;''
       (replace_all (CHR ''<'') ''&lt;'' (if x = CHR ''&'' then ''&amp;'' else [x]))) = esc_char x\<close>
  by (simp add: replace_all_def esc_char_def)

lemma esc_as_map: "truthy v \<Longrightarrow> esc v = concat (map esc_char (js_String v))"
proof -
  assume t: "truthy v"
  have "replace_all (CHR 0x22) ''&quot;''
     (replace_all (CHR ''>'') ''&gt;''
       (replace_all (CHR ''<'') ''&lt;''
         (replace_all (CHR ''&'') ''&amp;'' s))) = concat (map esc_char s)" for s
    unfolding replace_all_as_map [of "CHR ''&''"] replace_all_concat_map
    using esc_char_chain by simp
  with t show ?thesis by (simp add: esc_def)
qed

lemma markup_append [simp]: "markup (xs @ ys) = markup xs @ markup ys"
  by (simp add: markup_def)

lemma markup_Nil [simp]: "markup [] = []"
  by (simp add: markup_def)

lemma markup_esc_char: "markup (esc_char c) = []"
  by (simp add: markup_def esc_char_def)

lemma markup_concat: "markup (concat xss) = concat (map markup xss)"
  by (induction xss) simp_all

lemma markup_esc [simp]: "markup (esc v) = []"
proof (cases "truthy v")
  case True
  then show ?thesis
    by (simp add: esc_as_map markup_concat markup_esc_char comp_def)
next
  case False
  then show ?thesis by (simp add: esc_def)
qed

subsection \<open>Texts built around one escaped text\<close>

lemma inserted_escaped_esc: "inserted_escaped (\<lambda>x. esc x)"
  unfolding inserted_escaped_def
  by (rule exI [of _ "[]"], rule exI [of _ "[]"]) simp

lemma inserted_escaped_left: "inserted_escaped g \<Longrightarrow> inserted_escaped (\<lambda>x. c @ g x)"
proof -
  assume "inserted_escaped g"
  then obtain pre post where g: "\<And>x. g x = pre @ esc x @ post"
    unfolding inserted_escaped_def by blast
  have "\<forall>x. c @ g x = (c @ pre) @ esc x @ post"
    by (simp add: g)
  then show ?thesis
    unfolding inserted_escaped_def by blast
qed

lemma inserted_escaped_right: "inserted_escaped g \<Longrightarrow> inserted_escaped (\<lambda>x. g x @ c)"
proof -
  assume "inserted_escaped g"
  then obtain pre post where g: "\<And>x. g x = pre @ esc x @ post"
    unfolding inserted_escaped_def by blast
  have "\<forall>x. g x @ c = pre @ esc x @ (post @ c)"
    by (simp add: g)
  then show ?thesis
    unfolding inserted_escaped_def by blast
qed

lemma inserted_escaped_between:
  "inserted_escaped g \<Longrightarrow> inserted_escaped (\<lambda>x. a @ g x @ b)"
  by (rule inserted_escaped_left, rule inserted_escaped_right)

lemma inserted_escaped_wrapSlide:
  "inserted_escaped g \<Longrightarrow> inserted_escaped (\<lambda>x. wrapSlide bg ov (g x) ex)"
  unfolding wrapSlide_def
  by (intro inserted_escaped_left inserted_escaped_right)

lemma inserted_escaped_if_truthy_base:
  "inserted_escaped_if_truthy (\<lambda>x. if truthy x then a @ esc x @ b else c)"
  unfolding inserted_escaped_if_truthy_def
  by (rule exI [of _ a], rule exI [of _ b], rule exI [of _ c]) simp

lemma inserted_escaped_if_truthy_left:
  "inserted_escaped_if_truthy g \<Longrightarrow> inserted_escaped_if_truthy (\<lambda>x. c @ g x)"
proof -
  assume "inserted_escaped_if_truthy g"
  then obtain pre post other
    where g: "\<And>x. g x = (if truthy x then pre @ esc x @ post else other)"
    unfolding inserted_escaped_if_truthy_def by blast
  have "\<forall>x. c @ g x = (if truthy x then (c @ pre) @ esc x @ post else c @ other)"
    by (simp add: g)
  then show ?thesis
    unfolding inserted_escaped_if_truthy_def by blast
qed

lemma inserted_escaped_if_truthy_right:
  "inserted_escaped_if_truthy g \<Longrightarrow> inserted_escaped_if_truthy (\<lambda>x. g x @ c)"
proof -
  assume "inserted_escaped_if_truthy g"
  then obtain pre post other
    where g: "\<And>x. g x = (if truthy x then pre @ esc x @ post else other)"
    unfolding inserted_escaped_if_truthy_def by blast
  have "\<forall>x. g x @ c = (if truthy x then pre @ esc x @ (post @ c) else other @ c)"
    by (simp add: g)
  then show ?thesis
    unfolding inserted_escaped_if_truthy_def by blast
qed

lemma inserted_escaped_if_truthy_wrapSlide:
  "inserted_escaped_if_truthy g \<Longrightarrow> inserted_escaped_if_truthy (\<lambda>x. wrapSlide bg ov (g x) ex)"
  unfolding wrapSlide_def
  by (intro inserted_escaped_if_truthy_left inserted_escaped_if_truthy_right)

subsection \<open>One element of a list\<close>

lemma map_index_update:
  assumes "k < n" and "n \<le> length ms"
  shows "map (\<lambda>i. F i (ms[k := y] ! i)) [0 ..< n] =
     map (\<lambda>i. F i (ms ! i)) [0 ..< k] @ [F k y] @ map (\<lambda>i. F i (ms ! i)) [Suc k ..< n]"
proof -
  from assms have "[0 ..< n] = [0 ..< k] @ [k] @ [Suc k ..< n]"
  proof -
    from assms have "[0 ..< n] = [0 ..< k] @ [k ..< n]"
      using upt_add_eq_append [of 0 k "n - k"] by simp
    moreover from assms have "[k ..< n] = k # [Suc k ..< n]"
      by (simp add: upt_conv_Cons)
    ultimately show ?thesis by simp
  qed
  moreover have "map (\<lambda>i. F i (ms[k := y] ! i)) [0 ..< k] = map (\<lambda>i. F i (ms ! i)) [0 ..< k]"
    by simp
  moreover have "map (\<lambda>i. F i (ms[k := y] ! i)) [Suc k ..< n] = map (\<lambda>i. F i (ms ! i)) [Suc k ..< n]"
    by simp
  moreover from assms have "F k (ms[k := y] ! k) = F k y"
    by simp
  ultimately show ?thesis
    by simp
qed

lemma join_around:
  "join sep (xs @ [y] @ zs) =
     (if xs = [] then [] else join sep xs @ sep) @ y @ (if zs = [] then [] else sep @ join sep zs)"
proof (induction sep xs rule: join.induct)
  case (1 sep)
  then show ?case by (cases zs) simp_all
next
  case (2 sep x)
  then show ?case by (cases zs) simp_all
next
  case (3 sep x y' ys)
  then show ?case by simp
qed

lemma inserted_escaped_join:
  assumes "inserted_escaped g"
  shows "inserted_escaped (\<lambda>x. join sep (xs @ [g x] @ zs))"
  unfolding join_around
  by (intro inserted_escaped_left inserted_escaped_right assms)

lemma inserted_escaped_concat:
  assumes "inserted_escaped g"
  shows "inserted_escaped (\<lambda>x. concat (xs @ [g x] @ zs))"
  using assms by (simp add: inserted_escaped_between)

subsection \<open>The text fields of the five templates\<close>

lemma inserted_escaped_if_truthy_esc:
  "inserted_escaped_if_truthy (\<lambda>x. if truthy x then esc x else c)"
  unfolding inserted_escaped_if_truthy_def
  by (rule exI [of _ "[]"], rule exI [of _ "[]"], rule exI [of _ c]) simp

lemma titleSlide_title: "inserted_escaped (\<lambda>x. titleSlide (d\<lparr>title := x\<rparr>))"
  unfolding titleSlide_def Let_def
  apply (simp del: append_Cons split del: if_split cong: if_cong)
  apply (intro inserted_escaped_wrapSlide inserted_escaped_left inserted_escaped_right
      inserted_escaped_esc)
  done

lemma titleSlide_subtitle: "inserted_escaped_if_truthy (\<lambda>x. titleSlide (d\<lparr>subtitle := x\<rparr>))"
  unfolding titleSlide_def Let_def
  apply (simp del: append_Cons split del: if_split cong: if_cong)
  apply (intro inserted_escaped_if_truthy_wrapSlide inserted_escaped_if_truthy_left
      inserted_escaped_if_truthy_right inserted_escaped_if_truthy_base)
  done

lemma titleSlide_date: "inserted_escaped_if_truthy (\<lambda>x. titleSlide (d\<lparr>date := x\<rparr>))"
  unfolding titleSlide_def Let_def
  apply (simp del: append_Cons split del: if_split cong: if_cong)
  apply (intro inserted_escaped_if_truthy_wrapSlide inserted_escaped_if_truthy_left
      inserted_escaped_if_truthy_right inserted_escaped_if_truthy_base)
  done

lemma contentSlide_title: "inserted_escaped (\<lambda>x. contentSlide (d\<lparr>title := x\<rparr>))"
  unfolding contentSlide_def Let_def
  apply (simp del: append_Cons split del: if_split cong: if_cong)
  apply (intro inserted_escaped_wrapSlide inserted_escaped_left inserted_escaped_right
      inserted_escaped_esc)
  done

lemma dataSlide_title: "inserted_escaped (\<lambda>x. dataSlide (d\<lparr>title := x\<rparr>))"
  unfolding dataSlide_def Let_def
  apply (simp del: append_Cons split del: if_split cong: if_cong)
  apply (intro inserted_escaped_wrapSlide inserted_escaped_left inserted_escaped_right
      inserted_escaped_esc)
  done

lemma featuresSlide_title: "inserted_escaped (\<lambda>x. featuresSlide (d\<lparr>title := x\<rparr>))"
  unfolding featuresSlide_def Let_def
  apply (simp del: append_Cons split del: if_split cong: if_cong)
  apply (intro inserted_escaped_wrapSlide inserted_escaped_left inserted_escaped_right
      inserted_escaped_esc)
  done

lemma closingSlide_heading: "inserted_escaped_if_truthy (\<lambda>x. closingSlide (d\<lparr>heading := x\<rparr>))"
  unfolding closingSlide_def Let_def
  apply (simp add: if_distrib [of esc] del: append_Cons split del: if_split cong: if_cong)
  apply (intro inserted_escaped_if_truthy_wrapSlide inserted_escaped_if_truthy_left
      inserted_escaped_if_truthy_right inserted_escaped_if_truthy_esc)
  done

lemma map_update_around:
  "k < length bs \<Longrightarrow> map h (bs[k := x]) = map h (take k bs) @ [h x] @ map h (drop (Suc k) bs)"
  by (simp add: upd_conv_take_nth_drop)

lemma contentSlide_bullet:
  assumes "k < length bs"
  shows "inserted_escaped (\<lambda>x. contentSlide (d\<lparr>bullets := Some (bs[k := x])\<rparr>))"
proof -
  let ?h = "\<lambda>b. ''  <li>'' @ esc b @ ''</li>''"
  have e: "map ?h (bs[k := x]) = map ?h (take k bs) @ [?h x] @ map ?h (drop (Suc k) bs)" for x
    using assms by (rule map_update_around)
  have j: "inserted_escaped (\<lambda>x. join ''\<newline>'' (map ?h (bs[k := x])))"
    unfolding e
    by (intro inserted_escaped_join inserted_escaped_between inserted_escaped_esc)
  show ?thesis
    unfolding contentSlide_def Let_def or_empty_def
    apply (simp del: append_Cons map_update split del: if_split cong: if_cong)
    apply (intro inserted_escaped_wrapSlide inserted_escaped_left inserted_escaped_right j)
    done
qed

lemma dataSlide_metric_value:
  assumes "k < length ms" and "k < 3"
  shows "inserted_escaped (\<lambda>x. dataSlide (d\<lparr>metrics := Some (ms[k := Metric x l])\<rparr>))"
proof -
  let ?F = "\<lambda>i m. ''<p class=\"m'' @ show_nat i @ ''-val\">'' @ esc (mvalue m) @ ''</p>\<newline>'' @
            ''<p class=\"m'' @ show_nat i @ ''-lbl\">'' @ esc (mlabel m) @ ''</p>\<newline>''"
  from assms have k: "k < min (length ms) 3" "min (length ms) 3 \<le> length ms"
    by simp_all
  have j: "inserted_escaped (\<lambda>x. concat (map (\<lambda>i. ?F i (ms[k := Metric x l] ! i))
      [0 ..< min (length ms) 3]))"
    unfolding map_index_update [of k "min (length ms) 3" ms "?F", OF k]
    by (rule inserted_escaped_concat) (simp del: append_Cons,
      intro inserted_escaped_left inserted_escaped_right inserted_escaped_esc)
  show ?thesis
    unfolding dataSlide_def Let_def or_empty_def
    apply (simp del: append_Cons split del: if_split cong: if_cong)
    apply (intro inserted_escaped_wrapSlide inserted_escaped_left inserted_escaped_right j)
    done
qed

lemma dataSlide_metric_label:
  assumes "k < length ms" and "k < 3"
  shows "inserted_escaped (\<lambda>x. dataSlide (d\<lparr>metrics := Some (ms[k := Metric l x])\<rparr>))"
proof -
  let ?F = "\<lambda>i m. ''<p class=\"m'' @ show_nat i @ ''-val\">'' @ esc (mvalue m) @ ''</p>\<newline>'' @
            ''<p class=\"m'' @ show_nat i @ ''-lbl\">'' @ esc (mlabel m) @ ''</p>\<newline>''"
  from assms have k: "k < min (length ms) 3" "min (length ms) 3 \<le> length ms"
    by simp_all
  have j: "inserted_escaped (\<lambda>x. concat (map (\<lambda>i. ?F i (ms[k := Metric l x] ! i))
      [0 ..< min (length ms) 3]))"
    unfolding map_index_update [of k "min (length ms) 3" ms "?F", OF k]
    by (rule inserted_escaped_concat) (simp del: append_Cons,
      intro inserted_escaped_left inserted_escaped_right inserted_escaped_esc)
  show ?thesis
    unfolding dataSlide_def Let_def or_empty_def
    apply (simp del: append_Cons split del: if_split cong: if_cong)
    apply (intro inserted_escaped_wrapSlide inserted_escaped_left inserted_escaped_right j)
    done
qed

lemma featuresSlide_feature_title:
  assumes "k < length fs" and "k < 3"
  shows "inserted_escaped (\<lambda>x. featuresSlide (d\<lparr>features := Some (fs[k := Feature x l])\<rparr>))"
proof -
  let ?F = "\<lambda>i f. ''<p class=\"ct'' @ show_nat i @ ''\">'' @ esc (ftitle f) @ ''</p>\<newline>'' @
            ''<p class=\"cd'' @ show_nat i @ ''\">'' @ esc (fdescription f) @ ''</p>\<newline>''"
  from assms have k: "k < min (length fs) 3" "min (length fs) 3 \<le> length (take 3 fs)"
    by simp_all
  have j: "inserted_escaped (\<lambda>x. concat (map (\<lambda>i. ?F i ((take 3 fs)[k := Feature x l] ! i))
      [0 ..< min (length fs) 3]))"
    unfolding map_index_update [of k "min (length fs) 3" "take 3 fs" "?F", OF k]
    by (rule inserted_escaped_concat) (simp del: append_Cons,
      intro inserted_escaped_left inserted_escaped_right inserted_escaped_esc)
  show ?thesis
    unfolding featuresSlide_def Let_def or_empty_def
    apply (simp add: take_update_swap del: append_Cons split del: if_split cong: if_cong)
    apply (intro inserted_escaped_wrapSlide inserted_escaped_left inserted_escaped_right j)
    done
qed

lemma featuresSlide_feature_description:
  assumes "k < length fs" and "k < 3"
  shows "inserted_escaped (\<lambda>x. featuresSlide (d\<lparr>features := Some (fs[k := Feature l x])\<rparr>))"
proof -
  let ?F = "\<lambda>i f. ''<p class=\"ct'' @ show_nat i @ ''\">'' @ esc (ftitle f) @ ''</p>\<newline>'' @
            ''<p class=\"cd'' @ show_nat i @ ''\">'' @ esc (fdescription f) @ ''</p>\<newline>''"
  from assms have k: "k < min (length fs) 3" "min (length fs) 3 \<le> length (take 3 fs)"
    by simp_all
  have j: "inserted_escaped (\<lambda>x. concat (map (\<lambda>i. ?F i ((take 3 fs)[k := Feature l x] ! i))
      [0 ..< min (length fs) 3]))"
    unfolding map_index_update [of k "min (length fs) 3" "take 3 fs" "?F", OF k]
    by (rule inserted_escaped_concat) (simp del: append_Cons,
      intro inserted_escaped_left inserted_escaped_right inserted_escaped_esc)
  show ?thesis
    unfolding featuresSlide_def Let_def or_empty_def
    apply (simp add: take_update_swap del: append_Cons split del: if_split cong: if_cong)
    apply (intro inserted_escaped_wrapSlide inserted_escaped_left inserted_escaped_right j)
    done
qed

lemma closingSlide_contactLine:
  assumes "k < length ls"
  shows "inserted_escaped (\<lambda>x. closingSlide (d\<lparr>contactLines := Some (ls[k := x])\<rparr>))"
proof -
  let ?F = "\<lambda>i l. ''<p class=\"cl'' @ show_nat i @ ''\">'' @ esc l @ ''</p>''"
  from assms have k: "k < length ls" "length ls \<le> length ls"
    by simp_all
  have j: "inserted_escaped (\<lambda>x. join ''\<newline>'' (map (\<lambda>i. ?F i (ls[k := x] ! i)) [0 ..< length ls]))"
    unfolding map_index_update [of k "length ls" ls "?F", OF k]
    by (rule inserted_escaped_join)
      (intro inserted_escaped_left inserted_escaped_right inserted_escaped_esc)
  show ?thesis
    unfolding closingSlide_def Let_def or_empty_def
    apply (simp del: append_Cons split del: if_split cong: if_cong)
    apply (intro inserted_escaped_wrapSlide inserted_escaped_left inserted_escaped_right j)
    done
qed

text \<open>
  C10: \<open>esc\<close> maps every falsy value to the empty string and replaces, in the string of
  any other value, each of the characters \<open>&\<close>, \<open><\<close>, \<open>>\<close> and the double quote by its
  entity, leaving the other characters as they are; its result holds no \<open><\<close>, \<open>>\<close> or
  double quote. Every text field reaches the markup of the five templates through \<open>esc\<close>
  only: as a function of the field alone, the markup is a fixed text, the escaped field
  and a fixed text. This holds of the title in \<open>titleSlide\<close>, \<open>contentSlide\<close>, \<open>dataSlide\<close> and
  \<open>featuresSlide\<close>, of every bullet, of the value and the label of each of the first three
  metrics, of the title and the description of each of the first three features, and of
  every contact line. The subtitle, the date and the heading are inserted so when they
  are truthy; for a falsy one the markup is a fixed text (without the element for a
  subtitle or a date, with the heading \<open>Thank you\<close>). The background path is no text field:
  \<open>wrapSlide\<close> inserts it as it is.
\<close>

theorem templates_escape_text:
  "(\<not> truthy v \<longrightarrow> esc v = []) \<and>
   (truthy v \<longrightarrow> esc v = concat (map esc_char (js_String v))) \<and>
   markup (esc v) = [] \<and>
   inserted_escaped (\<lambda>x. titleSlide (d\<lparr>title := x\<rparr>)) \<and>
   inserted_escaped_if_truthy (\<lambda>x. titleSlide (d\<lparr>subtitle := x\<rparr>)) \<and>
   inserted_escaped_if_truthy (\<lambda>x. titleSlide (d\<lparr>date := x\<rparr>)) \<and>
   inserted_escaped (\<lambda>x. contentSlide (d\<lparr>title := x\<rparr>)) \<and>
   (k < length bs \<longrightarrow>
      inserted_escaped (\<lambda>x. contentSlide (d\<lparr>bullets := Some (bs[k := x])\<rparr>))) \<and>
   inserted_escaped (\<lambda>x. dataSlide (d\<lparr>title := x\<rparr>)) \<and>
   (k < length ms \<and> k < 3 \<longrightarrow>
      inserted_escaped (\<lambda>x. dataSlide (d\<lparr>metrics := Some (ms[k := Metric x y])\<rparr>)) \<and>
      inserted_escaped (\<lambda>x. dataSlide (d\<lparr>metrics := Some (ms[k := Metric y x])\<rparr>))) \<and>
   inserted_escaped (\<lambda>x. featuresSlide (d\<lparr>title := x\<rparr>)) \<and>
   (k < length fs \<and> k < 3 \<longrightarrow>
      inserted_escaped (\<lambda>x. featuresSlide (d\<lparr>features := Some (fs[k := Feature x y])\<rparr>)) \<and>
      inserted_escaped (\<lambda>x. featuresSlide (d\<lparr>features := Some (fs[k := Feature y x])\<rparr>))) \<and>
   inserted_escaped_if_truthy (\<lambda>x. closingSlide (d\<lparr>heading := x\<rparr>)) \<and>
   (k < length ls \<longrightarrow>
      inserted_escaped (\<lambda>x. closingSlide (d\<lparr>contactLines := Some (ls[k := x])\<rparr>)))"
proof -
  have "\<not> truthy v \<longrightarrow> esc v = []"
    by (simp add: esc_def)
  moreover have "truthy v \<longrightarrow> esc v = concat (map esc_char (js_String v))"
    by (simp add: esc_as_map)
  moreover have "markup (esc v) = []"
    by (rule markup_esc)
  ultimately show ?thesis
    using titleSlide_title [where d = d] titleSlide_subtitle [where d = d]
      titleSlide_date [where d = d] contentSlide_title [where d = d]
      contentSlide_bullet [where k = k and bs = bs and d = d]
      dataSlide_title [where d = d]
      dataSlide_metric_value [where k = k and ms = ms and d = d and l = y]
      dataSlide_metric_label [where k = k and ms = ms and d = d and l = y]
      featuresSlide_title [where d = d]
      featuresSlide_feature_title [where k = k and fs = fs and d = d and l = y]
      featuresSlide_feature_description [where k = k and fs = fs and d = d and l = y]
      closingSlide_heading [where d = d]
      closingSlide_contactLine [where k = k and ls = ls and d = d]
    by blast
qed

theorem templates_escape_text_witness:
  \<open>\<not> truthy (JNum 0) \<and> esc (JNum 0) = [] \<and>
   truthy (JStr ''<b>"x" & y</b>'') \<and>
   esc (JStr ''<b>"x" & y</b>'') = ''&lt;b&gt;&quot;x&quot; &amp; y&lt;/b&gt;'' \<and>
   (0 :: nat) < length [JStr ''Revenue up 23%'', JStr ''a < b''] \<and>
   inserted_escaped (\<lambda>x. contentSlide
     ((example_data (JStr ''Q4'') (JStr ''b''))
        \<lparr>bullets := Some ([JStr ''Revenue up 23%'', JStr ''a < b''][0 := x])\<rparr>)) \<and>
   (0 :: nat) < length [Metric (JStr ''$4.2M'') (JStr ''Revenue'')] \<and> (0 :: nat) < 3 \<and>
   inserted_escaped (\<lambda>x. dataSlide
     ((example_data (JStr ''Q4'') (JStr ''b''))
        \<lparr>metrics := Some ([Metric (JStr ''$4.2M'') (JStr ''Revenue'')][0 := Metric x (JStr ''Revenue'')])\<rparr>)) \<and>
   (0 :: nat) < length [Feature (JStr ''Expand'') (JStr ''Enter 3 new markets'')] \<and>
   inserted_escaped (\<lambda>x. featuresSlide
     ((example_data (JStr ''Q4'') (JStr ''b''))
        \<lparr>features := Some ([Feature (JStr ''Expand'') (JStr ''Enter 3 new markets'')]
           [0 := Feature (JStr ''Revenue'') x])\<rparr>)) \<and>
   (0 :: nat) < length [JStr ''ceo@company.com''] \<and>
   inserted_escaped (\<lambda>x. closingSlide
     ((example_data (JStr ''Q4'') (JStr ''b''))
        \<lparr>contactLines := Some ([JStr ''ceo@company.com''][0 := x])\<rparr>))\<close>
proof -
  have e: \<open>concat (map esc_char (js_String (JStr ''<b>"x" & y</b>''))) =
      ''&lt;b&gt;&quot;x&quot; &amp; y&lt;/b&gt;''\<close>
    by (simp add: esc_char_def)
  note t1 = templates_escape_text [of "JNum 0" "example_data (JStr ''Q4'') (JStr ''b'')" 0
      "[JStr ''Revenue up 23%'', JStr ''a < b'']"
      "[Metric (JStr ''$4.2M'') (JStr ''Revenue'')]" "JStr ''Revenue''"
      "[Feature (JStr ''Expand'') (JStr ''Enter 3 new markets'')]" "[JStr ''ceo@company.com'']"]
  note t2 = templates_escape_text [of \<open>JStr ''<b>"x" & y</b>''\<close>
      "example_data (JStr ''Q4'') (JStr ''b'')" 0
      "[JStr ''Revenue up 23%'', JStr ''a < b'']"
      "[Metric (JStr ''$4.2M'') (JStr ''Revenue'')]" "JStr ''Revenue''"
      "[Feature (JStr ''Expand'') (JStr ''Enter 3 new markets'')]" "[JStr ''ceo@company.com'']"]
  have f: "\<not> truthy (JNum 0)" and g: \<open>truthy (JStr ''<b>"x" & y</b>'')\<close>
    by simp_all
  have l: "(0 :: nat) < length [JStr ''Revenue up 23%'', JStr ''a < b'']"
    "(0 :: nat) < length [Metric (JStr ''$4.2M'') (JStr ''Revenue'')]" "(0 :: nat) < 3"
    "(0 :: nat) < length [Feature (JStr ''Expand'') (JStr ''Enter 3 new markets'')]"
    "(0 :: nat) < length [JStr ''ceo@company.com'']"
    by simp_all
  from t1 f have "esc (JNum 0) = []" by blast
  moreover from t2 g e have \<open>esc (JStr ''<b>"x" & y</b>'') = ''&lt;b&gt;&quot;x&quot; &amp; y&lt;/b&gt;''\<close>
    by metis
  moreover from t1 l have
    "inserted_escaped (\<lambda>x. contentSlide
     ((example_data (JStr ''Q4'') (JStr ''b''))
        \<lparr>bullets := Some ([JStr ''Revenue up 23%'', JStr ''a < b''][0 := x])\<rparr>))"
    by blast
  moreover from t1 l have
    "inserted_escaped (\<lambda>x. dataSlide
     ((example_data (JStr ''Q4'') (JStr ''b''))
        \<lparr>metrics := Some ([Metric (JStr ''$4.2M'') (JStr ''Revenue'')][0 := Metric x (JStr ''Revenue'')])\<rparr>))"
    by blast
  moreover from t1 l have
    "inserted_escaped (\<lambda>x. featuresSlide
     ((example_data (JStr ''Q4'') (JStr ''b''))
        \<lparr>features := Some ([Feature (JStr ''Expand'') (JStr ''Enter 3 new markets'')]
           [0 := Feature (JStr ''Revenue'') x])\<rparr>))"
    by blast
  moreover from t1 l have
    "inserted_escaped (\<lambda>x. closingSlide
     ((example_data (JStr ''Q4'') (JStr ''b''))
        \<lparr>contactLines := Some ([JStr ''ceo@company.com''][0 := x])\<rparr>))"
    by blast
  ultimately show ?thesis using f g l by blast
qed

section \<open>Effects of the client functions on the world\<close>

lemma images_of_response_nonempty: "images_of_response resp = Success imgs \<Longrightarrow> imgs \<noteq> []"
  by (auto simp add: images_of_response_def split: response.splits list.splits option.splits)

lemma result_cases:
  obtains e where "r = Failure e"
  | "r = Success []"
  | imgs where "r = Success (None # imgs)"
  | img imgs where "r = Success (Some img # imgs)"
proof (cases r)
  case (Failure e)
  then show ?thesis using that by blast
next
  case (Success xs)
  show ?thesis
  proof (cases xs)
    case Nil
    with Success show ?thesis using that by blast
  next
    case (Cons x xs')
    with Success show ?thesis using that by (cases x) auto
  qed
qed

lemma normalizeAspectRatio_16_9: "normalizeAspectRatio ''16:9'' = ''IMAGE_ASPECT_RATIO_LANDSCAPE''"
  by (simp add: normalizeAspectRatio_def ASPECT_RATIO_MAP_def)

lemma generateBackground_eq:
  "generateBackground R p token rs w =
     (images_of_response (R (length (calls w)) (bg_request token rs p)),
      w\<lparr>calls := calls w @ [bg_request token rs p]\<rparr>)"
  by (simp add: generateBackground_def generateWithReference_def generateImage_def fetch_def
      bg_request_def normalizeAspectRatio_16_9 Let_def)

lemma uploadAndAnalyze_world:
  "snd (uploadAndAnalyze R b c t w) = w\<lparr>calls := calls w @ [Caption t c b, Upload t c b]\<rparr>"
  by (simp add: uploadAndAnalyze_def getCaptionForImage_def uploadReference_def fetch_def Let_def
      split_beta)

lemma uploadUserRefs_skip:
  "\<not> existsSync w p \<Longrightarrow> uploadUserRefs R t (p # ps) rs w = uploadUserRefs R t ps rs w"
  by simp

lemma uploadUserRefs_throw:
  "existsSync w p \<Longrightarrow> readFileSync w p = Inl e \<Longrightarrow> uploadUserRefs R t (p # ps) rs w = (Inl e, w)"
  by simp

lemma uploadUserRefs_step:
  assumes "existsSync w p" and "readFileSync w p = Inr b"
    and "uploadAndAnalyze R b MEDIA_CATEGORY_STYLE t w = (a, w')"
  shows "uploadUserRefs R t (p # ps) rs w =
    uploadUserRefs R t ps
      (case a of
         Success (m, c) \<Rightarrow> rs @ [\<lparr>category = MEDIA_CATEGORY_STYLE, mediaId = m, caption = c\<rparr>]
       | Failure _ \<Rightarrow> rs) w'"
proof (cases a)
  case (Failure e)
  with assms show ?thesis by simp
next
  case (Success mc)
  with assms show ?thesis by (cases mc) simp
qed

lemma uploadUserRefs_files:
  "files (snd (uploadUserRefs R token ps rs w)) = files w"
proof (induction ps arbitrary: rs w)
  case Nil
  show ?case by simp
next
  case (Cons p ps)
  show ?case
  proof (cases "existsSync w p")
    case False
    then show ?thesis using Cons by (simp add: uploadUserRefs_skip del: uploadUserRefs.simps)
  next
    case True
    show ?thesis
    proof (cases "readFileSync w p")
      case (Inl e)
      with True show ?thesis by (simp add: uploadUserRefs_throw del: uploadUserRefs.simps)
    next
      case (Inr b)
      obtain a w' where u: "uploadAndAnalyze R b MEDIA_CATEGORY_STYLE token w = (a, w')"
        by (cases "uploadAndAnalyze R b MEDIA_CATEGORY_STYLE token w")
      then have "w' = snd (uploadAndAnalyze R b MEDIA_CATEGORY_STYLE token w)" by simp
      then have f: "files w' = files w" by (simp add: uploadAndAnalyze_world)
      show ?thesis
        unfolding uploadUserRefs_step [OF True Inr u] using Cons f by simp
    qed
  qed
qed

section \<open>The loops over the slides\<close>

lemma bg_path_neq: "i \<noteq> j \<Longrightarrow> bg_path dir ss i \<noteq> bg_path dir ss j"
  unfolding bg_path_def using bg_path_inj by blast

lemma generateFallbackBackground_eq:
  "generateFallbackBackground dir (type (ss ! i)) i w =
     (bg_path dir ss i, w\<lparr>files := (files w)(bg_path dir ss i \<mapsto> fallback_image (ss ! i))\<rparr>)"
  by (simp add: generateFallbackBackground_def bg_path_def fallback_image_def Let_def)

lemma upt_step: "i < n \<Longrightarrow> [i..<n] = i # [Suc i..<n]"
  by (simp add: upt_conv_Cons)

lemma fallbackBackgrounds_spec:
  "fallbackBackgrounds dir ss i bgs w = (r, w') \<Longrightarrow>
     r = bgs @ map (bg_path dir ss) [i..<length ss] \<and>
     calls w' = calls w \<and>
     (\<forall>j. i \<le> j \<and> j < length ss \<longrightarrow> files w' (bg_path dir ss j) = Some (fallback_image (ss ! j))) \<and>
     (\<forall>p. (\<forall>j. i \<le> j \<and> j < length ss \<longrightarrow> p \<noteq> bg_path dir ss j) \<longrightarrow> files w' p = files w p)"
proof (induction dir ss i bgs w arbitrary: r w' rule: fallbackBackgrounds.induct)
  case (1 dir ss i bgs w)
  show ?case
  proof (cases "i < length ss")
    case False
    with "1.prems" show ?thesis
      by (auto simp add: fallbackBackgrounds.simps [of dir ss i])
  next
    case True
    let ?w1 = "w\<lparr>files := (files w)(bg_path dir ss i \<mapsto> fallback_image (ss ! i))\<rparr>"
    from True "1.prems" have rec:
      "fallbackBackgrounds dir ss (i + 1) (bgs @ [bg_path dir ss i]) ?w1 = (r, w')"
      by (simp add: fallbackBackgrounds.simps [of dir ss i] generateFallbackBackground_eq)
    note ih = "1.IH" [OF True generateFallbackBackground_eq [symmetric] refl rec]
    from ih have r: "r = bgs @ map (bg_path dir ss) [i..<length ss]"
      using True by (simp add: upt_step)
    from ih have c: "calls w' = calls w" by simp
    from ih have later: "\<And>j. Suc i \<le> j \<Longrightarrow> j < length ss \<Longrightarrow>
        files w' (bg_path dir ss j) = Some (fallback_image (ss ! j))"
      by simp
    from ih have frame: "\<And>p. (\<forall>j. Suc i \<le> j \<and> j < length ss \<longrightarrow> p \<noteq> bg_path dir ss j) \<Longrightarrow>
        files w' p = files ?w1 p"
      by simp
    have here: "files w' (bg_path dir ss i) = Some (fallback_image (ss ! i))"
    proof -
      have "files w' (bg_path dir ss i) = files ?w1 (bg_path dir ss i)"
        by (rule frame) (auto intro!: bg_path_neq)
      then show ?thesis by simp
    qed
    have written: "\<forall>j. i \<le> j \<and> j < length ss \<longrightarrow>
        files w' (bg_path dir ss j) = Some (fallback_image (ss ! j))"
    proof (intro allI impI)
      fix j assume j: "i \<le> j \<and> j < length ss"
      show "files w' (bg_path dir ss j) = Some (fallback_image (ss ! j))"
      proof (cases "j = i")
        case True
        with here show ?thesis by simp
      next
        case False
        with j later show ?thesis by simp
      qed
    qed
    have others: "\<forall>p. (\<forall>j. i \<le> j \<and> j < length ss \<longrightarrow> p \<noteq> bg_path dir ss j) \<longrightarrow>
        files w' p = files w p"
    proof (intro allI impI)
      fix p assume p: "\<forall>j. i \<le> j \<and> j < length ss \<longrightarrow> p \<noteq> bg_path dir ss j"
      then have "files w' p = files ?w1 p" by (intro frame) auto
      moreover from p True have "p \<noteq> bg_path dir ss i" by auto
      ultimately show "files w' p = files w p" by simp
    qed
    from r c written others show ?thesis by blast
  qed
qed

text \<open>
  One turn of the loop of phase 1d. The image written for the slide is the first image of
  the response, or the fallback image of the slide's type when the call fails; a response
  whose first image has no \<open>encodedImage\<close> ends the loop with a \<open>TypeError\<close>.
\<close>

lemma lacks_encodedImage_iff:
  "lacks_encodedImage (images_of_response resp) \<longleftrightarrow>
     (\<exists>imgs. images_of_response resp = Success (None # imgs))"
  by (cases "images_of_response resp" rule: result_cases) (simp_all add: lacks_encodedImage_def)

lemma remainingBackgrounds_throw:
  assumes "i < length ss"
    and "lacks_encodedImage (slide_result R (length (calls w)) token rs sd (ss ! i))"
  shows "remainingBackgrounds R dir sd token rs ss i res w =
    (Inl TypeError, w\<lparr>calls := calls w @ [bg_request token rs (buildBgPrompt sd (type (ss ! i)))]\<rparr>)"
proof -
  from assms(2) obtain imgs where
    "images_of_response (R (length (calls w)) (bg_request token rs (buildBgPrompt sd (type (ss ! i))))) =
       Success (None # imgs)"
    unfolding slide_result_def lacks_encodedImage_iff by blast
  with assms(1) show ?thesis
    by (simp add: remainingBackgrounds.simps [of R dir sd token rs ss i] generateBackground_eq Let_def)
qed

lemma remainingBackgrounds_step:
  assumes "i < length ss"
    and "\<not> lacks_encodedImage (slide_result R (length (calls w)) token rs sd (ss ! i))"
  shows "remainingBackgrounds R dir sd token rs ss i res w =
    remainingBackgrounds R dir sd token rs ss (i + 1) (res @ [bg_path dir ss i])
      (w\<lparr>calls := calls w @ [bg_request token rs (buildBgPrompt sd (type (ss ! i)))],
         files := (files w)(bg_path dir ss i \<mapsto>
           (case slide_result R (length (calls w)) token rs sd (ss ! i) of
              Success (Some x # _) \<Rightarrow> Encoded x
            | _ \<Rightarrow> fallback_image (ss ! i)))\<rparr>)"
proof (cases "slide_result R (length (calls w)) token rs sd (ss ! i)" rule: result_cases)
  case (1 e)
  with assms(1) show ?thesis
    by (simp add: remainingBackgrounds.simps [of R dir sd token rs ss i] generateBackground_eq
        slide_result_def generateFallbackBackground_eq Let_def)
next
  case 2
  then show ?thesis
    unfolding slide_result_def using images_of_response_nonempty by blast
next
  case (3 imgs)
  with assms(2) show ?thesis by (simp add: lacks_encodedImage_def)
next
  case (4 img imgs)
  with assms(1) show ?thesis
    by (simp add: remainingBackgrounds.simps [of R dir sd token rs ss i] generateBackground_eq
        slide_result_def saveBase64Image_def bg_path_def Let_def)
qed

text \<open>
  What the loop has done when it returns the list: it has sent one request for each
  slide from \<open>i\<close> on, in order, no response lacked the image, and the file of each of these
  slides is the fallback image when its request failed and the first image of the
  response otherwise.
\<close>

lemma remainingBackgrounds_spec:
  "remainingBackgrounds R dir sd token rs ss i res w = (Inr paths, w') \<Longrightarrow>
     paths = res @ map (bg_path dir ss) [i..<length ss] \<and>
     calls w' = calls w @
       map (\<lambda>j. bg_request token rs (buildBgPrompt sd (type (ss ! j)))) [i..<length ss] \<and>
     (\<forall>j. i \<le> j \<and> j < length ss \<longrightarrow>
        \<not> lacks_encodedImage (slide_result R (length (calls w) + (j - i)) token rs sd (ss ! j)) \<and>
        (\<forall>e. slide_result R (length (calls w) + (j - i)) token rs sd (ss ! j) = Failure e \<longrightarrow>
           files w' (bg_path dir ss j) = Some (fallback_image (ss ! j))) \<and>
        (\<forall>img imgs. slide_result R (length (calls w) + (j - i)) token rs sd (ss ! j) =
             Success (Some img # imgs) \<longrightarrow>
           files w' (bg_path dir ss j) = Some (Encoded img))) \<and>
     (\<forall>p. (\<forall>j. i \<le> j \<and> j < length ss \<longrightarrow> p \<noteq> bg_path dir ss j) \<longrightarrow> files w' p = files w p)"
proof (induction n \<equiv> "length ss - i" arbitrary: i res w)
  case 0
  then have "\<not> i < length ss" by simp
  with "0.prems" show ?case
    by (auto simp add: remainingBackgrounds.simps [of R dir sd token rs ss i])
next
  case (Suc n)
  then have lt: "i < length ss" and n: "n = length ss - (i + 1)" by simp_all
  let ?req = "bg_request token rs (buildBgPrompt sd (type (ss ! i)))"
  let ?res = "slide_result R (length (calls w)) token rs sd (ss ! i)"
  have ok: "\<not> lacks_encodedImage ?res"
  proof
    assume "lacks_encodedImage ?res"
    from remainingBackgrounds_throw [OF lt this, of dir res] Suc.prems show False by simp
  qed
  obtain img0 where img0: "img0 = (case ?res of Success (Some x # _) \<Rightarrow> Encoded x | _ \<Rightarrow> fallback_image (ss ! i))"
    by simp
  let ?w2 = "w\<lparr>calls := calls w @ [?req], files := (files w)(bg_path dir ss i \<mapsto> img0)\<rparr>"
  have rec: "remainingBackgrounds R dir sd token rs ss (i + 1) (res @ [bg_path dir ss i]) ?w2 = (Inr paths, w')"
    using remainingBackgrounds_step [OF lt ok, of dir res] Suc.prems img0 by simp
  note ih = Suc.hyps(1) [OF n rec]
  from ih have r: "paths = res @ map (bg_path dir ss) [i..<length ss]"
    using lt by (simp add: upt_step)
  from ih have c: "calls w' = calls w @
       map (\<lambda>j. bg_request token rs (buildBgPrompt sd (type (ss ! j)))) [i..<length ss]"
    using lt by (simp add: upt_step)
  from ih have frame: "\<And>p. (\<forall>j. Suc i \<le> j \<and> j < length ss \<longrightarrow> p \<noteq> bg_path dir ss j) \<Longrightarrow>
      files w' p = files ?w2 p"
    by simp
  have here: "files w' (bg_path dir ss i) = Some img0"
  proof -
    have "files w' (bg_path dir ss i) = files ?w2 (bg_path dir ss i)"
      by (rule frame) (auto intro!: bg_path_neq)
    then show ?thesis by simp
  qed
  have idx: "length (calls ?w2) + (j - (i + 1)) = length (calls w) + (j - i)" if "Suc i \<le> j" for j
    using that by simp
  have written: "\<forall>j. i \<le> j \<and> j < length ss \<longrightarrow>
        \<not> lacks_encodedImage (slide_result R (length (calls w) + (j - i)) token rs sd (ss ! j)) \<and>
        (\<forall>e. slide_result R (length (calls w) + (j - i)) token rs sd (ss ! j) = Failure e \<longrightarrow>
           files w' (bg_path dir ss j) = Some (fallback_image (ss ! j))) \<and>
        (\<forall>img imgs. slide_result R (length (calls w) + (j - i)) token rs sd (ss ! j) =
             Success (Some img # imgs) \<longrightarrow>
           files w' (bg_path dir ss j) = Some (Encoded img))"
  proof (intro allI impI)
    fix j assume j: "i \<le> j \<and> j < length ss"
    show "\<not> lacks_encodedImage (slide_result R (length (calls w) + (j - i)) token rs sd (ss ! j)) \<and>
        (\<forall>e. slide_result R (length (calls w) + (j - i)) token rs sd (ss ! j) = Failure e \<longrightarrow>
           files w' (bg_path dir ss j) = Some (fallback_image (ss ! j))) \<and>
        (\<forall>img imgs. slide_result R (length (calls w) + (j - i)) token rs sd (ss ! j) =
             Success (Some img # imgs) \<longrightarrow>
           files w' (bg_path dir ss j) = Some (Encoded img))"
    proof (cases "j = i")
      case True
      with here img0 ok show ?thesis by auto
    next
      case False
      with j have sj: "Suc i \<le> j" and jl: "j < length ss" by simp_all
      from ih sj jl have
        "\<not> lacks_encodedImage (slide_result R (length (calls ?w2) + (j - (i + 1))) token rs sd (ss ! j)) \<and>
        (\<forall>e. slide_result R (length (calls ?w2) + (j - (i + 1))) token rs sd (ss ! j) = Failure e \<longrightarrow>
           files w' (bg_path dir ss j) = Some (fallback_image (ss ! j))) \<and>
        (\<forall>img imgs. slide_result R (length (calls ?w2) + (j - (i + 1))) token rs sd (ss ! j) =
             Success (Some img # imgs) \<longrightarrow>
           files w' (bg_path dir ss j) = Some (Encoded img))"
        by simp
      then show ?thesis unfolding idx [OF sj] .
    qed
  qed
  have others: "\<forall>p. (\<forall>j. i \<le> j \<and> j < length ss \<longrightarrow> p \<noteq> bg_path dir ss j) \<longrightarrow>
        files w' p = files w p"
  proof (intro allI impI)
    fix p assume p: "\<forall>j. i \<le> j \<and> j < length ss \<longrightarrow> p \<noteq> bg_path dir ss j"
    then have "files w' p = files ?w2 p" by (intro frame) auto
    moreover from p lt have "p \<noteq> bg_path dir ss i" by auto
    ultimately show "files w' p = files w p" by simp
  qed
  from r c written others show ?case by blast
qed

text \<open>The loop returns the list when no response lacks the image.\<close>

lemma remainingBackgrounds_returns:
  "(\<forall>j. i \<le> j \<and> j < length ss \<longrightarrow>
      \<not> lacks_encodedImage (slide_result R (length (calls w) + (j - i)) token rs sd (ss ! j))) \<Longrightarrow>
   \<exists>paths w'. remainingBackgrounds R dir sd token rs ss i res w = (Inr paths, w')"
proof (induction n \<equiv> "length ss - i" arbitrary: i res w)
  case 0
  then have "\<not> i < length ss" by simp
  then show ?case
    by (simp add: remainingBackgrounds.simps [of R dir sd token rs ss i])
next
  case (Suc n)
  then have lt: "i < length ss" and n: "n = length ss - (i + 1)" by simp_all
  let ?req = "bg_request token rs (buildBgPrompt sd (type (ss ! i)))"
  let ?res = "slide_result R (length (calls w)) token rs sd (ss ! i)"
  from Suc.prems lt have ok: "\<not> lacks_encodedImage ?res"
    by (metis add_0_right diff_self_eq_0 le_refl)
  let ?w2 = "w\<lparr>calls := calls w @ [?req], files := (files w)(bg_path dir ss i \<mapsto>
      (case ?res of Success (Some x # _) \<Rightarrow> Encoded x | _ \<Rightarrow> fallback_image (ss ! i)))\<rparr>"
  have "\<forall>j. i + 1 \<le> j \<and> j < length ss \<longrightarrow>
      \<not> lacks_encodedImage (slide_result R (length (calls ?w2) + (j - (i + 1))) token rs sd (ss ! j))"
  proof (intro allI impI)
    fix j assume j: "i + 1 \<le> j \<and> j < length ss"
    have "length (calls ?w2) = length (calls w) + 1" by simp
    moreover from j have "length (calls w) + 1 + (j - (i + 1)) = length (calls w) + (j - i)"
      by arith
    ultimately have e: "length (calls ?w2) + (j - (i + 1)) = length (calls w) + (j - i)"
      by (simp only:)
    from j Suc.prems have
      "\<not> lacks_encodedImage (slide_result R (length (calls w) + (j - i)) token rs sd (ss ! j))"
      by simp
    then show
      "\<not> lacks_encodedImage (slide_result R (length (calls ?w2) + (j - (i + 1))) token rs sd (ss ! j))"
      unfolding e .
  qed
  from Suc.hyps(1) [OF n this] show ?case
    unfolding remainingBackgrounds_step [OF lt ok] .
qed

lemma remainingBackgrounds_present:
  assumes "remainingBackgrounds R dir sd token rs ss i res w = (Inr paths, w')"
    and "i \<le> j" and "j < length ss"
  shows "files w' (bg_path dir ss j) \<noteq> None"
proof (cases "slide_result R (length (calls w) + (j - i)) token rs sd (ss ! j)" rule: result_cases)
  case (1 e)
  with remainingBackgrounds_spec [OF assms(1)] assms(2,3) show ?thesis by simp
next
  case 2
  then show ?thesis
    unfolding slide_result_def using images_of_response_nonempty by blast
next
  case (3 imgs)
  then have "lacks_encodedImage (slide_result R (length (calls w) + (j - i)) token rs sd (ss ! j))"
    by (simp add: lacks_encodedImage_def)
  with remainingBackgrounds_spec [OF assms(1)] assms(2,3) show ?thesis by blast
next
  case (4 img imgs)
  with remainingBackgrounds_spec [OF assms(1)] assms(2,3) show ?thesis by simp
qed

section \<open>The background phase\<close>

lemma generateWhiskBackgrounds_no_token:
  "loadToken (tokenFile w) (clock w) = None \<Longrightarrow>
     generateWhiskBackgrounds R dir sd rfs ss w = (Inr None, w)"
  by (simp add: generateWhiskBackgrounds_def)

lemma generateWhiskBackgrounds_refs_throw:
  assumes "loadToken (tokenFile w) (clock w) = Some tok"
    and "uploadUserRefs R (accessToken tok) (or_empty rfs) [] w = (Inl e, w1)"
  shows "generateWhiskBackgrounds R dir sd rfs ss w = (Inl e, w1)"
  using assms by (simp add: generateWhiskBackgrounds_def)

lemma generateWhiskBackgrounds_unfold:
  assumes "loadToken (tokenFile w) (clock w) = Some tok"
    and "uploadUserRefs R (accessToken tok) (or_empty rfs) [] w = (Inr urs, w1)"
  shows "generateWhiskBackgrounds R dir sd rfs (s0 # rest) w =
    (let token = accessToken tok;
         w2 = w1\<lparr>calls := calls w1 @ [bg_request token urs (buildBgPrompt sd (type s0))]\<rparr>
     in case slide_result R (length (calls w1)) token urs sd s0 of
          Failure e \<Rightarrow> (Inr None, w2)
        | Success imgs \<Rightarrow>
            (case imgs of
               [] \<Rightarrow> (Inl TypeError, w2)
             | None # _ \<Rightarrow> (Inl TypeError, w2)
             | Some img # _ \<Rightarrow>
                 (let w3 = w2\<lparr>files := (files w2)(bg_path dir (s0 # rest) 0 \<mapsto> Encoded img)\<rparr>;
                      ua = uploadAndAnalyze R (Encoded img) MEDIA_CATEGORY_STYLE token w3;
                      rb = remainingBackgrounds R dir sd token (urs @ promoted (fst ua)) (s0 # rest) 1
                             [bg_path dir (s0 # rest) 0] (snd ua)
                  in (case fst rb of
                        Inl e \<Rightarrow> (Inl e, snd rb)
                      | Inr results \<Rightarrow> (Inr (Some results), snd rb)))))"
  using assms
  by (simp add: generateWhiskBackgrounds_def generateBackground_eq slide_result_def Let_def
      split_beta saveBase64Image_def bg_path_def promoted_def
      split: result.splits list.splits sum.splits option.splits)

lemma generateWhiskBackgrounds_anchor_failure:
  assumes "loadToken (tokenFile w) (clock w) = Some tok"
    and "uploadUserRefs R (accessToken tok) (or_empty rfs) [] w = (Inr urs, w1)"
    and "generateBackground R (buildBgPrompt sd (type s0)) (accessToken tok) urs w1 = (Failure e, w2)"
  shows "generateWhiskBackgrounds R dir sd rfs (s0 # rest) w = (Inr None, w2) \<and> files w2 = files w"
proof -
  from assms(3) have w2: "w2 = w1\<lparr>calls := calls w1 @ [bg_request (accessToken tok) urs (buildBgPrompt sd (type s0))]\<rparr>"
    and res: "slide_result R (length (calls w1)) (accessToken tok) urs sd s0 = Failure e"
    by (simp_all add: generateBackground_eq slide_result_def)
  have "files w1 = files w"
    using uploadUserRefs_files [of R "accessToken tok" "or_empty rfs" "[]" w] assms(2) by simp
  with w2 have "files w2 = files w" by simp
  moreover have "generateWhiskBackgrounds R dir sd rfs (s0 # rest) w = (Inr None, w2)"
    by (simp add: generateWhiskBackgrounds_unfold [OF assms(1,2)] res w2 Let_def)
  ultimately show ?thesis by simp
qed

lemma generateWhiskBackgrounds_anchor_throw:
  assumes "loadToken (tokenFile w) (clock w) = Some tok"
    and "uploadUserRefs R (accessToken tok) (or_empty rfs) [] w = (Inr urs, w1)"
    and "generateBackground R (buildBgPrompt sd (type s0)) (accessToken tok) urs w1 =
           (Success (None # imgs), w2)"
  shows "generateWhiskBackgrounds R dir sd rfs (s0 # rest) w = (Inl TypeError, w2)"
proof -
  from assms(3) have w2: "w2 = w1\<lparr>calls := calls w1 @ [bg_request (accessToken tok) urs (buildBgPrompt sd (type s0))]\<rparr>"
    and res: "slide_result R (length (calls w1)) (accessToken tok) urs sd s0 = Success (None # imgs)"
    by (simp_all add: generateBackground_eq slide_result_def)
  show ?thesis
    by (simp add: generateWhiskBackgrounds_unfold [OF assms(1,2)] res w2 Let_def)
qed

lemma generateWhiskBackgrounds_anchor_success:
  assumes "loadToken (tokenFile w) (clock w) = Some tok"
    and "uploadUserRefs R (accessToken tok) (or_empty rfs) [] w = (Inr urs, w1)"
    and "generateBackground R (buildBgPrompt sd (type s0)) (accessToken tok) urs w1 =
           (Success (Some img # imgs), w2)"
    and "uploadAndAnalyze R (Encoded img) MEDIA_CATEGORY_STYLE (accessToken tok)
           (saveBase64Image img (bg_path dir (s0 # rest) 0) w2) = (a, w4)"
    and "remainingBackgrounds R dir sd (accessToken tok) (urs @ promoted a) (s0 # rest) 1
           [bg_path dir (s0 # rest) 0] w4 = (rr, w')"
  shows "generateWhiskBackgrounds R dir sd rfs (s0 # rest) w =
    (case rr of Inl e \<Rightarrow> Inl e | Inr paths \<Rightarrow> Inr (Some paths), w')"
proof -
  from assms(3) have w2: "w2 = w1\<lparr>calls := calls w1 @ [bg_request (accessToken tok) urs (buildBgPrompt sd (type s0))]\<rparr>"
    and res: "slide_result R (length (calls w1)) (accessToken tok) urs sd s0 = Success (Some img # imgs)"
    by (simp_all add: generateBackground_eq slide_result_def)
  from assms(4) have ua: "uploadAndAnalyze R (Encoded img) MEDIA_CATEGORY_STYLE (accessToken tok)
      (w2\<lparr>files := (files w2)(bg_path dir (s0 # rest) 0 \<mapsto> Encoded img)\<rparr>) = (a, w4)"
    by (simp add: saveBase64Image_def)
  show ?thesis
    using assms(5) ua
    by (cases rr) (simp_all add: generateWhiskBackgrounds_unfold [OF assms(1,2)] res w2 [symmetric] Let_def)
qed

lemma generateWhiskBackgrounds_success:
  assumes "generateWhiskBackgrounds R dir sd rfs ss w = (Inr (Some paths), w')"
  obtains tok urs w1 img imgs w2 a w4 where
    "loadToken (tokenFile w) (clock w) = Some tok"
    "ss \<noteq> []"
    "uploadUserRefs R (accessToken tok) (or_empty rfs) [] w = (Inr urs, w1)"
    "generateBackground R (buildBgPrompt sd (type (ss ! 0))) (accessToken tok) urs w1 =
       (Success (Some img # imgs), w2)"
    "uploadAndAnalyze R (Encoded img) MEDIA_CATEGORY_STYLE (accessToken tok)
       (saveBase64Image img (bg_path dir ss 0) w2) = (a, w4)"
    "remainingBackgrounds R dir sd (accessToken tok) (urs @ promoted a) ss 1 [bg_path dir ss 0] w4 =
       (Inr paths, w')"
proof -
  obtain tok where tok: "loadToken (tokenFile w) (clock w) = Some tok"
    using assms by (cases "loadToken (tokenFile w) (clock w)") (simp_all add: generateWhiskBackgrounds_def)
  obtain u w1 where u0: "uploadUserRefs R (accessToken tok) (or_empty rfs) [] w = (u, w1)"
    by (cases "uploadUserRefs R (accessToken tok) (or_empty rfs) [] w")
  obtain urs where urs: "u = Inr urs"
    using assms generateWhiskBackgrounds_refs_throw [OF tok, of R rfs _ w1 dir sd ss] u0
    by (cases u) simp_all
  note u = u0 [unfolded urs]
  obtain s0 rest where ss: "ss = s0 # rest"
    using assms tok u by (cases ss) (simp_all add: generateWhiskBackgrounds_def)
  let ?req = "bg_request (accessToken tok) urs (buildBgPrompt sd (type s0))"
  let ?w2 = "w1\<lparr>calls := calls w1 @ [?req]\<rparr>"
  obtain res where res: "slide_result R (length (calls w1)) (accessToken tok) urs sd s0 = res"
    by simp
  have gen: "generateBackground R (buildBgPrompt sd (type s0)) (accessToken tok) urs w1 = (res, ?w2)"
    using res by (simp add: generateBackground_eq slide_result_def)
  note unf = generateWhiskBackgrounds_unfold [OF tok u, of dir sd s0 rest]
  obtain img imgs where imgs: "res = Success (Some img # imgs)"
  proof (cases res rule: result_cases)
    case (1 e)
    with assms ss res show ?thesis by (simp add: unf Let_def)
  next
    case 2
    with assms ss res show ?thesis by (simp add: unf Let_def)
  next
    case (3 xs)
    with assms ss res show ?thesis by (simp add: unf Let_def)
  next
    case (4 x xs)
    with that show ?thesis by blast
  qed
  obtain a w4 where ua: "uploadAndAnalyze R (Encoded img) MEDIA_CATEGORY_STYLE (accessToken tok)
       (saveBase64Image img (bg_path dir ss 0) ?w2) = (a, w4)"
    by (cases "uploadAndAnalyze R (Encoded img) MEDIA_CATEGORY_STYLE (accessToken tok)
       (saveBase64Image img (bg_path dir ss 0) ?w2)")
  obtain rr w5 where rb: "remainingBackgrounds R dir sd (accessToken tok) (urs @ promoted a) ss 1
      [bg_path dir ss 0] w4 = (rr, w5)"
    by (cases "remainingBackgrounds R dir sd (accessToken tok) (urs @ promoted a) ss 1
      [bg_path dir ss 0] w4")
  from generateWhiskBackgrounds_anchor_success
    [OF tok u gen [unfolded imgs] ua [unfolded ss] rb [unfolded ss]] assms ss
  have "rr = Inr paths \<and> w5 = w'"
    by (cases rr) simp_all
  with rb have rb': "remainingBackgrounds R dir sd (accessToken tok) (urs @ promoted a) ss 1
      [bg_path dir ss 0] w4 = (Inr paths, w')"
    by simp
  from gen imgs ss have gen': "generateBackground R (buildBgPrompt sd (type (ss ! 0))) (accessToken tok) urs w1 =
      (Success (Some img # imgs), ?w2)"
    by simp
  from ss have "ss \<noteq> []" by simp
  from that [OF tok this u gen' ua rb'] show ?thesis .
qed

section \<open>Properties of the background phase\<close>

lemma buildPresentation_backgrounds_unfold:
  "buildPresentation_backgrounds R cfg w =
     (case generateWhiskBackgrounds R (images_dir cfg w) (cfg_style cfg) (cfg_refs cfg) (cfg_slides cfg) w of
        (Inl e, w1) \<Rightarrow> (Inl e, w1)
      | (Inr (Some backgrounds), w1) \<Rightarrow> (Inr backgrounds, w1)
      | (Inr None, w1) \<Rightarrow>
          (case fallbackBackgrounds (images_dir cfg w) (cfg_slides cfg) 0 [] w1 of
             (backgrounds, w2) \<Rightarrow> (Inr backgrounds, w2)))"
  by (simp add: buildPresentation_backgrounds_def images_dir_def Let_def
      split: prod.splits sum.splits option.splits)

lemma fallback_pass:
  assumes "fallbackBackgrounds dir ss 0 [] w1 = (bgs, w2)"
  shows "calls w2 = calls w1 \<and> length bgs = length ss \<and>
    (\<forall>i<length ss. bgs ! i = bg_path dir ss i \<and>
       files w2 (bgs ! i) = Some (fallback_image (ss ! i)))"
  using fallbackBackgrounds_spec [OF assms] by simp

lemma remainingBackgrounds_earlier:
  assumes "remainingBackgrounds R dir sd token rs ss i res w = (Inr paths, w')" and "k < i"
  shows "files w' (bg_path dir ss k) = files w (bg_path dir ss k)"
proof -
  from remainingBackgrounds_spec [OF assms(1)] have
    "(\<forall>j. i \<le> j \<and> j < length ss \<longrightarrow> bg_path dir ss k \<noteq> bg_path dir ss j) \<longrightarrow>
       files w' (bg_path dir ss k) = files w (bg_path dir ss k)"
    by blast
  moreover have "\<forall>j. i \<le> j \<and> j < length ss \<longrightarrow> bg_path dir ss k \<noteq> bg_path dir ss j"
    using assms(2) by (auto intro!: bg_path_neq)
  ultimately show ?thesis by blast
qed

text \<open>
  The three ways in which \<open>generateWhiskBackgrounds\<close> ends for a deck with at least one
  slide: with an error thrown, with \<open>null\<close> and no file written, or with the list of the
  paths of all slides, a file written at each.
\<close>

lemma generateWhiskBackgrounds_outcome:
  assumes "ss \<noteq> []" and "generateWhiskBackgrounds R dir sd rfs ss w = (r, w')"
  shows "(\<exists>e. r = Inl e) \<or> (r = Inr None \<and> files w' = files w) \<or>
    (r = Inr (Some (map (bg_path dir ss) [0..<length ss])) \<and>
     (\<forall>j<length ss. files w' (bg_path dir ss j) \<noteq> None))"
proof (cases r)
  case (Inl e)
  then show ?thesis by blast
next
  case (Inr x)
  show ?thesis
  proof (cases x)
    case None
    show ?thesis
    proof (cases "loadToken (tokenFile w) (clock w)")
      case no: None
      with assms(2) Inr None show ?thesis by (simp add: generateWhiskBackgrounds_no_token)
    next
      case (Some tok)
      obtain s0 rest where ss: "ss = s0 # rest" using assms(1) by (cases ss) auto
      obtain u w1 where u0: "uploadUserRefs R (accessToken tok) (or_empty rfs) [] w = (u, w1)"
        by (cases "uploadUserRefs R (accessToken tok) (or_empty rfs) [] w")
      obtain urs where urs: "u = Inr urs"
        using assms(2) Inr generateWhiskBackgrounds_refs_throw [OF Some, of R rfs _ w1 dir sd ss] u0
        by (cases u) simp_all
      note u = u0 [unfolded urs]
      obtain res w2 where gen:
        "generateBackground R (buildBgPrompt sd (type s0)) (accessToken tok) urs w1 = (res, w2)"
        by (cases "generateBackground R (buildBgPrompt sd (type s0)) (accessToken tok) urs w1")
      from gen have res: "res = images_of_response (R (length (calls w1))
          (bg_request (accessToken tok) urs (buildBgPrompt sd (type s0))))"
        by (simp add: generateBackground_eq)
      show ?thesis
      proof (cases res rule: result_cases)
        case (1 e)
        from generateWhiskBackgrounds_anchor_failure [OF Some u gen [unfolded 1], of dir rest]
          assms(2) ss Inr None
        show ?thesis by simp
      next
        case 2
        with res show ?thesis
          using images_of_response_nonempty by metis
      next
        case (3 imgs)
        from generateWhiskBackgrounds_anchor_throw [OF Some u gen [unfolded 3], of dir rest]
          assms(2) ss Inr
        show ?thesis by simp
      next
        case (4 img imgs)
        obtain a w4 where ua: "uploadAndAnalyze R (Encoded img) MEDIA_CATEGORY_STYLE (accessToken tok)
            (saveBase64Image img (bg_path dir ss 0) w2) = (a, w4)"
          by (cases "uploadAndAnalyze R (Encoded img) MEDIA_CATEGORY_STYLE (accessToken tok)
            (saveBase64Image img (bg_path dir ss 0) w2)")
        obtain rr w5 where rb: "remainingBackgrounds R dir sd (accessToken tok) (urs @ promoted a) ss 1
            [bg_path dir ss 0] w4 = (rr, w5)"
          by (cases "remainingBackgrounds R dir sd (accessToken tok) (urs @ promoted a) ss 1
            [bg_path dir ss 0] w4")
        from generateWhiskBackgrounds_anchor_success
          [OF Some u gen [unfolded 4] ua [unfolded ss] rb [unfolded ss]] assms(2) ss Inr None
        show ?thesis by (cases rr) simp_all
      qed
    qed
  next
    case (Some paths)
    from assms(2) [unfolded Inr Some] obtain tok urs w1 img imgs w2 a w4 where
      tok: "loadToken (tokenFile w) (clock w) = Some tok"
      and "uploadUserRefs R (accessToken tok) (or_empty rfs) [] w = (Inr urs, w1)"
      and "generateBackground R (buildBgPrompt sd (type (ss ! 0))) (accessToken tok) urs w1 =
         (Success (Some img # imgs), w2)"
      and ua: "uploadAndAnalyze R (Encoded img) MEDIA_CATEGORY_STYLE (accessToken tok)
         (saveBase64Image img (bg_path dir ss 0) w2) = (a, w4)"
      and rb: "remainingBackgrounds R dir sd (accessToken tok) (urs @ promoted a) ss 1 [bg_path dir ss 0] w4 =
         (Inr paths, w')"
      by (rule generateWhiskBackgrounds_success)
    note spec = remainingBackgrounds_spec [OF rb]
    from spec have rr: "paths = [bg_path dir ss 0] @ map (bg_path dir ss) [1..<length ss]"
      by simp
    have "[0..<length ss] = 0 # [1..<length ss]"
      using assms(1) by (simp add: upt_conv_Cons)
    with rr have paths: "paths = map (bg_path dir ss) [0..<length ss]" by simp
    have w4: "w4 = (saveBase64Image img (bg_path dir ss 0) w2)\<lparr>calls :=
        calls (saveBase64Image img (bg_path dir ss 0) w2) @
          [Caption (accessToken tok) MEDIA_CATEGORY_STYLE (Encoded img),
           Upload (accessToken tok) MEDIA_CATEGORY_STYLE (Encoded img)]\<rparr>"
      using uploadAndAnalyze_world [of R "Encoded img" MEDIA_CATEGORY_STYLE "accessToken tok"
          "saveBase64Image img (bg_path dir ss 0) w2"] ua
      by simp
    have f0: "files w4 (bg_path dir ss 0) = Some (Encoded img)"
      by (simp add: w4 saveBase64Image_def)
    have "files w' (bg_path dir ss 0) = files w4 (bg_path dir ss 0)"
      by (rule remainingBackgrounds_earlier [OF rb]) simp
    with f0 have p0: "files w' (bg_path dir ss 0) \<noteq> None" by simp
    have "\<forall>j<length ss. files w' (bg_path dir ss j) \<noteq> None"
    proof (intro allI impI)
      fix j assume j: "j < length ss"
      show "files w' (bg_path dir ss j) \<noteq> None"
      proof (cases "j = 0")
        case True
        with p0 show ?thesis by simp
      next
        case False
        then have "1 \<le> j" by simp
        from remainingBackgrounds_present [OF rb this j] show ?thesis .
      qed
    qed
    with Inr Some paths show ?thesis by simp
  qed
qed

text \<open>
  When phase 1 of \<open>buildPresentation\<close> returns a list for \<open>N \<ge> 1\<close> slides, the list has
  exactly \<open>N\<close> entries, entry \<open>i\<close> is the path \<open>bg-i-type.png\<close> of slide \<open>i\<close> in the images
  directory, and a file has been written at every one of these paths.
\<close>

lemma backgrounds_aligned_when_returned:
  assumes "cfg_slides cfg \<noteq> []"
    and "buildPresentation_backgrounds R cfg w = (Inr backgrounds, w')"
  shows "length backgrounds = length (cfg_slides cfg) \<and>
    (\<forall>i<length (cfg_slides cfg).
       backgrounds ! i = bg_path (images_dir cfg w) (cfg_slides cfg) i \<and>
       files w' (backgrounds ! i) \<noteq> None)"
proof -
  let ?dir = "images_dir cfg w" and ?ss = "cfg_slides cfg"
  obtain g w1 where gw: "generateWhiskBackgrounds R ?dir (cfg_style cfg) (cfg_refs cfg) ?ss w = (g, w1)"
    by (cases "generateWhiskBackgrounds R ?dir (cfg_style cfg) (cfg_refs cfg) ?ss w")
  from generateWhiskBackgrounds_outcome [OF assms(1) gw]
  consider (thrown) e where "g = Inl e"
    | (none) "g = Inr None" "files w1 = files w"
    | (some) "g = Inr (Some (map (bg_path ?dir ?ss) [0..<length ?ss]))"
        "\<forall>j<length ?ss. files w1 (bg_path ?dir ?ss j) \<noteq> None"
    by blast
  then show ?thesis
  proof cases
    case thrown
    with assms(2) gw show ?thesis
      by (simp add: buildPresentation_backgrounds_unfold)
  next
    case none
    obtain bgs w2 where fb: "fallbackBackgrounds ?dir ?ss 0 [] w1 = (bgs, w2)"
      by (cases "fallbackBackgrounds ?dir ?ss 0 [] w1")
    from assms(2) gw none fb have "backgrounds = bgs" and "w' = w2"
      by (simp_all add: buildPresentation_backgrounds_unfold)
    with fallback_pass [OF fb] show ?thesis by auto
  next
    case some
    with assms(2) gw have "backgrounds = map (bg_path ?dir ?ss) [0..<length ?ss]" and "w' = w1"
      by (simp_all add: buildPresentation_backgrounds_unfold)
    with some show ?thesis by simp
  qed
qed

text \<open>
  C2: when \<open>loadToken\<close> returns \<open>null\<close>, \<open>generateWhiskBackgrounds\<close> returns \<open>null\<close> and leaves
  the world as it is, so that no request has been sent. Phase 1 of \<open>buildPresentation\<close>
  then sends no request either and returns one background per slide, each of them the
  fallback image of that slide's type, written at the path of that slide.
\<close>

theorem no_token_all_fallback:
  assumes "loadToken (tokenFile w) (clock w) = None"
  shows "generateWhiskBackgrounds R dir sd rfs ss w = (Inr None, w) \<and>
    (\<exists>backgrounds w'. buildPresentation_backgrounds R cfg w = (Inr backgrounds, w') \<and>
       calls w' = calls w \<and>
       length backgrounds = length (cfg_slides cfg) \<and>
       (\<forall>i<length (cfg_slides cfg).
          backgrounds ! i = bg_path (images_dir cfg w) (cfg_slides cfg) i \<and>
          files w' (backgrounds ! i) = Some (fallback_image (cfg_slides cfg ! i))))"
proof -
  let ?dir = "images_dir cfg w" and ?ss = "cfg_slides cfg"
  obtain bgs w2 where fb: "fallbackBackgrounds ?dir ?ss 0 [] w = (bgs, w2)"
    by (cases "fallbackBackgrounds ?dir ?ss 0 [] w")
  have "buildPresentation_backgrounds R cfg w = (Inr bgs, w2)"
    by (simp add: buildPresentation_backgrounds_unfold generateWhiskBackgrounds_no_token [OF assms] fb)
  with fallback_pass [OF fb] generateWhiskBackgrounds_no_token [OF assms, of R dir sd rfs ss]
  show ?thesis by auto
qed

text \<open>
  C3: when the credential is valid, the loop over the caller's references has come to
  its end and the generation call for slide 0 fails, \<open>generateWhiskBackgrounds\<close>
  returns \<open>null\<close> without having written any file, and phase 1
  of \<open>buildPresentation\<close> sends no further request and returns one background per slide,
  slide 0 included, each of them the fallback image of that slide's type.
\<close>

theorem anchor_failure_all_fallback:
  assumes "loadToken (tokenFile w) (clock w) = Some tok"
    and "cfg_slides cfg = s0 # rest"
    and "uploadUserRefs R (accessToken tok) (or_empty (cfg_refs cfg)) [] w = (Inr urs, w1)"
    and "generateBackground R (buildBgPrompt (cfg_style cfg) (type s0)) (accessToken tok) urs w1 =
           (Failure e, w2)"
  shows "generateWhiskBackgrounds R (images_dir cfg w) (cfg_style cfg) (cfg_refs cfg) (cfg_slides cfg) w =
      (Inr None, w2) \<and>
    files w2 = files w \<and>
    (\<exists>backgrounds w'. buildPresentation_backgrounds R cfg w = (Inr backgrounds, w') \<and>
       calls w' = calls w2 \<and>
       length backgrounds = length (cfg_slides cfg) \<and>
       (\<forall>i<length (cfg_slides cfg).
          backgrounds ! i = bg_path (images_dir cfg w) (cfg_slides cfg) i \<and>
          files w' (backgrounds ! i) = Some (fallback_image (cfg_slides cfg ! i))))"
proof -
  let ?dir = "images_dir cfg w" and ?ss = "cfg_slides cfg"
  note gw = generateWhiskBackgrounds_anchor_failure [OF assms(1,3,4), of ?dir rest, folded assms(2)]
  obtain bgs w3 where fb: "fallbackBackgrounds ?dir ?ss 0 [] w2 = (bgs, w3)"
    by (cases "fallbackBackgrounds ?dir ?ss 0 [] w2")
  have "buildPresentation_backgrounds R cfg w = (Inr bgs, w3)"
    using gw fb by (simp add: buildPresentation_backgrounds_unfold)
  with fallback_pass [OF fb] gw show ?thesis by auto
qed

subsection \<open>Two remote services that differ in one answer\<close>

lemma generateBackground_cong:
  "R' (length (calls w)) = R (length (calls w)) \<Longrightarrow>
     generateBackground R' p t rs w = generateBackground R p t rs w"
  by (simp add: generateBackground_eq)

lemma uploadAndAnalyze_cong:
  "R' (length (calls w)) = R (length (calls w)) \<Longrightarrow>
   R' (Suc (length (calls w))) = R (Suc (length (calls w))) \<Longrightarrow>
     uploadAndAnalyze R' b c t w = uploadAndAnalyze R b c t w"
  by (simp add: uploadAndAnalyze_def getCaptionForImage_def uploadReference_def fetch_def Let_def)

lemma uploadAndAnalyze_calls:
  "uploadAndAnalyze R b c t w = (a, w') \<Longrightarrow> length (calls w') = length (calls w) + 2"
  using uploadAndAnalyze_world [of R b c t w] by simp

lemma uploadUserRefs_calls_mono:
  "length (calls w) \<le> length (calls (snd (uploadUserRefs R t ps rs w)))"
proof (induction ps arbitrary: rs w)
  case Nil
  show ?case by simp
next
  case (Cons p ps)
  show ?case
  proof (cases "existsSync w p")
    case False
    then show ?thesis using Cons by (simp add: uploadUserRefs_skip del: uploadUserRefs.simps)
  next
    case True
    show ?thesis
    proof (cases "readFileSync w p")
      case (Inl e)
      with True show ?thesis by (simp add: uploadUserRefs_throw del: uploadUserRefs.simps)
    next
      case (Inr b)
      obtain a w' where u: "uploadAndAnalyze R b MEDIA_CATEGORY_STYLE t w = (a, w')"
        by (cases "uploadAndAnalyze R b MEDIA_CATEGORY_STYLE t w")
      from uploadAndAnalyze_calls [OF u] have "length (calls w) \<le> length (calls w')" by simp
      also have "length (calls w') \<le> length (calls (snd (uploadUserRefs R t ps
        (case a of
           Success (m, c) \<Rightarrow> rs @ [\<lparr>category = MEDIA_CATEGORY_STYLE, mediaId = m, caption = c\<rparr>]
         | Failure _ \<Rightarrow> rs) w')))"
        by (rule Cons)
      finally show ?thesis
        unfolding uploadUserRefs_step [OF True Inr u] .
    qed
  qed
qed

lemma uploadUserRefs_cong:
  "(\<forall>k<K. R' k = R k) \<Longrightarrow> length (calls (snd (uploadUserRefs R t ps rs w))) \<le> K \<Longrightarrow>
     uploadUserRefs R' t ps rs w = uploadUserRefs R t ps rs w"
proof (induction ps arbitrary: rs w)
  case Nil
  show ?case by simp
next
  case (Cons p ps)
  show ?case
  proof (cases "existsSync w p")
    case False
    then have s: "uploadUserRefs R t (p # ps) rs w = uploadUserRefs R t ps rs w"
      and s': "uploadUserRefs R' t (p # ps) rs w = uploadUserRefs R' t ps rs w"
      by (rule uploadUserRefs_skip)+
    from Cons.prems(2) have "length (calls (snd (uploadUserRefs R t ps rs w))) \<le> K"
      unfolding s .
    from Cons.IH [OF Cons.prems(1) this] show ?thesis
      unfolding s s' .
  next
    case True
    show ?thesis
    proof (cases "readFileSync w p")
      case (Inl e)
      show ?thesis
        unfolding uploadUserRefs_throw [OF True Inl] ..
    next
      case (Inr b)
      obtain a w' where u: "uploadAndAnalyze R b MEDIA_CATEGORY_STYLE t w = (a, w')"
        by (cases "uploadAndAnalyze R b MEDIA_CATEGORY_STYLE t w")
      let ?rs' = "case a of Success (m, c) \<Rightarrow> rs @ [\<lparr>category = MEDIA_CATEGORY_STYLE, mediaId = m, caption = c\<rparr>]
        | Failure _ \<Rightarrow> rs"
      have step: "uploadUserRefs R t (p # ps) rs w = uploadUserRefs R t ps ?rs' w'"
        by (rule uploadUserRefs_step [OF True Inr u])
      from Cons.prems(2) have fin: "length (calls (snd (uploadUserRefs R t ps ?rs' w'))) \<le> K"
        unfolding step .
      have "length (calls w') \<le> length (calls (snd (uploadUserRefs R t ps ?rs' w')))"
        by (rule uploadUserRefs_calls_mono)
      with fin uploadAndAnalyze_calls [OF u] have "length (calls w) < K" and "Suc (length (calls w)) < K"
        by arith+
      with Cons.prems(1) have "R' (length (calls w)) = R (length (calls w))"
        and "R' (Suc (length (calls w))) = R (Suc (length (calls w)))"
        by blast+
      then have "uploadAndAnalyze R' b MEDIA_CATEGORY_STYLE t w = uploadAndAnalyze R b MEDIA_CATEGORY_STYLE t w"
        by (rule uploadAndAnalyze_cong [where R' = R' and R = R and w = w])
      with u have u': "uploadAndAnalyze R' b MEDIA_CATEGORY_STYLE t w = (a, w')"
        by simp
      have step': "uploadUserRefs R' t (p # ps) rs w = uploadUserRefs R' t ps ?rs' w'"
        by (rule uploadUserRefs_step [OF True Inr u'])
      from Cons.IH [OF Cons.prems(1) fin] show ?thesis
        unfolding step step' .
    qed
  qed
qed

lemma remainingBackgrounds_same_file:
  assumes "remainingBackgrounds R dir sd t rs ss i0 res w = (Inr paths, w1)"
    and "remainingBackgrounds R' dir sd t rs ss i0 res w = (Inr paths', w2)"
    and "i0 \<le> i" and "i < length ss"
    and "slide_result R' (length (calls w) + (i - i0)) t rs sd (ss ! i) =
         slide_result R (length (calls w) + (i - i0)) t rs sd (ss ! i)"
  shows "files w2 (bg_path dir ss i) = files w1 (bg_path dir ss i)"
proof (cases "slide_result R (length (calls w) + (i - i0)) t rs sd (ss ! i)" rule: result_cases)
  case (1 e)
  with remainingBackgrounds_spec [OF assms(1)] remainingBackgrounds_spec [OF assms(2)] assms(3,4,5)
  show ?thesis by simp
next
  case 2
  then show ?thesis
    unfolding slide_result_def using images_of_response_nonempty by blast
next
  case (3 imgs)
  then have "lacks_encodedImage (slide_result R (length (calls w) + (i - i0)) t rs sd (ss ! i))"
    by (simp add: lacks_encodedImage_def)
  with remainingBackgrounds_spec [OF assms(1)] assms(3,4) show ?thesis by blast
next
  case (4 img imgs)
  with remainingBackgrounds_spec [OF assms(1)] remainingBackgrounds_spec [OF assms(2)] assms(3,4,5)
  show ?thesis by simp
qed

text \<open>
  C4: take a run of \<open>generateWhiskBackgrounds\<close> that returns a list, and a slide \<open>j\<close> with
  \<open>1 \<le> j \<le> N - 1\<close>. The request for slide \<open>j\<close> is the request number \<open>n - (N - j)\<close> of
  the run, \<open>n\<close> being the number of requests sent. Let a second remote service answer
  every other request as the first one does, and let the request for slide \<open>j\<close> fail
  with it. Then \<open>generateWhiskBackgrounds\<close> returns the same list of \<open>N\<close> paths with the
  second service and sends the same requests, so that the slides after \<open>j\<close> are still
  generated. The file at entry \<open>j\<close>, the path of slide \<open>j\<close>, is the fallback image of the
  type of slide \<open>j\<close>, and the file at every other entry, before or after \<open>j\<close>, generated
  or fallback, is the same as in the first run.
\<close>

theorem slide_failure_is_local:
  assumes "generateWhiskBackgrounds R dir sd rfs ss w = (Inr (Some paths), w1)"
    and "1 \<le> j" and "j < length ss"
    and "\<forall>k. k \<noteq> length (calls w1) - (length ss - j) \<longrightarrow> R' k = R k"
    and "images_of_response (R' (length (calls w1) - (length ss - j))
           (calls w1 ! (length (calls w1) - (length ss - j)))) = Failure e"
  shows "\<exists>w2. generateWhiskBackgrounds R' dir sd rfs ss w = (Inr (Some paths), w2) \<and>
    calls w2 = calls w1 \<and>
    length paths = length ss \<and>
    paths ! j = bg_path dir ss j \<and>
    files w2 (paths ! j) = Some (fallback_image (ss ! j)) \<and>
    (\<forall>i<length ss. i \<noteq> j \<longrightarrow> paths ! i = bg_path dir ss i \<and> files w2 (paths ! i) = files w1 (paths ! i))"
proof -
  from assms(1) obtain tok urs w0 img imgs wg a w4 where
    tok: "loadToken (tokenFile w) (clock w) = Some tok"
    and ne: "ss \<noteq> []"
    and u: "uploadUserRefs R (accessToken tok) (or_empty rfs) [] w = (Inr urs, w0)"
    and gen: "generateBackground R (buildBgPrompt sd (type (ss ! 0))) (accessToken tok) urs w0 =
       (Success (Some img # imgs), wg)"
    and ua: "uploadAndAnalyze R (Encoded img) MEDIA_CATEGORY_STYLE (accessToken tok)
       (saveBase64Image img (bg_path dir ss 0) wg) = (a, w4)"
    and rb: "remainingBackgrounds R dir sd (accessToken tok) (urs @ promoted a) ss 1 [bg_path dir ss 0] w4 =
       (Inr paths, w1)"
    by (rule generateWhiskBackgrounds_success)
  let ?t = "accessToken tok" and ?rs = "urs @ promoted a" and ?k0 = "length (calls w4)"
  let ?req = "\<lambda>i. bg_request ?t ?rs (buildBgPrompt sd (type (ss ! i)))"
  let ?idx = "length (calls w1) - (length ss - j)"
  obtain s0 rest where ss: "ss = s0 # rest" using ne by (cases ss) auto
  note spec = remainingBackgrounds_spec [OF rb]
  from spec have calls1: "calls w1 = calls w4 @ map ?req [1..<length ss]" by simp
  then have "length (calls w1) = ?k0 + (length ss - 1)" by simp
  with assms(2,3) have idx: "?idx = ?k0 + (j - 1)" by arith
  have below: "\<forall>k<?k0. R' k = R k"
    using assms(4) idx by simp
  have cg: "calls wg = calls w0 @ [bg_request ?t urs (buildBgPrompt sd (type (ss ! 0)))]"
    using gen by (auto simp add: generateBackground_eq)
  have c4: "?k0 = length (calls wg) + 2"
    using uploadAndAnalyze_calls [OF ua] by (simp add: saveBase64Image_def)
  have "length (calls (snd (uploadUserRefs R ?t (or_empty rfs) [] w))) \<le> ?k0"
    using u cg c4 by simp
  from uploadUserRefs_cong [OF below this] u
  have u': "uploadUserRefs R' ?t (or_empty rfs) [] w = (Inr urs, w0)" by simp
  have "length (calls w0) < ?k0" using cg c4 by simp
  with below have "R' (length (calls w0)) = R (length (calls w0))" by blast
  from generateBackground_cong [where R' = R' and R = R and w = w0, OF this] gen
  have gen': "generateBackground R' (buildBgPrompt sd (type (ss ! 0))) ?t urs w0 =
       (Success (Some img # imgs), wg)" by simp
  let ?w3 = "saveBase64Image img (bg_path dir ss 0) wg"
  have "length (calls ?w3) < ?k0" and "Suc (length (calls ?w3)) < ?k0"
    using c4 by (simp_all add: saveBase64Image_def)
  with below have "R' (length (calls ?w3)) = R (length (calls ?w3))"
    and "R' (Suc (length (calls ?w3))) = R (Suc (length (calls ?w3)))" by blast+
  from uploadAndAnalyze_cong [where R' = R' and R = R and w = ?w3, OF this] ua
  have ua': "uploadAndAnalyze R' (Encoded img) MEDIA_CATEGORY_STYLE ?t ?w3 = (a, w4)" by simp
  have j1: "j - 1 < length ss - 1" using assms(2,3) by arith
  have "calls w1 ! ?idx = map ?req [1..<length ss] ! (j - 1)"
    unfolding idx by (simp add: calls1 nth_append)
  also have "\<dots> = ?req (1 + (j - 1))"
    using j1 by (simp del: upt_Suc)
  finally have reqj: "calls w1 ! ?idx = ?req j" using assms(2) by simp
  from assms(5) [unfolded idx] reqj [unfolded idx]
  have failed: "slide_result R' (?k0 + (j - 1)) ?t ?rs sd (ss ! j) = Failure e"
    by (simp add: slide_result_def)
  have same: "slide_result R' (?k0 + (i - 1)) ?t ?rs sd (ss ! i) =
      slide_result R (?k0 + (i - 1)) ?t ?rs sd (ss ! i)" if "1 \<le> i" and "i \<noteq> j" for i
  proof -
    from that assms(2) have "?k0 + (i - 1) \<noteq> ?idx" unfolding idx by arith
    with assms(4) have "R' (?k0 + (i - 1)) = R (?k0 + (i - 1))" by blast
    then show ?thesis by (simp add: slide_result_def)
  qed
  have "\<forall>i. 1 \<le> i \<and> i < length ss \<longrightarrow>
      \<not> lacks_encodedImage (slide_result R' (?k0 + (i - 1)) ?t ?rs sd (ss ! i))"
  proof (intro allI impI)
    fix i assume i: "1 \<le> i \<and> i < length ss"
    show "\<not> lacks_encodedImage (slide_result R' (?k0 + (i - 1)) ?t ?rs sd (ss ! i))"
    proof (cases "i = j")
      case True
      with failed show ?thesis by (simp add: lacks_encodedImage_def)
    next
      case False
      from spec i have "\<not> lacks_encodedImage (slide_result R (?k0 + (i - 1)) ?t ?rs sd (ss ! i))"
        by blast
      with same [of i] i False show ?thesis by simp
    qed
  qed
  from remainingBackgrounds_returns [OF this, of dir "[bg_path dir ss 0]"]
  obtain paths' w2 where rb': "remainingBackgrounds R' dir sd ?t ?rs ss 1 [bg_path dir ss 0] w4 =
      (Inr paths', w2)"
    by blast
  note spec' = remainingBackgrounds_spec [OF rb']
  from spec spec' have rr: "paths' = paths" by simp
  from spec' calls1 have calls2: "calls w2 = calls w1" by simp
  have run': "generateWhiskBackgrounds R' dir sd rfs ss w = (Inr (Some paths), w2)"
    using generateWhiskBackgrounds_anchor_success
      [OF tok u' gen' [unfolded ss nth_Cons_0] ua' [unfolded ss] rb' [unfolded rr ss]]
    by (simp add: ss)
  have upt0: "[0..<length ss] = 0 # [1..<length ss]"
    using ne by (simp add: upt_conv_Cons)
  from spec have paths: "paths = map (bg_path dir ss) [0..<length ss]"
    by (simp add: upt0)
  then have len: "length paths = length ss" by simp
  from paths have nth: "\<And>i. i < length ss \<Longrightarrow> paths ! i = bg_path dir ss i" by simp
  from failed spec' assms(2,3) have fj: "files w2 (bg_path dir ss j) = Some (fallback_image (ss ! j))"
    by simp
  have others: "\<forall>i<length ss. i \<noteq> j \<longrightarrow>
      paths ! i = bg_path dir ss i \<and> files w2 (paths ! i) = files w1 (paths ! i)"
  proof (intro allI impI)
    fix i assume i: "i < length ss" and ij: "i \<noteq> j"
    have "files w2 (bg_path dir ss i) = files w1 (bg_path dir ss i)"
    proof (cases "i = 0")
      case True
      have "files w2 (bg_path dir ss 0) = files w4 (bg_path dir ss 0)"
        by (rule remainingBackgrounds_earlier [OF rb']) simp
      moreover have "files w1 (bg_path dir ss 0) = files w4 (bg_path dir ss 0)"
        by (rule remainingBackgrounds_earlier [OF rb]) simp
      ultimately show ?thesis using True by simp
    next
      case False
      then have i1: "1 \<le> i" by simp
      from remainingBackgrounds_same_file [OF rb rb' i1 i same [OF i1 ij]]
      show ?thesis .
    qed
    with nth [OF i] show "paths ! i = bg_path dir ss i \<and> files w2 (paths ! i) = files w1 (paths ! i)"
      by simp
  qed
  from run' calls2 len nth [OF assms(3)] fj others show ?thesis by auto
qed

subsection \<open>The requests of the loop over the later slides\<close>

text \<open>
  However the loop ends, it has sent the requests of the slides \<open>i\<close> to \<open>i + n - 1\<close>, in
  order and all with the same references; it has either thrown a \<open>TypeError\<close> or gone
  through all slides.
\<close>

lemma remainingBackgrounds_calls:
  "i \<le> length ss \<Longrightarrow> remainingBackgrounds R dir sd token rs ss i res w = (r, w') \<Longrightarrow>
     \<exists>n. i + n \<le> length ss \<and>
       calls w' = calls w @
         map (\<lambda>j. bg_request token rs (buildBgPrompt sd (type (ss ! j)))) [i..<i + n] \<and>
       (r = Inl TypeError \<or> ((\<exists>paths. r = Inr paths) \<and> i + n = length ss))"
proof (induction k \<equiv> "length ss - i" arbitrary: i res w)
  case 0
  then have nlt: "\<not> i < length ss" and eq: "i = length ss" by simp_all
  from nlt have "remainingBackgrounds R dir sd token rs ss i res w = (Inr res, w)"
    by (simp add: remainingBackgrounds.simps [of R dir sd token rs ss i])
  with "0.prems"(2) have "r = Inr res" and "w' = w"
    by simp_all
  with eq show ?case
    by (intro exI [of _ 0]) simp
next
  case (Suc k)
  then have lt: "i < length ss" and k: "k = length ss - (i + 1)" and le: "i + 1 \<le> length ss"
    by simp_all
  let ?req = "\<lambda>j. bg_request token rs (buildBgPrompt sd (type (ss ! j)))"
  let ?res = "slide_result R (length (calls w)) token rs sd (ss ! i)"
  show ?case
  proof (cases "lacks_encodedImage ?res")
    case True
    from remainingBackgrounds_throw [OF lt True, of dir res] Suc.prems(2)
    have "r = Inl TypeError" and "calls w' = calls w @ [?req i]"
      by auto
    with lt show ?thesis
      by (intro exI [of _ 1]) simp
  next
    case False
    let ?w2 = "w\<lparr>calls := calls w @ [?req i], files := (files w)(bg_path dir ss i \<mapsto>
      (case ?res of Success (Some x # _) \<Rightarrow> Encoded x | _ \<Rightarrow> fallback_image (ss ! i)))\<rparr>"
    from remainingBackgrounds_step [OF lt False, of dir res] Suc.prems(2)
    have rec: "remainingBackgrounds R dir sd token rs ss (i + 1) (res @ [bg_path dir ss i]) ?w2 = (r, w')"
      by simp
    from Suc.hyps(1) [OF k le rec] obtain n where
      n: "i + 1 + n \<le> length ss"
      and c: "calls w' = calls ?w2 @ map ?req [i + 1..<i + 1 + n]"
      and e: "r = Inl TypeError \<or> ((\<exists>paths. r = Inr paths) \<and> i + 1 + n = length ss)"
      by blast
    have "[i..<i + (n + 1)] = i # [i + 1..<i + 1 + n]"
      by (simp add: upt_conv_Cons)
    with c have "calls w' = calls w @ map ?req [i..<i + (n + 1)]"
      by simp
    moreover from n have "i + (n + 1) \<le> length ss" by simp
    moreover from e have "r = Inl TypeError \<or> ((\<exists>paths. r = Inr paths) \<and> i + (n + 1) = length ss)"
      by simp
    ultimately show ?thesis by blast
  qed
qed

text \<open>
  C9: with a valid credential and no reference image from the caller, when the
  generation of the anchor succeeds and the upload of the anchor image succeeds with
  media id \<open>m\<close> and caption \<open>c\<close>, \<open>generateWhiskBackgrounds\<close> sends these requests: the
  text-only generation of the anchor, the caption and the upload of the anchor image, and
  then, for the slides \<open>1\<close> to \<open>n\<close> in order, one request with references whose reference
  list is exactly the one style reference \<open>(m, c)\<close> of the anchor, sent to the
  single-reference model. Either \<open>n = N - 1\<close> and the run returns a list, or the run has
  thrown a \<open>TypeError\<close> after the request for slide \<open>n\<close>. It returns a list whenever no
  response to the request for a later slide has a first image without \<open>encodedImage\<close>,
  whether these requests succeed or fail.
\<close>

theorem anchor_is_the_only_reference:
  assumes "loadToken (tokenFile w) (clock w) = Some tok"
    and "or_empty rfs = []"
    and "generateImage R (buildBgPrompt sd (type s0)) ''16:9'' (accessToken tok) w =
           (Success (Some img # imgs), w2)"
    and "uploadAndAnalyze R (Encoded img) MEDIA_CATEGORY_STYLE (accessToken tok)
           (saveBase64Image img (bg_path dir (s0 # rest) 0) w2) = (Success (m, c), w4)"
  shows "\<exists>r w' n. generateWhiskBackgrounds R dir sd rfs (s0 # rest) w = (r, w') \<and>
    n \<le> length rest \<and>
    calls w' = calls w @
      [Generate (accessToken tok) ''IMAGEN_3_5'' ''IMAGE_ASPECT_RATIO_LANDSCAPE''
         (buildBgPrompt sd (type s0)),
       Caption (accessToken tok) ''MEDIA_CATEGORY_STYLE'' (Encoded img),
       Upload (accessToken tok) ''MEDIA_CATEGORY_STYLE'' (Encoded img)] @
      map (\<lambda>j. Recipe (accessToken tok) ''GEM_PIX'' ''IMAGE_ASPECT_RATIO_LANDSCAPE''
                 (buildBgPrompt sd (type ((s0 # rest) ! j)))
                 [\<lparr>category = ''MEDIA_CATEGORY_STYLE'', mediaId = m, caption = c\<rparr>])
        [1..<Suc n] \<and>
    (r = Inl TypeError \<or> ((\<exists>paths. r = Inr (Some paths)) \<and> n = length rest)) \<and>
    ((\<forall>j. 1 \<le> j \<and> j < length (s0 # rest) \<longrightarrow>
        \<not> lacks_encodedImage (slide_result R (length (calls w4) + (j - 1)) (accessToken tok)
            [\<lparr>category = ''MEDIA_CATEGORY_STYLE'', mediaId = m, caption = c\<rparr>] sd ((s0 # rest) ! j))) \<longrightarrow>
     (\<exists>paths. r = Inr (Some paths)))"
proof -
  let ?t = "accessToken tok" and ?ss = "s0 # rest"
  let ?ref = "\<lparr>category = MEDIA_CATEGORY_STYLE, mediaId = m, caption = c\<rparr>"
  have u: "uploadUserRefs R ?t (or_empty rfs) [] w = (Inr [], w)"
    by (simp add: assms(2))
  have gen: "generateBackground R (buildBgPrompt sd (type s0)) ?t [] w = (Success (Some img # imgs), w2)"
    using assms(3) by (simp add: generateBackground_def)
  then have c2: "calls w2 = calls w @ [bg_request ?t [] (buildBgPrompt sd (type s0))]"
    by (auto simp add: generateBackground_eq)
  have c4: "calls w4 = calls w2 @ [Caption ?t MEDIA_CATEGORY_STYLE (Encoded img),
      Upload ?t MEDIA_CATEGORY_STYLE (Encoded img)]"
    using uploadAndAnalyze_world [of R "Encoded img" MEDIA_CATEGORY_STYLE ?t
        "saveBase64Image img (bg_path dir ?ss 0) w2"] assms(4)
    by (simp add: saveBase64Image_def)
  have refs: "[] @ promoted (Success (m, c)) =
      [\<lparr>category = ''MEDIA_CATEGORY_STYLE'', mediaId = m, caption = c\<rparr>]"
    by (simp add: promoted_def MEDIA_CATEGORY_STYLE_def)
  obtain rr w5 where rb: "remainingBackgrounds R dir sd ?t ([] @ promoted (Success (m, c))) ?ss 1
      [bg_path dir ?ss 0] w4 = (rr, w5)"
    by (cases "remainingBackgrounds R dir sd ?t ([] @ promoted (Success (m, c))) ?ss 1
      [bg_path dir ?ss 0] w4")
  have "1 \<le> length ?ss" by simp
  from remainingBackgrounds_calls [OF this rb] obtain n where
    n: "1 + n \<le> length ?ss"
    and c5: "calls w5 = calls w4 @
      map (\<lambda>j. bg_request ?t ([] @ promoted (Success (m, c))) (buildBgPrompt sd (type (?ss ! j))))
        [1..<1 + n]"
    and e: "rr = Inl TypeError \<or> ((\<exists>paths. rr = Inr paths) \<and> 1 + n = length ?ss)"
    by blast
  let ?r = "case rr of Inl e \<Rightarrow> Inl e | Inr paths \<Rightarrow> Inr (Some paths)"
  have req: "bg_request ?t [\<lparr>category = ''MEDIA_CATEGORY_STYLE'', mediaId = m, caption = c\<rparr>] p =
      Recipe ?t ''GEM_PIX'' ''IMAGE_ASPECT_RATIO_LANDSCAPE'' p
        [\<lparr>category = ''MEDIA_CATEGORY_STYLE'', mediaId = m, caption = c\<rparr>]" for p
    by (simp add: bg_request_def MODELS_refSingle_def)
  have req0: "bg_request ?t [] p =
      Generate ?t ''IMAGEN_3_5'' ''IMAGE_ASPECT_RATIO_LANDSCAPE'' p" for p
    by (simp add: bg_request_def MODELS_default_def)
  have run: "generateWhiskBackgrounds R dir sd rfs ?ss w = (?r, w5)"
    by (rule generateWhiskBackgrounds_anchor_success [OF assms(1) u gen assms(4) rb])
  moreover from n have "n \<le> length rest" by simp
  moreover have "calls w5 = calls w @
      [Generate ?t ''IMAGEN_3_5'' ''IMAGE_ASPECT_RATIO_LANDSCAPE'' (buildBgPrompt sd (type s0)),
       Caption ?t ''MEDIA_CATEGORY_STYLE'' (Encoded img),
       Upload ?t ''MEDIA_CATEGORY_STYLE'' (Encoded img)] @
      map (\<lambda>j. Recipe ?t ''GEM_PIX'' ''IMAGE_ASPECT_RATIO_LANDSCAPE''
                 (buildBgPrompt sd (type (?ss ! j)))
                 [\<lparr>category = ''MEDIA_CATEGORY_STYLE'', mediaId = m, caption = c\<rparr>])
        [1..<Suc n]"
    unfolding c5 c4 c2 refs req req0 by (simp add: MEDIA_CATEGORY_STYLE_def)
  moreover from e have "?r = Inl TypeError \<or> ((\<exists>paths. ?r = Inr (Some paths)) \<and> n = length rest)"
    by auto
  moreover have "(\<forall>j. 1 \<le> j \<and> j < length ?ss \<longrightarrow>
        \<not> lacks_encodedImage (slide_result R (length (calls w4) + (j - 1)) ?t
            [\<lparr>category = ''MEDIA_CATEGORY_STYLE'', mediaId = m, caption = c\<rparr>] sd (?ss ! j))) \<longrightarrow>
     (\<exists>paths. ?r = Inr (Some paths))"
  proof
    assume "\<forall>j. 1 \<le> j \<and> j < length ?ss \<longrightarrow>
        \<not> lacks_encodedImage (slide_result R (length (calls w4) + (j - 1)) ?t
            [\<lparr>category = ''MEDIA_CATEGORY_STYLE'', mediaId = m, caption = c\<rparr>] sd (?ss ! j))"
    from remainingBackgrounds_returns [OF this, of dir "[bg_path dir ?ss 0]"] rb [unfolded refs]
    show "\<exists>paths. ?r = Inr (Some paths)" by auto
  qed
  ultimately show ?thesis by blast
qed

subsection \<open>When the background phase returns a list\<close>

lemma uploadUserRefs_returns:
  "(\<forall>p \<in> set ps. p \<notin> unreadable w) \<Longrightarrow>
     \<exists>urs w'. uploadUserRefs R t ps rs w = (Inr urs, w')"
proof (induction ps arbitrary: rs w)
  case Nil
  show ?case by simp
next
  case (Cons p ps)
  then have p: "p \<notin> unreadable w" and ps: "\<forall>q \<in> set ps. q \<notin> unreadable w"
    by simp_all
  show ?case
  proof (cases "existsSync w p")
    case False
    from Cons.IH [OF ps, of rs] show ?thesis
      unfolding uploadUserRefs_skip [OF False] .
  next
    case True
    with p obtain b where b: "files w p = Some b"
      by (auto simp add: existsSync_def)
    with p have rd: "readFileSync w p = Inr b"
      by (simp add: readFileSync_def)
    obtain a w' where u: "uploadAndAnalyze R b MEDIA_CATEGORY_STYLE t w = (a, w')"
      by (cases "uploadAndAnalyze R b MEDIA_CATEGORY_STYLE t w")
    then have "w' = snd (uploadAndAnalyze R b MEDIA_CATEGORY_STYLE t w)" by simp
    then have "unreadable w' = unreadable w" by (simp add: uploadAndAnalyze_world)
    with ps have "\<forall>q \<in> set ps. q \<notin> unreadable w'" by simp
    from Cons.IH [OF this] show ?thesis
      unfolding uploadUserRefs_step [OF True rd u] .
  qed
qed

text \<open>
  Phase 1 of \<open>buildPresentation\<close> returns a list, which then has one entry for each slide,
  when no reference path of the caller is one that cannot be read and no response of the
  remote service carries a first image without \<open>encodedImage\<close>, whatever else fails.
\<close>

lemma backgrounds_returned:
  assumes "cfg_slides cfg \<noteq> []"
    and "\<forall>p \<in> set (or_empty (cfg_refs cfg)). p \<notin> unreadable w"
    and "\<And>k req. \<not> lacks_encodedImage (images_of_response (R k req))"
  shows "\<exists>backgrounds w'. buildPresentation_backgrounds R cfg w = (Inr backgrounds, w')"
proof -
  let ?dir = "images_dir cfg w" and ?ss = "cfg_slides cfg" and ?sd = "cfg_style cfg"
  have "\<exists>x w1. generateWhiskBackgrounds R ?dir ?sd (cfg_refs cfg) ?ss w = (Inr x, w1)"
  proof (cases "loadToken (tokenFile w) (clock w)")
    case None
    then show ?thesis by (simp add: generateWhiskBackgrounds_no_token)
  next
    case (Some tok)
    obtain s0 rest where ss: "?ss = s0 # rest" using assms(1) by (cases ?ss) auto
    from uploadUserRefs_returns [OF assms(2)] obtain urs w1 where
      u: "uploadUserRefs R (accessToken tok) (or_empty (cfg_refs cfg)) [] w = (Inr urs, w1)"
      by blast
    obtain res w2 where gen:
      "generateBackground R (buildBgPrompt ?sd (type s0)) (accessToken tok) urs w1 = (res, w2)"
      by (cases "generateBackground R (buildBgPrompt ?sd (type s0)) (accessToken tok) urs w1")
    from gen have res: "res = images_of_response (R (length (calls w1))
        (bg_request (accessToken tok) urs (buildBgPrompt ?sd (type s0))))"
      by (simp add: generateBackground_eq)
    show ?thesis
    proof (cases res rule: result_cases)
      case (1 e)
      from generateWhiskBackgrounds_anchor_failure [OF Some u gen [unfolded 1], of ?dir rest]
      show ?thesis unfolding ss by blast
    next
      case 2
      with res show ?thesis
        using images_of_response_nonempty by metis
    next
      case (3 imgs)
      with res assms(3) show ?thesis
        by (metis lacks_encodedImage_iff)
    next
      case (4 img imgs)
      obtain a w4 where ua: "uploadAndAnalyze R (Encoded img) MEDIA_CATEGORY_STYLE (accessToken tok)
          (saveBase64Image img (bg_path ?dir (s0 # rest) 0) w2) = (a, w4)"
        by (cases "uploadAndAnalyze R (Encoded img) MEDIA_CATEGORY_STYLE (accessToken tok)
          (saveBase64Image img (bg_path ?dir (s0 # rest) 0) w2)")
      have "\<forall>j. 1 \<le> j \<and> j < length (s0 # rest) \<longrightarrow>
          \<not> lacks_encodedImage (slide_result R (length (calls w4) + (j - 1)) (accessToken tok)
            (urs @ promoted a) ?sd ((s0 # rest) ! j))"
        using assms(3) by (simp add: slide_result_def)
      from remainingBackgrounds_returns [OF this, of ?dir "[bg_path ?dir (s0 # rest) 0]"]
      obtain paths w5 where rb: "remainingBackgrounds R ?dir ?sd (accessToken tok) (urs @ promoted a)
          (s0 # rest) 1 [bg_path ?dir (s0 # rest) 0] w4 = (Inr paths, w5)"
        by blast
      from generateWhiskBackgrounds_anchor_success [OF Some u gen [unfolded 4] ua rb]
      show ?thesis unfolding ss by simp
    qed
  qed
  then obtain x w1 where
    gw: "generateWhiskBackgrounds R ?dir ?sd (cfg_refs cfg) ?ss w = (Inr x, w1)"
    by blast
  show ?thesis
  proof (cases x)
    case None
    obtain bgs w2 where "fallbackBackgrounds ?dir ?ss 0 [] w1 = (bgs, w2)"
      by (cases "fallbackBackgrounds ?dir ?ss 0 [] w1")
    with gw None show ?thesis
      by (simp add: buildPresentation_backgrounds_unfold)
  next
    case (Some paths)
    with gw show ?thesis
      by (simp add: buildPresentation_backgrounds_unfold)
  qed
qed

section \<open>Example runs\<close>

lemma example_token:
  "loadToken (tokenFile example_world) (clock example_world) =
     Some \<lparr>accessToken = ''token'', expiresAt = 2000000\<rparr>"
  by (simp add: example_world_def loadToken_def loadToken_try_def)

lemma example_world_fields:
  "calls example_world = []" "files example_world = Map.empty"
  by (simp_all add: example_world_def)

lemma example_config_fields:
  "cfg_slides example_config = example_slides" "cfg_refs example_config = None"
  "cfg_style example_config = ''dark minimalist''"
  "images_dir example_config w = ''/out/outputs/deck/images''"
  by (simp_all add: example_config_def images_dir_def path_join_def)

lemma example_slides_fields:
  "length example_slides = 3"
  "example_slides = example_slide ''title'' # [example_slide ''content'', example_slide ''data'']"
  "example_slides ! 0 = example_slide ''title''"
  "example_slides ! 1 = example_slide ''content''"
  "example_slides ! 2 = example_slide ''data''"
  "type (example_slide t) = t"
  by (simp_all add: example_slides_def example_slide_def)

lemma directory_world_fields:
  "loadToken (tokenFile world_with_directory) (clock world_with_directory) =
     Some \<lparr>accessToken = ''token'', expiresAt = 2000000\<rparr>"
  "existsSync world_with_directory ''/tmp''"
  "readFileSync world_with_directory ''/tmp'' = Inl IOError"
  by (simp_all add: world_with_directory_def example_world_def loadToken_def loadToken_try_def
      existsSync_def readFileSync_def)

lemma directory_config_fields:
  "cfg_slides config_with_directory = example_slides"
  "cfg_refs config_with_directory = Some [''/tmp'']"
  by (simp_all add: config_with_directory_def example_config_def)

text \<open>
  C1: for \<open>N \<ge> 1\<close> slides, phase 1 of \<open>buildPresentation\<close> is to return a list of \<open>N\<close>
  backgrounds whatever fails on the way. It does not when a reference path exists and
  cannot be read. Take the three slides and the valid credential of the examples, the
  directory \<open>/tmp\<close> as the one reference image, and a remote service that answers every
  request: \<open>existsSync\<close> lets the path through, \<open>readFileSync\<close> throws, nothing catches the
  error, and phase 1 ends with it. There is no list of backgrounds, and the world is as it
  was: no request has been sent and no fallback image has been written.
\<close>

theorem unreadable_reference_ends_build:
  "length (cfg_slides config_with_directory) = 3 \<and>
   cfg_refs config_with_directory = Some [''/tmp''] \<and>
   loadToken (tokenFile world_with_directory) (clock world_with_directory) =
     Some \<lparr>accessToken = ''token'', expiresAt = 2000000\<rparr> \<and>
   existsSync world_with_directory ''/tmp'' \<and>
   generateWhiskBackgrounds remote_up (images_dir config_with_directory world_with_directory)
       (cfg_style config_with_directory) (cfg_refs config_with_directory)
       (cfg_slides config_with_directory) world_with_directory =
     (Inl IOError, world_with_directory) \<and>
   buildPresentation_backgrounds remote_up config_with_directory world_with_directory =
     (Inl IOError, world_with_directory)"
  by (simp add: buildPresentation_backgrounds_unfold generateWhiskBackgrounds_def
      directory_world_fields directory_config_fields example_slides_fields(1) or_empty_def)

text \<open>
  The build ends in the same way, with a \<open>TypeError\<close>, when the response to the request for
  the anchor carries an image object without \<open>encodedImage\<close>: the one request has been
  sent, and there is no list of backgrounds.
\<close>

lemma missing_encodedImage_ends_build:
  "buildPresentation_backgrounds remote_no_encodedImage example_config example_world =
     (Inl TypeError,
      example_world\<lparr>calls :=
        [Generate ''token'' ''IMAGEN_3_5'' ''IMAGE_ASPECT_RATIO_LANDSCAPE''
           (buildBgPrompt ''dark minimalist'' ''title'')]\<rparr>)"
  by (simp add: buildPresentation_backgrounds_unfold generateWhiskBackgrounds_def example_token
      example_config_fields example_slides_def example_slide_def or_empty_def
      generateBackground_eq bg_request_def images_of_response_def remote_no_encodedImage_def
      ok_body_def example_world_fields MODELS_default_def Let_def)

lemma example_no_token: "loadToken (tokenFile no_token_world) (clock no_token_world) = None"
  by (simp add: no_token_world_def loadToken_def loadToken_try_def)

theorem no_token_all_fallback_witness:
  "loadToken (tokenFile no_token_world) (clock no_token_world) = None \<and>
   generateWhiskBackgrounds remote_up ''/out'' ''dark'' None example_slides no_token_world =
     (Inr None, no_token_world) \<and>
   (\<exists>backgrounds w'.
      buildPresentation_backgrounds remote_up example_config no_token_world = (Inr backgrounds, w') \<and>
      calls w' = [] \<and> length backgrounds = 3 \<and>
      files w' (backgrounds ! 0) = Some (fallback_image (example_slide ''title'')))"
proof -
  note t = no_token_all_fallback [OF example_no_token, of remote_up "''/out''" "''dark''" None example_slides
      example_config]
  have c: "calls no_token_world = []"
    by (simp add: no_token_world_def example_world_def)
  from t obtain backgrounds w' where
    b: "buildPresentation_backgrounds remote_up example_config no_token_world = (Inr backgrounds, w')"
      "calls w' = calls no_token_world"
      "length backgrounds = length (cfg_slides example_config)"
      "\<forall>i<length (cfg_slides example_config).
          backgrounds ! i = bg_path (images_dir example_config no_token_world) (cfg_slides example_config) i \<and>
          files w' (backgrounds ! i) = Some (fallback_image (cfg_slides example_config ! i))"
    by blast
  have "0 < length (cfg_slides example_config)"
    by (simp add: example_config_fields example_slides_fields(1))
  from b(4) [rule_format, OF this]
  have "files w' (backgrounds ! 0) = Some (fallback_image (cfg_slides example_config ! 0))"
    by blast
  then have "files w' (backgrounds ! 0) = Some (fallback_image (example_slide ''title''))"
    by (simp add: example_config_fields example_slides_fields)
  with b c t example_no_token show ?thesis
    by (auto simp add: example_config_fields example_slides_fields(1))
qed

theorem anchor_failure_all_fallback_witness:
  "generateWhiskBackgrounds remote_down (images_dir example_config example_world)
     (cfg_style example_config) (cfg_refs example_config) (cfg_slides example_config) example_world =
     (Inr None,
      example_world\<lparr>calls := [bg_request ''token'' [] (buildBgPrompt ''dark minimalist'' ''title'')]\<rparr>) \<and>
   (\<exists>backgrounds w'.
      buildPresentation_backgrounds remote_down example_config example_world = (Inr backgrounds, w') \<and>
      length backgrounds = 3 \<and>
      files w' (backgrounds ! 0) = Some (fallback_image (example_slide ''title'')))"
proof -
  let ?tok = "\<lparr>accessToken = ''token'', expiresAt = 2000000\<rparr>"
  let ?w2 = "example_world\<lparr>calls := [bg_request ''token'' [] (buildBgPrompt ''dark minimalist'' ''title'')]\<rparr>"
  have h2: "cfg_slides example_config =
      example_slide ''title'' # [example_slide ''content'', example_slide ''data'']"
    by (simp add: example_config_fields example_slides_fields(2))
  have h3: "uploadUserRefs remote_down (accessToken ?tok) (or_empty (cfg_refs example_config)) []
      example_world = (Inr [], example_world)"
    by (simp add: example_config_fields or_empty_def)
  have h4: "generateBackground remote_down
      (buildBgPrompt (cfg_style example_config) (type (example_slide ''title''))) (accessToken ?tok) []
      example_world = (Failure ''fetch failed'', ?w2)"
    by (simp add: generateBackground_eq images_of_response_def remote_down_def example_config_fields
        example_slides_fields example_world_fields)
  note t = anchor_failure_all_fallback [OF example_token h2 h3 h4]
  from t obtain backgrounds w' where
    b: "buildPresentation_backgrounds remote_down example_config example_world = (Inr backgrounds, w')"
      "length backgrounds = length (cfg_slides example_config)"
      "\<forall>i<length (cfg_slides example_config).
          backgrounds ! i = bg_path (images_dir example_config example_world) (cfg_slides example_config) i \<and>
          files w' (backgrounds ! i) = Some (fallback_image (cfg_slides example_config ! i))"
    by blast
  have "0 < length (cfg_slides example_config)"
    by (simp add: example_config_fields example_slides_fields(1))
  from b(3) [rule_format, OF this]
  have "files w' (backgrounds ! 0) = Some (fallback_image (cfg_slides example_config ! 0))"
    by blast
  then have "files w' (backgrounds ! 0) = Some (fallback_image (example_slide ''title''))"
    by (simp add: example_config_fields example_slides_fields)
  moreover from b(2) have "length backgrounds = 3"
    by (simp add: example_config_fields example_slides_fields(1))
  ultimately show ?thesis using t b(1) by blast
qed

lemma example_run_up:
  "\<exists>w'. generateWhiskBackgrounds remote_up ''/out'' ''dark'' None example_slides example_world =
     (Inr (Some [''/out/bg-0-title.png'', ''/out/bg-1-content.png'', ''/out/bg-2-data.png'']), w') \<and>
     length (calls w') = 5"
  by (simp add: generateWhiskBackgrounds_def example_token or_empty_def example_slides_def
     example_slide_def generateBackground_eq Let_def bg_request_def images_of_response_def remote_up_def
     example_world_fields ok_body_def saveBase64Image_def uploadAndAnalyze_def getCaptionForImage_def
     uploadReference_def fetch_def remainingBackgrounds.simps generateFallbackBackground_def
     show_nat_digits bg_name_def path_join_def)

theorem slide_failure_is_local_witness:
  "\<exists>w1 w2.
     generateWhiskBackgrounds remote_up ''/out'' ''dark'' None example_slides example_world =
       (Inr (Some [''/out/bg-0-title.png'', ''/out/bg-1-content.png'', ''/out/bg-2-data.png'']), w1) \<and>
     generateWhiskBackgrounds remote_no_data ''/out'' ''dark'' None example_slides example_world =
       (Inr (Some [''/out/bg-0-title.png'', ''/out/bg-1-content.png'', ''/out/bg-2-data.png'']), w2) \<and>
     files w2 ''/out/bg-2-data.png'' = Some (fallback_image (example_slide ''data'')) \<and>
     files w2 ''/out/bg-1-content.png'' = files w1 ''/out/bg-1-content.png'' \<and>
     files w2 ''/out/bg-0-title.png'' = files w1 ''/out/bg-0-title.png''"
proof -
  let ?paths = "[''/out/bg-0-title.png'', ''/out/bg-1-content.png'', ''/out/bg-2-data.png'']"
  from example_run_up obtain w1 where
    run: "generateWhiskBackgrounds remote_up ''/out'' ''dark'' None example_slides example_world =
      (Inr (Some ?paths), w1)"
    and len: "length (calls w1) = 5"
    by blast
  have idx: "length (calls w1) - (length example_slides - 2) = 4"
    by (simp add: len example_slides_fields(1))
  have h2: "1 \<le> (2::nat)" and h3: "2 < length example_slides"
    by (simp_all add: example_slides_fields(1))
  have h4: "\<forall>k. k \<noteq> length (calls w1) - (length example_slides - 2) \<longrightarrow> remote_no_data k = remote_up k"
    unfolding idx by (simp add: remote_no_data_def remote_up_def fun_eq_iff)
  have h5: "images_of_response (remote_no_data (length (calls w1) - (length example_slides - 2))
      (calls w1 ! (length (calls w1) - (length example_slides - 2)))) =
      Failure (''HTTP '' @ show_nat 503 @ '': '' @ ''busy'')"
    unfolding idx by (simp add: remote_no_data_def images_of_response_def)
  from slide_failure_is_local [OF run h2 h3 h4 h5] obtain w2 where
    run2: "generateWhiskBackgrounds remote_no_data ''/out'' ''dark'' None example_slides example_world =
      (Inr (Some ?paths), w2)"
    and fb: "files w2 (?paths ! 2) = Some (fallback_image (example_slides ! 2))"
    and others: "\<forall>i<length example_slides. i \<noteq> 2 \<longrightarrow>
      ?paths ! i = bg_path ''/out'' example_slides i \<and> files w2 (?paths ! i) = files w1 (?paths ! i)"
    by blast
  have lt: "0 < length example_slides" "1 < length example_slides"
    by (simp_all add: example_slides_fields(1))
  have ne: "(0::nat) \<noteq> 2" "(1::nat) \<noteq> 2"
    by simp_all
  note others [rule_format, OF lt(1) ne(1), THEN conjunct2]
    others [rule_format, OF lt(2) ne(2), THEN conjunct2]
  moreover have "?paths ! 0 = ''/out/bg-0-title.png''" "?paths ! 1 = ''/out/bg-1-content.png''"
    "?paths ! 2 = ''/out/bg-2-data.png''" "example_slides ! 2 = example_slide ''data''"
    by (simp_all add: example_slides_fields)
  ultimately have "files w2 ''/out/bg-2-data.png'' = Some (fallback_image (example_slide ''data''))"
    and "files w2 ''/out/bg-1-content.png'' = files w1 ''/out/bg-1-content.png''"
    and "files w2 ''/out/bg-0-title.png'' = files w1 ''/out/bg-0-title.png''"
    using fb by metis+
  with run run2 show ?thesis by blast
qed

theorem anchor_is_the_only_reference_witness:
  "\<exists>paths w'.
     generateWhiskBackgrounds remote_up ''/out'' ''dark'' None example_slides example_world =
       (Inr (Some paths), w') \<and>
     calls w' =
       [Generate ''token'' ''IMAGEN_3_5'' ''IMAGE_ASPECT_RATIO_LANDSCAPE'' (buildBgPrompt ''dark'' ''title''),
        Caption ''token'' ''MEDIA_CATEGORY_STYLE'' (Encoded ''aW1hZ2U=''),
        Upload ''token'' ''MEDIA_CATEGORY_STYLE'' (Encoded ''aW1hZ2U=''),
        Recipe ''token'' ''GEM_PIX'' ''IMAGE_ASPECT_RATIO_LANDSCAPE'' (buildBgPrompt ''dark'' ''content'')
          [\<lparr>category = ''MEDIA_CATEGORY_STYLE'', mediaId = ''media-1'', caption = ''a caption''\<rparr>],
        Recipe ''token'' ''GEM_PIX'' ''IMAGE_ASPECT_RATIO_LANDSCAPE'' (buildBgPrompt ''dark'' ''data'')
          [\<lparr>category = ''MEDIA_CATEGORY_STYLE'', mediaId = ''media-1'', caption = ''a caption''\<rparr>]]"
proof -
  let ?tok = "\<lparr>accessToken = ''token'', expiresAt = 2000000\<rparr>"
  let ?s0 = "example_slide ''title''"
  let ?rest = "[example_slide ''content'', example_slide ''data'']"
  let ?w2 = "example_world\<lparr>calls := calls example_world @
      [Generate ''token'' MODELS_default ''IMAGE_ASPECT_RATIO_LANDSCAPE'' (buildBgPrompt ''dark'' (type ?s0))]\<rparr>"
  let ?w3 = "saveBase64Image ''aW1hZ2U='' (bg_path ''/out'' (?s0 # ?rest) 0) ?w2"
  let ?w4 = "snd (uploadAndAnalyze remote_up (Encoded ''aW1hZ2U='') MEDIA_CATEGORY_STYLE (accessToken ?tok) ?w3)"
  have h2: "or_empty (None :: string list option) = []"
    by (simp add: or_empty_def)
  have h3: "generateImage remote_up (buildBgPrompt ''dark'' (type ?s0)) ''16:9'' (accessToken ?tok)
      example_world = (Success (Some ''aW1hZ2U='' # []), ?w2)"
    by (simp add: generateImage_def fetch_def images_of_response_def remote_up_def ok_body_def
        or_empty_def normalizeAspectRatio_16_9)
  have "fst (uploadAndAnalyze remote_up (Encoded ''aW1hZ2U='') MEDIA_CATEGORY_STYLE (accessToken ?tok) ?w3) =
      Success (''media-1'', ''a caption'')"
    by (simp add: uploadAndAnalyze_def getCaptionForImage_def uploadReference_def fetch_def
        remote_up_def ok_body_def or_empty_def Let_def)
  then have h4: "uploadAndAnalyze remote_up (Encoded ''aW1hZ2U='') MEDIA_CATEGORY_STYLE (accessToken ?tok) ?w3 =
      (Success (''media-1'', ''a caption''), ?w4)"
    by (simp add: prod_eq_iff)
  have h5: "\<forall>j. 1 \<le> j \<and> j < length (?s0 # ?rest) \<longrightarrow>
      \<not> lacks_encodedImage (slide_result remote_up (length (calls ?w4) + (j - 1)) (accessToken ?tok)
          [\<lparr>category = ''MEDIA_CATEGORY_STYLE'', mediaId = ''media-1'', caption = ''a caption''\<rparr>]
          ''dark'' ((?s0 # ?rest) ! j))"
    by (simp add: lacks_encodedImage_def slide_result_def images_of_response_def remote_up_def
        ok_body_def or_empty_def)
  from anchor_is_the_only_reference [OF example_token h2 h3 h4] obtain r w' n where
    run: "generateWhiskBackgrounds remote_up ''/out'' ''dark'' None (?s0 # ?rest) example_world = (r, w')"
    and c: "calls w' = calls example_world @
      [Generate (accessToken ?tok) ''IMAGEN_3_5'' ''IMAGE_ASPECT_RATIO_LANDSCAPE''
         (buildBgPrompt ''dark'' (type ?s0)),
       Caption (accessToken ?tok) ''MEDIA_CATEGORY_STYLE'' (Encoded ''aW1hZ2U=''),
       Upload (accessToken ?tok) ''MEDIA_CATEGORY_STYLE'' (Encoded ''aW1hZ2U='')] @
      map (\<lambda>j. Recipe (accessToken ?tok) ''GEM_PIX'' ''IMAGE_ASPECT_RATIO_LANDSCAPE''
                 (buildBgPrompt ''dark'' (type ((?s0 # ?rest) ! j)))
                 [\<lparr>category = ''MEDIA_CATEGORY_STYLE'', mediaId = ''media-1'', caption = ''a caption''\<rparr>])
        [1..<Suc n]"
    and e: "r = Inl TypeError \<or> ((\<exists>paths. r = Inr (Some paths)) \<and> n = length ?rest)"
    and l: "(\<forall>j. 1 \<le> j \<and> j < length (?s0 # ?rest) \<longrightarrow>
        \<not> lacks_encodedImage (slide_result remote_up (length (calls ?w4) + (j - 1)) (accessToken ?tok)
            [\<lparr>category = ''MEDIA_CATEGORY_STYLE'', mediaId = ''media-1'', caption = ''a caption''\<rparr>]
            ''dark'' ((?s0 # ?rest) ! j))) \<longrightarrow>
      (\<exists>paths. r = Inr (Some paths))"
    by blast
  from l h5 obtain paths where r: "r = Inr (Some paths)" by blast
  with e have n: "n = 2" by simp
  have up: "[1..<Suc 2] = [1, 2]"
    by (simp add: upt_conv_Cons)
  from run r c show ?thesis
    unfolding n up
    by (simp add: example_slides_fields example_world_fields)
qed

end
